(* ===== verification/Prelude.thy ===== *)
theory Prelude
  imports Main "HOL-Library.Word"
begin

text \<open>
  Shared vocabulary of the development: the byte type the WebSocket code reads from its
  \<open>QTcpSocket\<close>, the conversions between bytes and the characters of \<open>QString\<close>
  (ASCII only), the few \<open>QByteArray\<close>/\<open>QString\<close> operations the code calls
  (\<open>remove\<close>, \<open>chop\<close>, \<open>toLower\<close>, \<open>QString::number\<close>, \<open>toInt\<close>), the
  big-endian 16-bit read \<open>qFromBigEndian<quint16>\<close>, and the bit masks of the frame
  header applied to a sign-extended \<open>char\<close>.  The collection \<open>wire_simps\<close> gathers the
  facts that evaluate these on concrete bytes; the component proofs use it.
\<close>

unbundle bit_operations_syntax

named_theorems wire_simps "evaluation facts for bytes, masks and Qt string helpers"

type_synonym byte = "8 word"

subsection \<open>Bytes and characters\<close>

text \<open>\<open>QString::fromUtf8\<close> and \<open>QString::toUtf8\<close> restricted to ASCII text: one byte is
  one character.\<close>

definition byte_to_char :: "byte \<Rightarrow> char" where
  "byte_to_char b = char_of (unat b)"

definition char_to_byte :: "char \<Rightarrow> byte" where
  "char_to_byte c = word_of_nat (of_char c)"

abbreviation from_bytes :: "byte list \<Rightarrow> string" where
  "from_bytes bs \<equiv> map byte_to_char bs"

abbreviation to_bytes :: "string \<Rightarrow> byte list" where
  "to_bytes s \<equiv> map char_to_byte s"

subsection \<open>Qt container helpers\<close>

text \<open>\<open>QByteArray::remove(pos, len)\<close> and \<open>QByteArray::chop(n)\<close>.\<close>

definition ba_remove :: "nat \<Rightarrow> nat \<Rightarrow> 'a list \<Rightarrow> 'a list" where
  "ba_remove pos len xs = take pos xs @ drop (pos + len) xs"

definition ba_chop :: "nat \<Rightarrow> 'a list \<Rightarrow> 'a list" where
  "ba_chop n xs = take (length xs - n) xs"

text \<open>\<open>QString::toLower\<close> on ASCII letters.\<close>

definition lower_char :: "char \<Rightarrow> char" where
  "lower_char c = (let n = (of_char c :: nat) in if 65 \<le> n \<and> n \<le> 90 then char_of (n + 32) else c)"

abbreviation lower_string :: "string \<Rightarrow> string" where
  "lower_string s \<equiv> map lower_char s"

text \<open>\<open>QString::number\<close> for a non-negative port number.\<close>

fun dec_string :: "nat \<Rightarrow> string" where
  "dec_string n =
     (if n < 10 then [char_of (48 + n)] else dec_string (n div 10) @ [char_of (48 + n mod 10)])"

declare dec_string.simps [simp del]

text \<open>\<open>QString::toInt\<close> on a string of decimal digits (the empty string gives 0, as a
  failed conversion does).\<close>

definition digits_value :: "string \<Rightarrow> nat" where
  "digits_value ds = foldl (\<lambda>acc d. acc * 10 + ((of_char d :: nat) - 48)) 0 ds"

definition is_digit :: "char \<Rightarrow> bool" where
  "is_digit c \<longleftrightarrow> 48 \<le> (of_char c :: nat) \<and> (of_char c :: nat) \<le> 57"

text \<open>The characters of PCRE's whitespace class (space, tab, LF, VT, FF, CR).\<close>

definition is_space :: "char \<Rightarrow> bool" where
  "is_space c \<longleftrightarrow> c \<in> {CHR '' '', CHR 0x09, CHR 0x0A, CHR 0x0B, CHR 0x0C, CHR 0x0D}"

subsection \<open>Frame header bits\<close>

text \<open>
  \<open>data[0] & FIN\<close> and its kin promote the signed \<open>char\<close> to \<open>int\<close> first
  (sign extension), then mask.  \<open>char_int\<close> is that promotion; \<open>masked\<close> is the
  masking of the promoted value, and \<open>qFromBigEndian<quint16>\<close> reads two bytes as a
  big-endian 16-bit word.
\<close>

definition char_int :: "byte \<Rightarrow> 32 word" where
  "char_int b = scast b"

definition be16 :: "byte \<Rightarrow> byte \<Rightarrow> 16 word" where
  "be16 b0 b1 = push_bit 8 (ucast b0) OR ucast b1"

subsection \<open>Lemmas\<close>

lemma byte_char_byte [simp, wire_simps]: "char_to_byte (byte_to_char b) = b"
  using unsigned_less[of b, where 'a=nat]
  by (simp add: byte_to_char_def char_to_byte_def)

lemma char_byte_char [simp, wire_simps]: "byte_to_char (char_to_byte c) = c"
  by (simp add: byte_to_char_def char_to_byte_def unsigned_of_nat take_bit_eq_mod)

lemma from_to_bytes [simp]: "from_bytes (to_bytes s) = s"
  by (induction s) auto

lemma to_from_bytes [simp]: "to_bytes (from_bytes bs) = bs"
  by (induction bs) auto

lemma length_ba_remove [simp]:
  "pos + len \<le> length xs \<Longrightarrow> length (ba_remove pos len xs) = length xs - len"
  by (simp add: ba_remove_def)

lemma ba_remove_append [simp]:
  "length xs = pos \<Longrightarrow> ba_remove pos (length d) (xs @ d @ ys) = xs @ ys"
  by (simp add: ba_remove_def)

lemma ba_chop_append [simp]: "length ys = n \<Longrightarrow> ba_chop n (xs @ ys) = xs"
  by (simp add: ba_chop_def)

lemma digits_value_Nil [simp]: "digits_value [] = 0"
  by (simp add: digits_value_def)

lemma bit_128_32 [wire_simps]: "bit (128::32 word) n \<longleftrightarrow> n = 7"
  using bit_exp_iff[of 7 n, where 'a="32 word"] by auto

lemma bit_128_8 [wire_simps]: "bit (128::byte) n \<longleftrightarrow> n = 7"
  using bit_exp_iff[of 7 n, where 'a=byte] by auto

lemma mask_127_32: "(127::32 word) = mask 7"
  by (simp add: mask_eq_exp_minus_1)

lemma mask_127_8: "(127::byte) = mask 7"
  by (simp add: mask_eq_exp_minus_1)

lemma mask_15_32: "(15::32 word) = mask 4"
  by (simp add: mask_eq_exp_minus_1)

lemma mask_15_8: "(15::byte) = mask 4"
  by (simp add: mask_eq_exp_minus_1)

text \<open>Sign extension never reaches the masked bits: masking the promoted \<open>char\<close> is
  masking the byte.\<close>

lemma char_int_and_128 [simp]: "char_int b AND 0x80 = ucast (b AND 0x80)"
  unfolding char_int_def
  by (rule bit_word_eqI) (auto simp: bit_simps bit_128_32 bit_128_8 simp del: bit_numeral_word_iff)

lemma char_int_and_127 [simp]: "char_int b AND 0x7F = ucast (b AND 0x7F)"
  unfolding char_int_def mask_127_32 mask_127_8
  by (rule bit_word_eqI) (auto simp: bit_simps)

lemma char_int_and_15 [simp]: "char_int b AND 0x0F = ucast (b AND 0x0F)"
  unfolding char_int_def mask_15_32 mask_15_8
  by (rule bit_word_eqI) (auto simp: bit_simps)

lemma unat_ucast_byte [simp]: "unat (ucast (b::byte) :: 32 word) = unat b"
  by (simp add: unsigned_ucast_eq take_bit_nat_eq_self unsigned_less[of b, where 'a=nat, THEN less_le_trans])

lemma ucast_byte_eq_0_iff [simp]: "(ucast (b::byte) :: 32 word) = 0 \<longleftrightarrow> b = 0"
proof -
  have "(ucast b :: 32 word) = 0 \<longleftrightarrow> unat (ucast b :: 32 word) = 0"
    by (simp only: unsigned_eq_0_iff)
  also have "\<dots> \<longleftrightarrow> b = 0"
    by (simp only: unat_ucast_byte unsigned_eq_0_iff)
  finally show ?thesis .
qed

lemma unat_and_127_lt [simp]: "unat (b AND (0x7F::byte)) < 128"
proof -
  have "unat (b AND 0x7F) \<le> unat (0x7F::byte)"
    by (rule word_and_le1 [THEN word_le_nat_alt [THEN iffD1]])
  then show ?thesis by simp
qed

lemma unat_be16 [wire_simps]: "unat (be16 b0 b1) = unat b0 * 256 + unat b1"
proof -
  have "(push_bit 8 (ucast b0) OR ucast b1 :: 16 word) = push_bit 8 (ucast b0) + ucast b1"
    by (rule disjunctive_add[symmetric]) (auto simp: bit_simps dest: bit_imp_le_length)
  moreover have "unat (push_bit 8 (ucast b0) :: 16 word) = unat b0 * 256"
  proof -
    have "take_bit 16 (push_bit 8 (unat b0)) = unat b0 * 256"
      using unsigned_less[of b0, where 'a=nat] by (simp add: push_bit_eq_mult take_bit_nat_eq_self)
    then show ?thesis
      using unsigned_less[of b0, where 'a=nat]
      by (simp add: unsigned_push_bit_eq unsigned_ucast_eq take_bit_nat_eq_self)
  qed
  ultimately show ?thesis
    using unsigned_less[of b0, where 'a=nat] unsigned_less[of b1, where 'a=nat]
    by (simp add: be16_def unat_word_ariths unsigned_ucast_eq take_bit_nat_eq_self)
qed

lemma unat_be16_lt [simp]: "unat (be16 b0 b1) < 65536"
  using unsigned_less[of "be16 b0 b1", where 'a=nat] by simp

lemma take_append_length [simp]: "length xs = n \<Longrightarrow> take n (xs @ ys) = xs"
  by simp

lemma drop_append_length [simp]: "length xs = n \<Longrightarrow> drop n (xs @ ys) = ys"
  by simp

end
