(* ===== verification/Handshake.thy ===== *)
theory Handshake
  imports Prelude
begin

text \<open>
  The opening handshake of \<open>src/src/enginio_client/enginiobackendconnection.cpp\<close>
  (lines 21--102 and 221--235): the nonce built from a \<open>QUuid\<close>, the expected
  \<open>Sec-WebSocket-Accept\<close> value (kept by the code in the process-wide
  \<open>gBase64EncodedSha1VerificationKey\<close>), the HTTP upgrade request, and the validation of
  the server's response by four regular-expression searches.  SHA-1
  (\<open>QCryptographicHash\<close>) is a parameter \<open>sha1\<close> of the definitions that use it;
  \<open>QByteArray::toBase64\<close> is written out as \<open>base64\<close> (RFC 4648), since the
  length of its output matters for the 28-character capture of the accept pattern.
\<close>

unbundle bit_operations_syntax

subsection \<open>Base64 (\<open>QByteArray::toBase64\<close>)\<close>

definition b64_alphabet :: string where
  "b64_alphabet = ''ABCDEFGHIJKLMNOPQRSTUVWXYZabcdefghijklmnopqrstuvwxyz0123456789+/''"

definition b64_char :: "byte \<Rightarrow> char" where
  "b64_char v = b64_alphabet ! unat v"

fun base64 :: "byte list \<Rightarrow> string" where
  "base64 (a # b # c # rest) =
     b64_char (drop_bit 2 a) # b64_char (push_bit 4 (a AND 3) OR drop_bit 4 b)
     # b64_char (push_bit 2 (b AND 15) OR drop_bit 6 c) # b64_char (c AND 63) # base64 rest"
| "base64 [a, b] =
     [b64_char (drop_bit 2 a), b64_char (push_bit 4 (a AND 3) OR drop_bit 4 b),
      b64_char (push_bit 2 (b AND 15)), CHR ''='']"
| "base64 [a] = [b64_char (drop_bit 2 a), b64_char (push_bit 4 (a AND 3)), CHR ''='', CHR ''='']"
| "base64 [] = []"

subsection \<open>Verification key and nonce\<close>

definition crlf :: string where
  "crlf = [CHR 0x0D, CHR 0x0A]"

definition websocket_magic :: string where
  "websocket_magic = ''258EAFA5-E914-47DA-95CA-C5AB0DC85B11''"

text \<open>\<open>computeBase64EncodedSha1VerificationKey\<close>: the value it stores into the global.\<close>

definition compute_verification_key :: "(byte list \<Rightarrow> byte list) \<Rightarrow> string \<Rightarrow> string" where
  "compute_verification_key sha1 base64Key =
     base64 (sha1 (to_bytes (base64Key @ websocket_magic)))"

text \<open>\<open>generateBase64EncodedUniqueKey\<close>: \<open>uuid\<close> is the text of
  \<open>QUuid::createUuid().toByteArray()\<close>; the result is the nonce and the new value of the
  global verification key.\<close>

definition generate_unique_key :: "(byte list \<Rightarrow> byte list) \<Rightarrow> string \<Rightarrow> string \<times> string" where
  "generate_unique_key sha1 uuid =
     (let nonce = to_bytes uuid;
          nonce = ba_chop 1 nonce;
          nonce = ba_remove 0 1 nonce;
          nonce = ba_remove 23 1 nonce;
          nonce = ba_remove 18 1 nonce;
          nonce = ba_remove 13 1 nonce;
          nonce = ba_remove 8 1 nonce;
          key = base64 nonce
      in (key, compute_verification_key sha1 key))"

subsection \<open>The opening request\<close>

text \<open>The parts of \<open>QUrl\<close> the request uses; \<open>url_port\<close> is \<open>None\<close> where
  \<open>QUrl::port\<close> returns -1 (no port given).\<close>

record qurl =
  url_host :: string
  url_port :: "nat option"
  url_path :: string
  url_query :: string

definition port_or :: "nat \<Rightarrow> qurl \<Rightarrow> nat" where
  "port_or d u = (case url_port u of None \<Rightarrow> d | Some p \<Rightarrow> p)"

text \<open>\<open>constructOpeningHandshake\<close>: the request bytes and the new verification key.\<close>

definition construct_opening_handshake ::
  "(byte list \<Rightarrow> byte list) \<Rightarrow> string \<Rightarrow> qurl \<Rightarrow> byte list \<times> string" where
  "construct_opening_handshake sha1 uuid url =
     (let (nonce, key) = generate_unique_key sha1 uuid;
          resource = url_path url @ ''?'' @ url_query url;
          host = url_host url @ '':'' @ dec_string (port_or 8080 url)
      in (to_bytes (''GET '' @ resource @ '' HTTP/1.1'' @ crlf
                    @ ''Host: '' @ host @ crlf
                    @ ''Upgrade: websocket'' @ crlf
                    @ ''Connection: upgrade'' @ crlf
                    @ ''Sec-WebSocket-Key: '' @ nonce @ crlf
                    @ ''Sec-WebSocket-Version: 13'' @ crlf
                    @ crlf), key))"

subsection \<open>Response parsing\<close>

text \<open>
  \<open>QRegularExpression::match\<close> searches for the leftmost position where the pattern
  matches.  \<open>regex_search m s\<close> tries \<open>m\<close> on every suffix of \<open>s\<close>, longest
  first.  Each pattern of the code is a matcher anchored at the start of its argument
  returning the first capture group; in the patterns the dot is any character but LF
  and the whitespace class is \<open>is_space\<close>.
\<close>

fun regex_search :: "(string \<Rightarrow> 'a option) \<Rightarrow> string \<Rightarrow> 'a option" where
  "regex_search m [] = m []"
| "regex_search m (c # cs) = (case m (c # cs) of Some r \<Rightarrow> Some r | None \<Rightarrow> regex_search m cs)"

text \<open>The status pattern: HTTP/1.1, one whitespace character, three digits (the
  capture), one whitespace character.\<close>

definition match_status :: "string \<Rightarrow> string option" where
  "match_status s =
     (if take 8 s = ''HTTP/1.1'' \<and> 13 \<le> length s \<and> is_space (s ! 8)
         \<and> list_all is_digit (take 3 (drop 9 s)) \<and> is_space (s ! 12)
      then Some (take 3 (drop 9 s)) else None)"

text \<open>The accept pattern: the header name, one whitespace character, 28 characters
  (the capture), CR, LF.\<close>

definition accept_name :: string where
  "accept_name = ''Sec-WebSocket-Accept:''"

definition match_accept :: "string \<Rightarrow> string option" where
  "match_accept s =
     (let n = length accept_name; v = take 28 (drop (Suc n) s) in
      if take n s = accept_name \<and> n + 31 \<le> length s \<and> is_space (s ! n)
         \<and> CHR 0x0A \<notin> set v \<and> take 2 (drop (n + 29) s) = crlf
      then Some v else None)"

text \<open>The upgrade and connection patterns: the header name, one whitespace character,
  one or more characters (the capture), CR, LF; the greedy repetition runs to the first LF
  and gives back the CR before it.\<close>

definition match_line :: "string \<Rightarrow> string \<Rightarrow> string option" where
  "match_line name s =
     (let n = length name; rest = drop (Suc n) s; r = takeWhile (\<lambda>c. c \<noteq> CHR 0x0A) rest in
      if take n s = name \<and> n < length s \<and> is_space (s ! n)
         \<and> length r < length rest \<and> 2 \<le> length r \<and> last r = CHR 0x0D
      then Some (butlast r) else None)"

definition upgrade_header :: "string \<Rightarrow> string option" where
  "upgrade_header = match_line ''Upgrade:''"

definition connection_header :: "string \<Rightarrow> string option" where
  "connection_header = match_line ''Connection:''"

text \<open>\<open>extractResponseStatus\<close>: \<open>captured(1).toInt()\<close>, 0 when nothing matched.\<close>

definition extract_response_status :: "string \<Rightarrow> nat" where
  "extract_response_status response =
     (case regex_search match_status response of None \<Rightarrow> 0 | Some ds \<Rightarrow> digits_value ds)"

text \<open>\<open>extractResponseHeader\<close>: the capture, lower-cased unless \<open>ignoreCase\<close> is false.\<close>

definition extract_response_header :: "(string \<Rightarrow> string option) \<Rightarrow> string \<Rightarrow> bool \<Rightarrow> string" where
  "extract_response_header pattern response ignoreCase =
     (let c = (case regex_search pattern response of None \<Rightarrow> [] | Some c \<Rightarrow> c)
      in if ignoreCase then lower_string c else c)"

text \<open>The test of \<open>onSocketReadyRead\<close> in state \<open>HandshakePending\<close> (lines 224--231):
  the handshake succeeds exactly when this holds.\<close>

definition handshake_accepted :: "string \<Rightarrow> string \<Rightarrow> bool" where
  "handshake_accepted verificationKey response \<longleftrightarrow>
     extract_response_status response = 101
     \<and> extract_response_header match_accept response False = verificationKey
     \<and> extract_response_header upgrade_header response True = ''websocket''
     \<and> extract_response_header connection_header response True = ''upgrade''"

text \<open>The canonical server response for a key, as RFC 6455 section 4.2.2 writes it.\<close>

definition accept_response :: "string \<Rightarrow> string" where
  "accept_response key =
     ''HTTP/1.1 101 Switching Protocols'' @ crlf @ ''Upgrade: websocket'' @ crlf
     @ ''Connection: Upgrade'' @ crlf @ accept_name @ '' '' @ key @ crlf @ crlf"

subsection \<open>Properties\<close>

lemma uint_drop_bit_byte: "uint (drop_bit n (a::byte)) = uint a div 2 ^ n"
proof -
  have "uint (drop_bit n a) = drop_bit n (take_bit LENGTH(8) (uint a))"
    by (rule unsigned_drop_bit_eq)
  moreover have "take_bit LENGTH(8) (uint a) = uint a"
    by (rule take_bit_int_eq_self) (use uint_lt2p[of a] in simp_all)
  ultimately show ?thesis by (simp only: drop_bit_eq_div)
qed

lemma sextet_or: "uint (x::byte) < 64 \<Longrightarrow> uint y < 64 \<Longrightarrow> uint (x OR y) < 64"
  using OR_upper[of "uint x" 6 "uint y"] by (simp add: uint_or)

lemma sextet_drop_bit: "2 \<le> n \<Longrightarrow> uint (drop_bit n (a::byte)) < 64"
proof -
  assume "2 \<le> n"
  then have "uint a div 2 ^ n \<le> uint a div 4"
    by (intro zdiv_mono2) (auto intro: order_trans[OF _ power_increasing[of 2 n "2::int"]])
  also have "\<dots> < 64" using uint_lt2p[of a] by simp
  finally show ?thesis by (simp add: uint_drop_bit_byte)
qed

lemma sextet_push_bit: "uint (k::byte) \<le> 2 ^ (6 - n) - 1 \<Longrightarrow> n \<le> 6 \<Longrightarrow> uint (push_bit n k) < 64"
proof -
  assume k: "uint k \<le> 2 ^ (6 - n) - 1" and n: "n \<le> 6"
  have "uint (push_bit n k) \<le> push_bit n (uint k)"
    by (simp add: unsigned_push_bit_eq take_bit_int_less_eq_self_iff)
  also have "\<dots> = uint k * 2 ^ n" by (simp add: push_bit_eq_mult)
  also have "\<dots> \<le> (2 ^ (6 - n) - 1) * 2 ^ n" using k by (simp add: mult_right_mono)
  also have "\<dots> < 64" using n by (simp add: algebra_simps power_add[symmetric])
  finally show ?thesis .
qed

lemma uint_and_le: "uint ((a::byte) AND m) \<le> uint m"
  by (simp add: uint_and)

lemma b64_sextets:
  fixes a b c :: byte
  shows "uint (drop_bit 2 a) < 64"
    and "uint (push_bit 4 (a AND 3) OR drop_bit 4 b) < 64"
    and "uint (push_bit 2 (b AND 15) OR drop_bit 6 c) < 64"
    and "uint (c AND 63) < 64"
    and "uint (push_bit 4 (a AND 3)) < 64"
    and "uint (push_bit 2 (b AND 15)) < 64"
proof -
  have a3: "uint (push_bit 4 (a AND 3)) < 64"
    by (rule sextet_push_bit) (use uint_and_le[of a 3] in simp_all)
  have b15: "uint (push_bit 2 (b AND 15)) < 64"
    by (rule sextet_push_bit) (use uint_and_le[of b 15] in simp_all)
  show "uint (drop_bit 2 a) < 64" by (simp add: sextet_drop_bit)
  show "uint (push_bit 4 (a AND 3) OR drop_bit 4 b) < 64" by (rule sextet_or[OF a3 sextet_drop_bit]) simp
  show "uint (push_bit 2 (b AND 15) OR drop_bit 6 c) < 64" by (rule sextet_or[OF b15 sextet_drop_bit]) simp
  show "uint (c AND 63) < 64" using uint_and_le[of c 63] by simp
  show "uint (push_bit 4 (a AND 3)) < 64" by (fact a3)
  show "uint (push_bit 2 (b AND 15)) < 64" by (fact b15)
qed

lemma unat_lt_64: "uint (v::byte) < 64 \<Longrightarrow> unat v < 64"
  by transfer simp

lemma length_b64_alphabet: "length b64_alphabet = 64"
  by (simp add: b64_alphabet_def)

lemma b64_char_in_alphabet: "uint v < 64 \<Longrightarrow> b64_char v \<in> set b64_alphabet"
  unfolding b64_char_def by (rule nth_mem) (simp add: length_b64_alphabet unat_lt_64)

lemma length_base64: "length (base64 bs) = 4 * ((length bs + 2) div 3)"
  by (induction bs rule: base64.induct) (simp_all, presburger)

lemma set_base64: "set (base64 bs) \<subseteq> set b64_alphabet \<union> {CHR ''=''}"
  by (induction bs rule: base64.induct) (simp_all add: b64_char_in_alphabet b64_sextets del: push_bit_and)

lemma lf_notin_base64: "CHR 0x0A \<notin> set (base64 bs)"
proof -
  have "CHR 0x0A \<notin> set b64_alphabet"
    by (simp add: b64_alphabet_def)
  then show ?thesis using set_base64[of bs] by auto
qed

lemma status_ok: "extract_response_status (accept_response key) = 101"
  by (simp add: accept_response_def extract_response_status_def match_status_def crlf_def accept_name_def
      is_space_def is_digit_def digits_value_def)

lemma upgrade_ok: "extract_response_header upgrade_header (accept_response key) True = ''websocket''"
  by (simp add: accept_response_def extract_response_header_def upgrade_header_def match_line_def
      crlf_def accept_name_def is_space_def lower_char_def)

lemma char_of_117: "char_of (117::nat) = CHR ''u''"
  by code_simp

lemma connection_ok: "extract_response_header connection_header (accept_response key) True = ''upgrade''"
  by (simp add: accept_response_def extract_response_header_def connection_header_def match_line_def
      crlf_def accept_name_def is_space_def lower_char_def char_of_117)

lemma accept_ok:
  assumes "length key = 28" "CHR 0x0A \<notin> set key"
  shows "extract_response_header match_accept (accept_response key) False = key"
  using assms
  by (simp add: accept_response_def extract_response_header_def match_accept_def
      crlf_def accept_name_def is_space_def)

lemma verification_key_shape:
  assumes "\<forall>x. length (sha1 x) = 20"
  shows "length (compute_verification_key sha1 k) = 28"
    and "CHR 0x0A \<notin> set (compute_verification_key sha1 k)"
  using assms by (simp_all add: compute_verification_key_def length_base64 lf_notin_base64)

lemma accept_response_accepted:
  "length key = 28 \<Longrightarrow> CHR 0x0A \<notin> set key \<Longrightarrow> handshake_accepted key (accept_response key)"
  by (simp add: handshake_accepted_def status_ok upgrade_ok connection_ok accept_ok)

text \<open>C20.  Completeness of the handshake check: when SHA-1 yields 20 bytes, the
  canonical 101 response carrying the key \<open>generateBase64EncodedUniqueKey\<close> stored is
  accepted by \<open>onSocketReadyRead\<close>'s test.\<close>

theorem handshake_complete:
  assumes "\<forall>x. length (sha1 x) = 20"
  shows "handshake_accepted (snd (generate_unique_key sha1 uuid))
           (accept_response (snd (generate_unique_key sha1 uuid)))"
  using assms by (simp add: generate_unique_key_def Let_def accept_response_accepted verification_key_shape)

theorem handshake_complete_witness:
  "handshake_accepted (snd (generate_unique_key (\<lambda>_. replicate 20 0) ''{00000000-0000-0000-0000-000000000000}''))
     (accept_response (snd (generate_unique_key (\<lambda>_. replicate 20 0) ''{00000000-0000-0000-0000-000000000000}'')))"
  using handshake_complete[of "\<lambda>_. replicate 20 0" "''{00000000-0000-0000-0000-000000000000}''"] by simp

text \<open>C21.  The nonce is 44 characters long: \<open>generateBase64EncodedUniqueKey\<close> encodes the
  32 hex digits of the uuid text, not 16 random bytes (RFC 6455 asks for a 24-character
  nonce).\<close>

theorem nonce_length_44:
  assumes "length uuid = 38"
  shows "length (fst (generate_unique_key sha1 uuid)) = 44"
  using assms by (simp add: generate_unique_key_def Let_def length_base64 ba_chop_def)

theorem nonce_length_44_witness:
  "length ''{00000000-0000-0000-0000-000000000000}'' = 38 \<and>
   length (fst (generate_unique_key (\<lambda>_. []) ''{00000000-0000-0000-0000-000000000000}'')) = 44"
  using nonce_length_44[of "''{00000000-0000-0000-0000-000000000000}''" "\<lambda>_. []"] by simp

lemma regex_search_SomeD:
  "regex_search m s = Some v \<Longrightarrow> \<exists>pre suf. s = pre @ suf \<and> m suf = Some v"
proof (induction s)
  case Nil then show ?case by auto
next
  case (Cons c cs)
  show ?case
  proof (cases "m (c # cs)")
    case None
    with Cons.prems have "regex_search m cs = Some v" by simp
    then obtain pre suf where "cs = pre @ suf" "m suf = Some v" using Cons.IH by blast
    then show ?thesis by (metis append_Cons)
  next
    case (Some r)
    with Cons.prems have "m (c # cs) = Some v" by simp
    then show ?thesis by (metis append_Nil)
  qed
qed

lemma match_accept_SomeD:
  assumes "match_accept s = Some v"
  shows "length v = 28 \<and> (\<exists>sp post. is_space sp \<and> s = accept_name @ sp # v @ crlf @ post)"
proof -
  have n: "length accept_name = 21" by (simp add: accept_name_def)
  from assms have v: "v = take 28 (drop 22 s)" and hd: "take 21 s = accept_name"
    and len: "52 \<le> length s" and sp: "is_space (s ! 21)" and tl: "take 2 (drop 50 s) = crlf"
    by (simp_all add: match_accept_def n Let_def split: if_splits)
  have s1: "s = accept_name @ drop 21 s" using append_take_drop_id[of 21 s] hd by simp
  have s2: "drop 21 s = s ! 21 # drop 22 s" using len Cons_nth_drop_Suc[of 21 s] by simp
  have s3: "drop 22 s = v @ drop 50 s" using append_take_drop_id[of 28 "drop 22 s"] v by simp
  have s4: "drop 50 s = crlf @ drop 52 s" using append_take_drop_id[of 2 "drop 50 s"] tl by simp
  have "length v = 28" using v len by simp
  moreover have "s = accept_name @ s ! 21 # v @ crlf @ drop 52 s" using s1 s2 s3 s4 by simp
  ultimately show ?thesis using sp by blast
qed

text \<open>C22.  Soundness of the handshake check: an accepted response holds the
  \<open>Sec-WebSocket-Accept\<close> header with exactly the expected 28-character key, followed
  by CR LF.\<close>

theorem handshake_sound:
  assumes "handshake_accepted key r" and "key \<noteq> []"
  shows "length key = 28 \<and> (\<exists>pre sp post. is_space sp \<and> r = pre @ accept_name @ sp # key @ crlf @ post)"
proof -
  from assms have ex: "extract_response_header match_accept r False = key"
    by (simp add: handshake_accepted_def)
  have "regex_search match_accept r = Some key"
  proof (cases "regex_search match_accept r")
    case None
    with ex assms(2) show ?thesis by (simp add: extract_response_header_def)
  next
    case (Some v)
    with ex show ?thesis by (simp add: extract_response_header_def)
  qed
  from regex_search_SomeD[OF this] obtain pre suf where r: "r = pre @ suf" and m: "match_accept suf = Some key"
    by blast
  have len: "length key = 28" using match_accept_SomeD[OF m] by (rule conjunct1)
  obtain sp post where "is_space sp" and "suf = accept_name @ sp # key @ crlf @ post"
    using conjunct2[OF match_accept_SomeD[OF m]] by blast
  with r len show ?thesis by blast
qed
theorem handshake_sound_witness:
  "length ''s3pPLMBiTxaQ9kYGzzhZRbK+xOo='' = 28 \<and>
   (\<exists>pre sp post. is_space sp \<and> accept_response ''s3pPLMBiTxaQ9kYGzzhZRbK+xOo=''
      = pre @ accept_name @ sp # ''s3pPLMBiTxaQ9kYGzzhZRbK+xOo='' @ crlf @ post)"
proof (rule handshake_sound)
  show "handshake_accepted ''s3pPLMBiTxaQ9kYGzzhZRbK+xOo='' (accept_response ''s3pPLMBiTxaQ9kYGzzhZRbK+xOo='')"
    by (rule accept_response_accepted) simp_all
qed simp
end
