(* ===== verification/Frames.thy ===== *)
theory Frames
  imports Prelude
begin

text \<open>
  The RFC 6455 base framing the server sends, as the abstract side of the decoder's
  correctness statements: a frame is a FIN flag, a 4-bit opcode and a payload of fewer
  than 65536 bytes (the only lengths the client accepts); \<open>encode_frame\<close> lays it out
  unmasked with the 7-bit or the 16-bit big-endian length.  \<open>spec_messages\<close> is the
  reassembly the specification asks for (a message ends at FIN, its type is the opcode of
  its first frame); \<open>code_messages\<close> is the same walk with the opcode of the last frame,
  which is what the decoder does.  Lemmas at the end read the header fields back from the
  encoded bytes.
\<close>

unbundle bit_operations_syntax

record frame =
  frame_fin :: bool
  frame_opcode :: byte
  frame_payload :: "byte list"

definition wf_frame :: "frame \<Rightarrow> bool" where
  "wf_frame f \<longleftrightarrow> frame_opcode f < 16 \<and> length (frame_payload f) < 65536"

definition header_byte0 :: "bool \<Rightarrow> byte \<Rightarrow> byte" where
  "header_byte0 fin opc = (if fin then 0x80 else 0) OR opc"

definition frame_header :: "frame \<Rightarrow> byte list" where
  "frame_header f =
     (let n = length (frame_payload f); b0 = header_byte0 (frame_fin f) (frame_opcode f) in
      if n < 126 then [b0, word_of_nat n]
      else [b0, 126, word_of_nat (n div 256), word_of_nat n])"

definition encode_frame :: "frame \<Rightarrow> byte list" where
  "encode_frame f = frame_header f @ frame_payload f"

definition encode_frames :: "frame list \<Rightarrow> byte list" where
  "encode_frames fs = concat (map encode_frame fs)"

datatype message_result = Message "byte list" | Rejected

text \<open>Reassembly as the specification states it (section 4.2): the type of a message is
  the opcode of the frame that began it; text (opcode 1) is delivered, anything else
  rejects the stream.\<close>

fun spec_messages :: "byte option \<Rightarrow> byte list \<Rightarrow> frame list \<Rightarrow> message_result list" where
  "spec_messages first acc [] = []"
| "spec_messages first acc (f # fs) =
     (let opc = (case first of None \<Rightarrow> frame_opcode f | Some op1 \<Rightarrow> op1);
          acc' = acc @ frame_payload f
      in if \<not> frame_fin f then spec_messages (Some opc) acc' fs
         else if opc = 1 then Message acc' # spec_messages None [] fs
         else [Rejected])"

text \<open>The same walk keyed on the opcode of the frame that carries FIN.\<close>

fun code_messages :: "byte list \<Rightarrow> frame list \<Rightarrow> message_result list" where
  "code_messages acc [] = []"
| "code_messages acc (f # fs) =
     (let acc' = acc @ frame_payload f
      in if \<not> frame_fin f then code_messages acc' fs
         else if frame_opcode f = 1 then Message acc' # code_messages [] fs
         else [Rejected])"

subsection \<open>Reading the header back\<close>

lemma opcode_bits: "(opc::byte) < 16 \<Longrightarrow> bit opc n \<Longrightarrow> n < 4"
proof -
  assume "opc < 16" "bit opc n"
  then have "opc AND mask 4 = opc" by (simp add: less_mask_eq)
  with \<open>bit opc n\<close> have "bit (opc AND mask 4) n" by simp
  then show "n < 4" by (simp add: bit_simps)
qed

lemma header_byte0_fin [wire_simps]:
  "opc < 16 \<Longrightarrow> header_byte0 fin opc AND 0x80 = (if fin then 0x80 else 0)"
  unfolding header_byte0_def
  by (rule bit_word_eqI)
     (auto simp: bit_simps bit_128_8 dest: opcode_bits simp del: bit_numeral_word_iff)

lemma header_byte0_opcode [wire_simps]:
  "opc < 16 \<Longrightarrow> header_byte0 fin opc AND 0x0F = opc"
  unfolding header_byte0_def mask_15_8
  by (rule bit_word_eqI)
     (auto simp: bit_simps bit_128_8 dest: opcode_bits simp del: bit_numeral_word_iff)

lemma small_length_byte [wire_simps]:
  assumes "n < 126"
  shows "(word_of_nat n :: byte) AND 0x80 = 0" and "unat ((word_of_nat n :: byte) AND 0x7F) = n"
proof -
  have "(word_of_nat n :: byte) AND mask 7 = word_of_nat n"
    using assms by (simp add: take_bit_eq_mask[symmetric] take_bit_of_nat take_bit_nat_eq_self)
  then show "unat ((word_of_nat n :: byte) AND 0x7F) = n"
    using assms by (simp add: mask_127_8 unsigned_of_nat take_bit_nat_eq_self)
  show "(word_of_nat n :: byte) AND 0x80 = 0"
  proof (rule bit_word_eqI)
    fix i
    have "bit (word_of_nat n :: byte) i \<Longrightarrow> i < 7"
      using \<open>(word_of_nat n :: byte) AND mask 7 = word_of_nat n\<close>
      by (metis bit_and_iff bit_mask_iff)
    then show "bit ((word_of_nat n :: byte) AND 0x80) i = bit (0::byte) i"
      by (auto simp: bit_simps bit_128_8 simp del: bit_numeral_word_iff)
  qed
qed

lemma be16_length [wire_simps]:
  "n < 65536 \<Longrightarrow> unat (be16 (word_of_nat (n div 256)) (word_of_nat n)) = n"
  by (simp add: unat_be16 unsigned_of_nat take_bit_nat_eq_self take_bit_eq_mod)

lemma length_frame_header:
  "length (frame_header f) = (if length (frame_payload f) < 126 then 2 else 4)"
  by (simp add: frame_header_def Let_def)

lemma encode_frames_Cons [simp]: "encode_frames (f # fs) = encode_frame f @ encode_frames fs"
  by (simp add: encode_frames_def)

lemma encode_frames_Nil [simp]: "encode_frames [] = []"
  by (simp add: encode_frames_def)

text \<open>Where every frame carries FIN the two walks agree: they differ only on fragmented
  messages.\<close>

lemma code_messages_unfragmented:
  "\<forall>f\<in>set fs. frame_fin f \<Longrightarrow> code_messages acc fs = spec_messages None acc fs"
  by (induction fs arbitrary: acc) (auto simp: Let_def)


end
