(* ===== verification/Decoder.thy ===== *)
theory Decoder
  imports Handshake Frames
begin

text \<open>
  \<open>EnginioBackendConnection\<close> (\<open>src/src/enginio_client/enginiobackendconnection.cpp\<close>):
  its fields as the record \<open>conn\<close>, the socket it owns reduced to its state and its read
  buffer (\<open>bytesAvailable\<close> is the buffer's length, \<open>read\<close>/\<open>readAll\<close> take from
  its front), and the handlers \<open>protocolError\<close>, \<open>onSocketStateChanged\<close> and
  \<open>onSocketReadyRead\<close>.  Every handler returns the new state and the list of observable
  events it caused, in order: signals emitted, warnings logged, bytes written, the socket
  closed.

  \<open>QTcpSocket::close()\<close> is modelled with the effect Qt gives it on an open socket: the
  read buffer is discarded, the socket becomes unconnected and its \<open>stateChanged\<close>
  signal runs \<open>onSocketStateChanged(UnconnectedState)\<close> at once (a direct connection).
\<close>

unbundle bit_operations_syntax

subsection \<open>State\<close>

text \<open>\<open>ProtocolDecodeState\<close>, \<open>ConnectionState\<close> and \<open>WebSocketOpcode\<close> are declared in
  the private header \<open>enginiobackendconnection_p.h\<close>; the two opcodes the code names
  are RFC 6455's values.\<close>

datatype protocol_decode_state = HandshakePending | FrameHeaderPending | PayloadDataPending

datatype connection_state = DisconnectedState | ConnectingState | ConnectedState

definition ContinuationFrameOp :: "32 word" where
  "ContinuationFrameOp = 0"

definition TextFrameOp :: "32 word" where
  "TextFrameOp = 1"

text \<open>\<open>QAbstractSocket::SocketState\<close>, the states the code distinguishes and the ones
  a connecting socket passes.\<close>

datatype socket_state = SockUnconnected | SockHostLookup | SockConnecting | SockConnected | SockClosing

datatype protocol_error_msg =
    HandshakeFailed
  | ReadingHeaderFailed
  | MaskedPayloadNotSupported
  | LargePayloadNotSupported
  | OpcodeNotYetSupported
  | SocketConnectionError

datatype event =
    StateChanged connection_state
  | DataReceived "byte list"
  | ProtocolWarning protocol_error_msg
  | SocketWrite "byte list"
  | SocketClose
  | ConnectToHost string nat
  | StreamUrlRequest qurl

record conn =
  protocol_opcode :: "32 word"
  protocol_decode_state :: protocol_decode_state
  is_final_fragment :: bool
  is_payload_masked :: bool
  payload_length :: nat
  application_data :: "byte list"
  socket_buffer :: "byte list"
  sock_state :: socket_state
  socket_url :: qurl
  verification_key :: string

text \<open>The constructor's initial values; the verification key is the global's initial
  empty string.\<close>

definition init_conn :: conn where
  "init_conn =
     \<lparr>protocol_opcode = ContinuationFrameOp, protocol_decode_state = HandshakePending,
      is_final_fragment = False, is_payload_masked = False, payload_length = 0,
      application_data = [], socket_buffer = [], sock_state = SockUnconnected,
      socket_url = \<lparr>url_host = [], url_port = None, url_path = [], url_query = []\<rparr>,
      verification_key = []\<rparr>"

subsection \<open>Socket lifecycle\<close>

text \<open>\<open>onSocketStateChanged\<close>, its two branches.\<close>

definition on_socket_unconnected :: "conn \<Rightarrow> conn \<times> event list" where
  "on_socket_unconnected c =
     (c\<lparr>protocol_decode_state := HandshakePending\<rparr>, [StateChanged DisconnectedState])"

definition on_socket_connected :: "(byte list \<Rightarrow> byte list) \<Rightarrow> string \<Rightarrow> conn \<Rightarrow> conn \<times> event list" where
  "on_socket_connected sha1 uuid c =
     (let (request, key) = construct_opening_handshake sha1 uuid (socket_url c)
      in (c\<lparr>protocol_decode_state := HandshakePending, verification_key := key\<rparr>,
          [SocketWrite request]))"

definition on_socket_state_changed ::
  "(byte list \<Rightarrow> byte list) \<Rightarrow> string \<Rightarrow> socket_state \<Rightarrow> conn \<Rightarrow> conn \<times> event list" where
  "on_socket_state_changed sha1 uuid st c =
     (case st of
        SockConnected \<Rightarrow> on_socket_connected sha1 uuid c
      | SockUnconnected \<Rightarrow> on_socket_unconnected c
      | _ \<Rightarrow> (c, []))"

text \<open>\<open>_tcpSocket->close()\<close>.\<close>

definition socket_close :: "conn \<Rightarrow> conn \<times> event list" where
  "socket_close c =
     (if sock_state c = SockUnconnected then (c\<lparr>socket_buffer := []\<rparr>, [SocketClose])
      else let (c', evs) = on_socket_unconnected (c\<lparr>socket_buffer := [], sock_state := SockUnconnected\<rparr>)
           in (c', SocketClose # evs))"

text \<open>\<open>protocolError\<close>: reset the decoder, then close the socket.\<close>

definition protocol_error :: "protocol_error_msg \<Rightarrow> conn \<Rightarrow> conn \<times> event list" where
  "protocol_error msg c =
     (let c' = c\<lparr>protocol_decode_state := HandshakePending, application_data := [], payload_length := 0\<rparr>;
          (c'', evs) = socket_close c'
      in (c'', ProtocolWarning msg # evs))"

subsection \<open>\<open>onSocketReadyRead\<close>\<close>

text \<open>
  One pass through the \<open>switch\<close> of the \<open>while (bytesAvailable())\<close> loop ends either
  in \<open>break\<close> (the loop goes on) or in \<open>return\<close>.
\<close>

datatype pass = Continue conn "event list" | Return conn "event list"

text \<open>\<open>case FrameHeaderPending\<close> (lines 238--279).\<close>

definition frame_header_pass :: "conn \<Rightarrow> pass" where
  "frame_header_pass c =
     (if length (socket_buffer c) < 2 then Return c []
      else
        let data = take 2 (socket_buffer c);
            c = c\<lparr>socket_buffer := drop 2 (socket_buffer c)\<rparr>
        in if length data \<noteq> 2 then (case protocol_error ReadingHeaderFailed c of (c', evs) \<Rightarrow> Return c' evs)
        else if payload_length c = 0 then
          (let c = c\<lparr>is_final_fragment := (char_int (data ! 0) AND 0x80 \<noteq> 0),
                      protocol_opcode := char_int (data ! 0) AND 0x0F,
                      is_payload_masked := (char_int (data ! 1) AND 0x80 \<noteq> 0),
                      payload_length := unat (char_int (data ! 1) AND 0x7F)\<rparr>
           in if is_payload_masked c then
                (case protocol_error MaskedPayloadNotSupported c of (c', evs) \<Rightarrow> Return c' evs)
              else if payload_length c = 127 then
                (case protocol_error LargePayloadNotSupported c of (c', evs) \<Rightarrow> Return c' evs)
              else if payload_length c < 126 then
                Continue (c\<lparr>protocol_decode_state := PayloadDataPending\<rparr>) []
              else Continue c [])
        else Continue (c\<lparr>payload_length := unat (be16 (data ! 0) (data ! 1)),
                         protocol_decode_state := PayloadDataPending\<rparr>) [])"

text \<open>\<open>case PayloadDataPending\<close> (lines 281--303).\<close>

definition payload_data_pass :: "conn \<Rightarrow> pass" where
  "payload_data_pass c =
     (if length (socket_buffer c) < payload_length c then Return c []
      else
        let n = payload_length c;
            c = c\<lparr>application_data := application_data c @ take n (socket_buffer c),
                  socket_buffer := drop n (socket_buffer c),
                  protocol_decode_state := FrameHeaderPending, payload_length := 0\<rparr>
        in if \<not> is_final_fragment c then Continue c []
        else if protocol_opcode c = TextFrameOp then
          Continue (c\<lparr>application_data := []\<rparr>) [DataReceived (application_data c)]
        else (case protocol_error OpcodeNotYetSupported c of
                (c', evs) \<Rightarrow> Continue (c'\<lparr>application_data := []\<rparr>) evs))"

text \<open>\<open>case HandshakePending\<close> (lines 221--236): \<open>readAll\<close>, validate, then fall through
  into \<open>case FrameHeaderPending\<close>.\<close>

definition handshake_pass :: "conn \<Rightarrow> pass" where
  "handshake_pass c =
     (let response = from_bytes (socket_buffer c);
          c = c\<lparr>socket_buffer := []\<rparr>
      in if \<not> handshake_accepted (verification_key c) response then
           (case protocol_error HandshakeFailed c of (c', evs) \<Rightarrow> Return c' evs)
         else
           (case frame_header_pass (c\<lparr>protocol_decode_state := FrameHeaderPending\<rparr>) of
              Continue c' evs \<Rightarrow> Continue c' (StateChanged ConnectedState # evs)
            | Return c' evs \<Rightarrow> Return c' (StateChanged ConnectedState # evs)))"

definition decode_pass :: "conn \<Rightarrow> pass" where
  "decode_pass c =
     (case protocol_decode_state c of
        HandshakePending \<Rightarrow> handshake_pass c
      | FrameHeaderPending \<Rightarrow> frame_header_pass c
      | PayloadDataPending \<Rightarrow> payload_data_pass c)"

text \<open>The loop.  What decreases is the buffer; a pass that consumes nothing leaves
  \<open>PayloadDataPending\<close> for \<open>FrameHeaderPending\<close>, hence the measure.\<close>

definition loop_measure :: "conn \<Rightarrow> nat" where
  "loop_measure c =
     2 * length (socket_buffer c) + (if protocol_decode_state c = PayloadDataPending then 1 else 0)"

function on_socket_ready_read :: "conn \<Rightarrow> conn \<times> event list" where
  "on_socket_ready_read c =
     (if socket_buffer c = [] then (c, [])
      else case decode_pass c of
             Return c' evs \<Rightarrow> (c', evs)
           | Continue c' evs \<Rightarrow>
               (case on_socket_ready_read c' of (c'', evs') \<Rightarrow> (c'', evs @ evs')))"
  by pat_completeness auto
termination
proof (relation "measure loop_measure", goal_cases)
  case 1
  show ?case by simp
next
  case (2 c c' evs)
  then show ?case
    by (cases "protocol_decode_state c")
       (auto simp: decode_pass_def handshake_pass_def frame_header_pass_def payload_data_pass_def
          loop_measure_def protocol_error_def socket_close_def on_socket_unconnected_def Let_def
          split: if_splits)
qed

declare on_socket_ready_read.simps [simp del]

text \<open>A \<open>readyRead\<close> delivery: the bytes join the socket buffer, then the slot runs.\<close>

definition deliver :: "byte list \<Rightarrow> conn \<Rightarrow> conn \<times> event list" where
  "deliver chunk c = on_socket_ready_read (c\<lparr>socket_buffer := socket_buffer c @ chunk\<rparr>)"


subsection \<open>Decoder states and outcomes used by the statements\<close>

text \<open>A decoder between frames: waiting for a header, no length pending, \<open>acc\<close> the
  payload of the unfinished message so far, the socket open.\<close>

definition frame_ready :: "byte list \<Rightarrow> conn \<Rightarrow> bool" where
  "frame_ready acc c \<longleftrightarrow> protocol_decode_state c = FrameHeaderPending \<and> payload_length c = 0
     \<and> application_data c = acc \<and> sock_state c = SockConnected"

text \<open>What a rejected message produces: the warning, the close, the disconnection.\<close>

definition rejection_events :: "event list" where
  "rejection_events = [ProtocolWarning OpcodeNotYetSupported, SocketClose, StateChanged DisconnectedState]"

fun message_events :: "message_result list \<Rightarrow> event list" where
  "message_events [] = []"
| "message_events (Message m # rs) = DataReceived m # message_events rs"
| "message_events (Rejected # rs) = rejection_events"


text \<open>The state \<open>protocolError\<close> leaves: decoder back to \<open>HandshakePending\<close>, nothing
  accumulated, socket closed and empty; and the events it produces on an open socket.\<close>

definition decoder_reset :: "conn \<Rightarrow> bool" where
  "decoder_reset c \<longleftrightarrow> protocol_decode_state c = HandshakePending \<and> application_data c = []
     \<and> payload_length c = 0 \<and> socket_buffer c = [] \<and> sock_state c = SockUnconnected"


definition error_events :: "protocol_error_msg \<Rightarrow> event list" where
  "error_events e = [ProtocolWarning e, SocketClose, StateChanged DisconnectedState]"


text \<open>No pass can make progress: the buffer is empty or shorter than the current state
  needs.\<close>

definition stalled :: "conn \<Rightarrow> bool" where
  "stalled c \<longleftrightarrow> socket_buffer c = []
     \<or> (protocol_decode_state c = FrameHeaderPending \<and> length (socket_buffer c) < 2)
     \<or> (protocol_decode_state c = PayloadDataPending \<and> length (socket_buffer c) < payload_length c)"


subsection \<open>Lemmas\<close>

text \<open>What \<open>protocolError\<close> leaves behind: a reset decoder and a closed, empty socket;
  \<open>Disconnected\<close> is announced when the socket was open.\<close>

lemma protocol_error_eq:
  "protocol_error e c =
     (c\<lparr>protocol_decode_state := HandshakePending, application_data := [], payload_length := 0,
        socket_buffer := [], sock_state := SockUnconnected\<rparr>,
      ProtocolWarning e # SocketClose
        # (if sock_state c = SockUnconnected then [] else [StateChanged DisconnectedState]))"
  by (simp add: protocol_error_def socket_close_def on_socket_unconnected_def Let_def)

lemma ready_read_Nil: "socket_buffer c = [] \<Longrightarrow> on_socket_ready_read c = (c, [])"
  by (simp add: on_socket_ready_read.simps)

lemma ready_read_Return:
  "socket_buffer c \<noteq> [] \<Longrightarrow> decode_pass c = Return c' evs \<Longrightarrow> on_socket_ready_read c = (c', evs)"
  by (simp add: on_socket_ready_read.simps)

lemma ready_read_Continue:
  "socket_buffer c \<noteq> [] \<Longrightarrow> decode_pass c = Continue c' evs \<Longrightarrow>
   on_socket_ready_read c = (case on_socket_ready_read c' of (c'', evs') \<Rightarrow> (c'', evs @ evs'))"
  by (simp add: on_socket_ready_read.simps)

lemma ucast_byte_eq_1_iff: "(ucast (b::byte) :: 32 word) = 1 \<longleftrightarrow> b = 1"
proof -
  have "(ucast b :: 32 word) = 1 \<longleftrightarrow> unat (ucast b :: 32 word) = 1"
    by (metis unsigned_1 word_unat_eq_iff)
  also have "\<dots> \<longleftrightarrow> b = 1"
    by (metis unat_ucast_byte unsigned_1 word_unat_eq_iff)
  finally show ?thesis .
qed

text \<open>The payload pass on a buffer that holds the whole payload.\<close>

lemma payload_pass_frame:
  assumes "protocol_decode_state c = PayloadDataPending" "payload_length c = length p"
    "socket_buffer c = p @ rest" "sock_state c = SockConnected"
  shows "payload_data_pass c =
    (let c' = c\<lparr>application_data := application_data c @ p, socket_buffer := rest,
                  protocol_decode_state := FrameHeaderPending, payload_length := 0\<rparr>
     in if \<not> is_final_fragment c then Continue c' []
        else if protocol_opcode c = TextFrameOp then
          Continue (c'\<lparr>application_data := []\<rparr>) [DataReceived (application_data c @ p)]
        else Continue (c'\<lparr>application_data := [], socket_buffer := [], sock_state := SockUnconnected,
                          protocol_decode_state := HandshakePending\<rparr>)
               [ProtocolWarning OpcodeNotYetSupported, SocketClose, StateChanged DisconnectedState])"
  using assms by (simp add: payload_data_pass_def protocol_error_eq Let_def)


lemma header_fields:
  assumes "frame_opcode f < 16"
  shows "(char_int (header_byte0 (frame_fin f) (frame_opcode f)) AND 0x80 \<noteq> 0) = frame_fin f"
    and "char_int (header_byte0 (frame_fin f) (frame_opcode f)) AND 0x0F = ucast (frame_opcode f)"
  using assms by (simp_all add: header_byte0_fin header_byte0_opcode)

lemma header_pass_small:
  assumes "frame_ready acc c" "wf_frame f" "length (frame_payload f) < 126"
    "socket_buffer c = encode_frame f @ rest"
  shows "frame_header_pass c =
    Continue (c\<lparr>socket_buffer := frame_payload f @ rest, is_final_fragment := frame_fin f,
                 protocol_opcode := ucast (frame_opcode f), is_payload_masked := False,
                 payload_length := length (frame_payload f),
                 protocol_decode_state := PayloadDataPending\<rparr>) []"
  using assms header_fields[of f] small_length_byte[of "length (frame_payload f)"]
  by (simp add: frame_header_pass_def frame_ready_def wf_frame_def encode_frame_def frame_header_def Let_def)

lemma header_pass_ext:
  assumes "frame_ready acc c" "wf_frame f" "\<not> length (frame_payload f) < 126"
    "socket_buffer c = encode_frame f @ rest"
  shows "frame_header_pass c =
    Continue (c\<lparr>socket_buffer := drop 2 (frame_header f) @ frame_payload f @ rest,
                 is_final_fragment := frame_fin f,
                 protocol_opcode := ucast (frame_opcode f), is_payload_masked := False,
                 payload_length := 126\<rparr>) []"
  using assms header_fields[of f]
  by (simp add: frame_header_pass_def frame_ready_def wf_frame_def encode_frame_def frame_header_def Let_def)

lemma header_pass_length16:
  assumes "protocol_decode_state c = FrameHeaderPending" "payload_length c = 126"
    "socket_buffer c = [hi, lo] @ xs"
  shows "frame_header_pass c =
    Continue (c\<lparr>socket_buffer := xs, payload_length := unat (be16 hi lo),
                 protocol_decode_state := PayloadDataPending\<rparr>) []"
  using assms by (simp add: frame_header_pass_def Let_def)


lemma frame_ready_buffer [simp]: "frame_ready acc (c\<lparr>socket_buffer := bs\<rparr>) = frame_ready acc c"
  by (simp add: frame_ready_def)

lemma encode_frame_not_Nil [simp]: "encode_frame f \<noteq> []"
  by (simp add: encode_frame_def frame_header_def Let_def)

lemma encode_frames_Nil_iff [simp]: "encode_frames fs = [] \<longleftrightarrow> fs = []"
  by (cases fs) simp_all

text \<open>Decoding the payload of a frame whose header has been read.\<close>

lemma ready_read_payload:
  assumes "protocol_decode_state c = PayloadDataPending" "payload_length c = length (frame_payload f)"
    "socket_buffer c = frame_payload f @ rest" "sock_state c = SockConnected"
    "frame_payload f \<noteq> [] \<or> rest \<noteq> []"
    "is_final_fragment c = frame_fin f" "protocol_opcode c = ucast (frame_opcode f)"
  shows "if frame_fin f \<and> frame_opcode f \<noteq> 1 then snd (on_socket_ready_read c) = rejection_events
         else \<exists>c'. socket_buffer c' = rest
            \<and> frame_ready (if frame_fin f then [] else application_data c @ frame_payload f) c'
            \<and> on_socket_ready_read c = (case on_socket_ready_read c' of (c'', evs) \<Rightarrow>
                 (c'', (if frame_fin f then [DataReceived (application_data c @ frame_payload f)] else []) @ evs))"
proof -
  have ne: "socket_buffer c \<noteq> []" using assms(3,5) by simp
  have pass: "decode_pass c = payload_data_pass c" using assms(1) by (simp add: decode_pass_def)
  note step = ready_read_Continue[OF ne] pass payload_pass_frame[OF assms(1-4)] assms(6,7)
  show ?thesis
  proof (cases "frame_fin f \<and> frame_opcode f \<noteq> 1")
    case True
    then show ?thesis using step
      by (simp add: Let_def ucast_byte_eq_1_iff TextFrameOp_def ready_read_Nil rejection_events_def)
  next
    case False
    let ?c' = "c\<lparr>application_data := application_data c @ frame_payload f, socket_buffer := rest,
                 protocol_decode_state := FrameHeaderPending, payload_length := 0\<rparr>"
    show ?thesis
    proof (cases "frame_fin f")
      case True
      with False have opc: "frame_opcode f = 1" by simp
      have orr: "on_socket_ready_read c = (case on_socket_ready_read (?c'\<lparr>application_data := []\<rparr>) of
                   (c'', evs) \<Rightarrow> (c'', DataReceived (application_data c @ frame_payload f) # evs))"
        using step True opc by (simp add: Let_def ucast_byte_eq_1_iff TextFrameOp_def)
      have "\<exists>c'. socket_buffer c' = rest \<and> frame_ready [] c'
              \<and> on_socket_ready_read c = (case on_socket_ready_read c' of (c'', evs) \<Rightarrow>
                   (c'', [DataReceived (application_data c @ frame_payload f)] @ evs))"
        using orr assms(4) by (intro exI[of _ "?c'\<lparr>application_data := []\<rparr>"]) (simp add: frame_ready_def)
      then show ?thesis using True opc by simp
    next
      case fin: False
      have orr: "on_socket_ready_read c = on_socket_ready_read ?c'"
        using step fin by (simp add: Let_def)
      have "\<exists>c'. socket_buffer c' = rest \<and> frame_ready (application_data c @ frame_payload f) c'
              \<and> on_socket_ready_read c = (case on_socket_ready_read c' of (c'', evs) \<Rightarrow> (c'', [] @ evs))"
        using orr assms(4) by (intro exI[of _ ?c']) (simp add: frame_ready_def split: prod.splits)
      then show ?thesis using fin by simp
    qed
  qed
qed

lemma ready_read_frame:
  assumes "frame_ready acc c" "wf_frame f" "socket_buffer c = encode_frame f @ rest"
  shows "on_socket_ready_read c =
    on_socket_ready_read (c\<lparr>socket_buffer := frame_payload f @ rest, is_final_fragment := frame_fin f,
                 protocol_opcode := ucast (frame_opcode f), is_payload_masked := False,
                 payload_length := length (frame_payload f),
                 protocol_decode_state := PayloadDataPending\<rparr>)"
proof -
  have pass: "decode_pass c = frame_header_pass c"
    using assms(1) by (simp add: decode_pass_def frame_ready_def)
  show ?thesis
  proof (cases "length (frame_payload f) < 126")
    case True
    show ?thesis
      using ready_read_Continue[of c] pass header_pass_small[OF assms(1,2) True assms(3)] assms(3)
      by simp
  next
    case False
    let ?n = "length (frame_payload f)"
    let ?c1 = "c\<lparr>socket_buffer := drop 2 (frame_header f) @ frame_payload f @ rest,
                 is_final_fragment := frame_fin f,
                 protocol_opcode := ucast (frame_opcode f), is_payload_masked := False,
                 payload_length := 126\<rparr>"
    have d: "drop 2 (frame_header f) = [word_of_nat (?n div 256), word_of_nat ?n]"
      using False by (simp add: frame_header_def Let_def)
    have step1: "on_socket_ready_read c = on_socket_ready_read ?c1"
      using ready_read_Continue[of c] pass header_pass_ext[OF assms(1,2) False assms(3)] assms(3)
      by simp
    have c1: "protocol_decode_state ?c1 = FrameHeaderPending" "payload_length ?c1 = 126"
      using assms(1) by (simp_all add: frame_ready_def)
    have n: "?n < 65536" using assms(2) by (simp add: wf_frame_def)
    have step2: "on_socket_ready_read ?c1 =
      on_socket_ready_read (?c1\<lparr>socket_buffer := frame_payload f @ rest,
                                  payload_length := ?n, protocol_decode_state := PayloadDataPending\<rparr>)"
      using ready_read_Continue[of ?c1] header_pass_length16[OF c1, of _ _ "frame_payload f @ rest"]
        c1 d be16_length[OF n] by (simp add: decode_pass_def)
    have "?c1\<lparr>socket_buffer := frame_payload f @ rest, payload_length := ?n,
               protocol_decode_state := PayloadDataPending\<rparr> =
          c\<lparr>socket_buffer := frame_payload f @ rest, is_final_fragment := frame_fin f,
            protocol_opcode := ucast (frame_opcode f), is_payload_masked := False,
            payload_length := ?n, protocol_decode_state := PayloadDataPending\<rparr>"
      by (rule conn.equality) simp_all
    with step1 step2 show ?thesis by (simp only:)
  qed
qed


text \<open>Appending bytes to the buffer does not change a pass that had enough of them.\<close>

lemma header_pass_long:
  "frame_header_pass c \<noteq> Return c [] \<Longrightarrow> \<exists>x y rest. socket_buffer c = x # y # rest"
  by (cases "socket_buffer c" rule: remdups_adj.cases) (auto simp: frame_header_pass_def)

lemma header_pass_append_Continue:
  assumes "frame_header_pass c = Continue c' evs"
  shows "frame_header_pass (c\<lparr>socket_buffer := socket_buffer c @ b\<rparr>) =
     Continue (c'\<lparr>socket_buffer := socket_buffer c' @ b\<rparr>) evs"
proof -
  obtain x y rest where buf: "socket_buffer c = x # y # rest"
    using header_pass_long[of c] assms by auto
  show ?thesis using assms buf
    by (auto simp: frame_header_pass_def protocol_error_eq Let_def split: if_splits)
qed


lemma header_pass_Continue_state:
  "frame_header_pass c = Continue c' evs \<Longrightarrow> protocol_decode_state c \<noteq> HandshakePending \<Longrightarrow>
   protocol_decode_state c' \<noteq> HandshakePending"
  by (auto simp: frame_header_pass_def protocol_error_eq Let_def split: if_splits)

lemma header_pass_append_Return:
  assumes "frame_header_pass c = Return c' evs"
  shows "(c' = c \<and> evs = []) \<or> (protocol_decode_state c' = HandshakePending
     \<and> frame_header_pass (c\<lparr>socket_buffer := socket_buffer c @ b\<rparr>) = Return c' evs)"
proof (cases "frame_header_pass c = Return c []")
  case False
  then obtain x y rest where buf: "socket_buffer c = x # y # rest"
    using header_pass_long[of c] by auto
  show ?thesis using assms buf
    by (auto simp: frame_header_pass_def protocol_error_eq Let_def split: if_splits)
qed (use assms in simp)

lemma payload_pass_append_Continue:
  "payload_data_pass c = Continue c' evs \<Longrightarrow>
   payload_data_pass (c\<lparr>socket_buffer := socket_buffer c @ b\<rparr>) =
     Continue (if protocol_decode_state c' = HandshakePending then c'
               else c'\<lparr>socket_buffer := socket_buffer c' @ b\<rparr>) evs
   \<and> (protocol_decode_state c' = HandshakePending \<longrightarrow> socket_buffer c' = [])"
  by (auto simp: payload_data_pass_def protocol_error_eq Let_def split: if_splits)

lemma payload_pass_append_Return:
  "payload_data_pass c = Return c' evs \<Longrightarrow> c' = c \<and> evs = []"
  by (auto simp: payload_data_pass_def protocol_error_eq Let_def split: if_splits)

lemma pass_append_Continue:
  assumes "protocol_decode_state c \<noteq> HandshakePending" "decode_pass c = Continue c' evs"
  shows "decode_pass (c\<lparr>socket_buffer := socket_buffer c @ b\<rparr>) =
           Continue (if protocol_decode_state c' = HandshakePending then c'
                     else c'\<lparr>socket_buffer := socket_buffer c' @ b\<rparr>) evs
         \<and> (protocol_decode_state c' = HandshakePending \<longrightarrow> socket_buffer c' = [])"
proof (cases "protocol_decode_state c")
  case FrameHeaderPending
  with assms(2) have h: "frame_header_pass c = Continue c' evs" by (simp add: decode_pass_def)
  with FrameHeaderPending show ?thesis
    using header_pass_append_Continue[OF h] header_pass_Continue_state[OF h] by (simp add: decode_pass_def)
next
  case PayloadDataPending
  with assms(2) show ?thesis using payload_pass_append_Continue by (simp add: decode_pass_def)
qed (use assms(1) in simp)

lemma pass_append_Return:
  assumes "protocol_decode_state c \<noteq> HandshakePending" "decode_pass c = Return c' evs"
  shows "(c' = c \<and> evs = []) \<or>
         (protocol_decode_state c' = HandshakePending
          \<and> decode_pass (c\<lparr>socket_buffer := socket_buffer c @ b\<rparr>) = Return c' evs)"
proof (cases "protocol_decode_state c")
  case FrameHeaderPending
  with assms(2) show ?thesis using header_pass_append_Return[of c c' evs b] by (simp add: decode_pass_def)
next
  case PayloadDataPending
  with assms(2) show ?thesis using payload_pass_append_Return by (simp add: decode_pass_def)
qed (use assms(1) in simp)

lemma ready_read_append:
  "protocol_decode_state c \<noteq> HandshakePending \<Longrightarrow>
   on_socket_ready_read (c\<lparr>socket_buffer := socket_buffer c @ b\<rparr>) =
     (case on_socket_ready_read c of (c1, evs1) \<Rightarrow>
        if protocol_decode_state c1 = HandshakePending then (c1, evs1)
        else case on_socket_ready_read (c1\<lparr>socket_buffer := socket_buffer c1 @ b\<rparr>) of
               (c2, evs2) \<Rightarrow> (c2, evs1 @ evs2))"
proof (induction c rule: on_socket_ready_read.induct)
  case (1 c)
  show ?case
  proof (cases "socket_buffer c = []")
    case True
    then show ?thesis using "1.prems" by (simp add: ready_read_Nil split: prod.splits)
  next
    case ne: False
    show ?thesis
    proof (cases "decode_pass c")
      case (Return c' evs)
      from pass_append_Return[OF "1.prems" Return, of b] show ?thesis
      proof
        assume "c' = c \<and> evs = []"
        then show ?thesis using ready_read_Return[OF ne Return] "1.prems"
          by (simp split: prod.splits)
      next
        assume h: "protocol_decode_state c' = HandshakePending
          \<and> decode_pass (c\<lparr>socket_buffer := socket_buffer c @ b\<rparr>) = Return c' evs"
        then show ?thesis using ready_read_Return[OF ne Return] ready_read_Return[of _ c' evs] ne
          by simp
      qed
    next
      case (Continue c' evs)
      note pa = pass_append_Continue[OF "1.prems" Continue, of b]
      have ne': "socket_buffer (c\<lparr>socket_buffer := socket_buffer c @ b\<rparr>) \<noteq> []" using ne by simp
      show ?thesis
      proof (cases "protocol_decode_state c' = HandshakePending")
        case True
        with pa have "socket_buffer c' = []" by simp
        then show ?thesis using True pa ready_read_Continue[OF ne Continue]
            ready_read_Continue[OF ne' conjunct1[OF pa]] ready_read_Nil[of c'] by simp
      next
        case False
        have IH: "on_socket_ready_read (c'\<lparr>socket_buffer := socket_buffer c' @ b\<rparr>) =
          (case on_socket_ready_read c' of (c1, evs1) \<Rightarrow>
             if protocol_decode_state c1 = HandshakePending then (c1, evs1)
             else case on_socket_ready_read (c1\<lparr>socket_buffer := socket_buffer c1 @ b\<rparr>) of
                    (c2, evs2) \<Rightarrow> (c2, evs1 @ evs2))"
          by (rule "1.IH"[OF ne Continue False])
        obtain c1 evs1 where o1: "on_socket_ready_read c' = (c1, evs1)"
          by (cases "on_socket_ready_read c'")
        have lhs_c: "on_socket_ready_read c = (c1, evs @ evs1)"
          using ready_read_Continue[OF ne Continue] o1 by simp
        have lhs: "on_socket_ready_read (c\<lparr>socket_buffer := socket_buffer c @ b\<rparr>) =
            (case on_socket_ready_read (c'\<lparr>socket_buffer := socket_buffer c' @ b\<rparr>) of
               (x, y) \<Rightarrow> (x, evs @ y))"
          using ready_read_Continue[OF ne' conjunct1[OF pa]] False by simp
        show ?thesis
        proof (cases "protocol_decode_state c1 = HandshakePending")
          case True
          then show ?thesis using lhs lhs_c IH o1 by simp
        next
          case c1: False
          obtain c2 evs2 where o2: "on_socket_ready_read (c1\<lparr>socket_buffer := socket_buffer c1 @ b\<rparr>) = (c2, evs2)"
            by (cases "on_socket_ready_read (c1\<lparr>socket_buffer := socket_buffer c1 @ b\<rparr>)")
          show ?thesis using lhs lhs_c IH o1 o2 c1 by simp
        qed
      qed
    qed
  qed
qed

lemma protocol_error_connected:
  "sock_state c = SockConnected \<Longrightarrow>
   decoder_reset (fst (protocol_error e c)) \<and> snd (protocol_error e c) = error_events e"
  by (simp add: protocol_error_eq decoder_reset_def error_events_def)


lemma decode_pass_Return_stalled:
  "socket_buffer c \<noteq> [] \<Longrightarrow> decode_pass c = Return c' evs \<Longrightarrow> stalled c'"
  by (cases "protocol_decode_state c")
     (auto simp: decode_pass_def handshake_pass_def frame_header_pass_def payload_data_pass_def
        protocol_error_eq stalled_def Let_def split: if_splits)


lemma decode_pass_no_short_read:
  "socket_buffer c \<noteq> [] \<Longrightarrow> decode_pass c = Continue c' evs \<or> decode_pass c = Return c' evs \<Longrightarrow>
   ProtocolWarning ReadingHeaderFailed \<notin> set evs"
  by (cases "protocol_decode_state c")
     (auto simp: decode_pass_def handshake_pass_def frame_header_pass_def payload_data_pass_def
        protocol_error_eq Let_def split: if_splits pass.splits)


text \<open>Decoding a sequence of frames, by induction on the frames.\<close>

lemma frames_decode:
  assumes "frame_ready acc c" "socket_buffer c = encode_frames fs" "\<forall>f\<in>set fs. wf_frame f"
    "fs \<noteq> [] \<longrightarrow> frame_payload (last fs) \<noteq> []"
  shows "snd (on_socket_ready_read c) = message_events (code_messages acc fs)"
  using assms
proof (induction fs arbitrary: acc c)
  case Nil
  then show ?case by (simp add: ready_read_Nil)
next
  case (Cons f fs)
  let ?cP = "c\<lparr>socket_buffer := frame_payload f @ encode_frames fs, is_final_fragment := frame_fin f,
                 protocol_opcode := ucast (frame_opcode f), is_payload_masked := False,
                 payload_length := length (frame_payload f),
                 protocol_decode_state := PayloadDataPending\<rparr>"
  have wf: "wf_frame f" using Cons.prems(3) by simp
  have frame: "on_socket_ready_read c = on_socket_ready_read ?cP"
    using ready_read_frame[OF Cons.prems(1) wf] Cons.prems(2) by simp
  have nonstall: "frame_payload f \<noteq> [] \<or> encode_frames fs \<noteq> []"
    using Cons.prems(4) by (cases fs) auto
  have acc: "application_data ?cP = acc" "sock_state ?cP = SockConnected"
    using Cons.prems(1) by (simp_all add: frame_ready_def)
  have cP: "protocol_decode_state ?cP = PayloadDataPending" "payload_length ?cP = length (frame_payload f)"
    "socket_buffer ?cP = frame_payload f @ encode_frames fs"
    "is_final_fragment ?cP = frame_fin f" "protocol_opcode ?cP = ucast (frame_opcode f)"
    by simp_all
  note P = ready_read_payload[OF cP(1-3) acc(2) nonstall cP(4,5)]
  show ?case
  proof (cases "frame_fin f \<and> frame_opcode f \<noteq> 1")
    case True
    then show ?thesis using P frame acc by (simp add: Let_def)
  next
    case False
    have ex: "\<exists>c'. socket_buffer c' = encode_frames fs
        \<and> frame_ready (if frame_fin f then [] else acc @ frame_payload f) c'
        \<and> on_socket_ready_read ?cP = (case on_socket_ready_read c' of (c'', evs) \<Rightarrow>
         (c'', (if frame_fin f then [DataReceived (acc @ frame_payload f)] else []) @ evs))"
      using P by (simp only: if_not_P[OF False] acc(1))
    then obtain c' where c': "socket_buffer c' = encode_frames fs"
      "frame_ready (if frame_fin f then [] else acc @ frame_payload f) c'"
      "on_socket_ready_read ?cP = (case on_socket_ready_read c' of (c'', evs) \<Rightarrow>
         (c'', (if frame_fin f then [DataReceived (acc @ frame_payload f)] else []) @ evs))"
      by auto
    have IH: "snd (on_socket_ready_read c') =
      message_events (code_messages (if frame_fin f then [] else acc @ frame_payload f) fs)"
      using Cons.IH[OF c'(2,1)] Cons.prems(3,4) by (cases fs) auto
    show ?thesis using False frame c'(3) IH
      by (cases "on_socket_ready_read c'") (auto simp: Let_def)
  qed
qed


subsection \<open>Properties of the decoder\<close>

text \<open>C1. Refinement of frame-level reassembly: from a decoder waiting for a frame header
  with \<open>acc\<close> pending, a buffer holding any sequence of well-formed unmasked frames
  (the last with a non-empty payload) makes \<open>onSocketReadyRead\<close> emit exactly the events
  of the frame-level walk \<open>code_messages\<close>: one \<open>dataReceived\<close> per completed text
  message, or the rejection of the stream at the first completed non-text message.\<close>

theorem decode_encoded_frames:
  assumes "frame_ready acc c" "socket_buffer c = encode_frames fs" "\<forall>f\<in>set fs. wf_frame f"
    "fs \<noteq> [] \<longrightarrow> frame_payload (last fs) \<noteq> []"
  shows "snd (on_socket_ready_read c) = message_events (code_messages acc fs)"
  using assms by (rule frames_decode)

theorem decode_encoded_frames_witness:
  "frame_ready [] (init_conn\<lparr>protocol_decode_state := FrameHeaderPending, sock_state := SockConnected,
       socket_buffer := encode_frames [\<lparr>frame_fin = True, frame_opcode = 1, frame_payload = [0x68, 0x69]\<rparr>]\<rparr>)
   \<and> snd (on_socket_ready_read (init_conn\<lparr>protocol_decode_state := FrameHeaderPending,
       sock_state := SockConnected,
       socket_buffer := encode_frames [\<lparr>frame_fin = True, frame_opcode = 1, frame_payload = [0x68, 0x69]\<rparr>]\<rparr>))
     = [DataReceived [0x68, 0x69]]"
proof -
  let ?f = "\<lparr>frame_fin = True, frame_opcode = 1, frame_payload = [0x68, 0x69]\<rparr> :: frame"
  let ?c = "init_conn\<lparr>protocol_decode_state := FrameHeaderPending, sock_state := SockConnected,
       socket_buffer := encode_frames [?f]\<rparr>"
  have r: "frame_ready [] ?c" by (simp add: frame_ready_def init_conn_def)
  have wf: "\<forall>f\<in>set [?f]. wf_frame f" by (simp add: wf_frame_def)
  have ne: "[?f] \<noteq> [] \<longrightarrow> frame_payload (last [?f]) \<noteq> []" by simp
  have "snd (on_socket_ready_read ?c) = message_events (code_messages [] [?f])"
    using decode_encoded_frames[OF r _ wf ne] by simp
  with r show ?thesis by simp
qed

text \<open>C2. Chunk boundaries do not matter: once the handshake is done, delivering
  \<open>a @ b\<close> in one \<open>readyRead\<close> gives the same state and events as delivering
  \<open>a\<close> and then \<open>b\<close>, unless the first delivery ended in a protocol error (the socket
  is then closed and \<open>b\<close> never arrives).\<close>

theorem deliver_split:
  assumes "protocol_decode_state c \<noteq> HandshakePending"
  shows "deliver (a @ b) c =
           (case deliver a c of (c1, evs1) \<Rightarrow>
              if protocol_decode_state c1 = HandshakePending then (c1, evs1)
              else case deliver b c1 of (c2, evs2) \<Rightarrow> (c2, evs1 @ evs2))"
proof -
  let ?c = "c\<lparr>socket_buffer := socket_buffer c @ a\<rparr>"
  have "on_socket_ready_read (?c\<lparr>socket_buffer := socket_buffer ?c @ b\<rparr>) =
     (case on_socket_ready_read ?c of (c1, evs1) \<Rightarrow>
        if protocol_decode_state c1 = HandshakePending then (c1, evs1)
        else case on_socket_ready_read (c1\<lparr>socket_buffer := socket_buffer c1 @ b\<rparr>) of
               (c2, evs2) \<Rightarrow> (c2, evs1 @ evs2))"
    using assms by (intro ready_read_append) simp
  then show ?thesis
    unfolding deliver_def by simp
qed

theorem deliver_split_witness:
  "protocol_decode_state (init_conn\<lparr>protocol_decode_state := FrameHeaderPending, sock_state := SockConnected\<rparr>)
     \<noteq> HandshakePending
   \<and> deliver ([0x81] @ [0x01, 0x68]) (init_conn\<lparr>protocol_decode_state := FrameHeaderPending, sock_state := SockConnected\<rparr>) =
     (case deliver [0x81] (init_conn\<lparr>protocol_decode_state := FrameHeaderPending, sock_state := SockConnected\<rparr>) of
        (c1, evs1) \<Rightarrow> if protocol_decode_state c1 = HandshakePending then (c1, evs1)
                      else case deliver [0x01, 0x68] c1 of (c2, evs2) \<Rightarrow> (c2, evs1 @ evs2))"
  using deliver_split[of "init_conn\<lparr>protocol_decode_state := FrameHeaderPending, sock_state := SockConnected\<rparr>"
      "[0x81]" "[0x01, 0x68]"]
  by (simp add: init_conn_def)

text \<open>C3. On messages sent as single frames the decoder meets the specification's
  reassembly: it emits one \<open>dataReceived\<close> per text frame, in order, and rejects the
  stream at the first final frame of another type.\<close>

theorem decode_unfragmented_meets_spec:
  assumes "frame_ready [] c" "socket_buffer c = encode_frames fs"
    "\<forall>f\<in>set fs. wf_frame f \<and> frame_fin f" "fs \<noteq> [] \<longrightarrow> frame_payload (last fs) \<noteq> []"
  shows "snd (on_socket_ready_read c) = message_events (spec_messages None [] fs)"
proof -
  have "snd (on_socket_ready_read c) = message_events (code_messages [] fs)"
    using assms by (intro frames_decode) auto
  then show ?thesis using assms(3) code_messages_unfragmented[of fs "[]"] by simp
qed


theorem decode_unfragmented_meets_spec_witness:
  "snd (on_socket_ready_read (init_conn\<lparr>protocol_decode_state := FrameHeaderPending, sock_state := SockConnected,
       socket_buffer := encode_frames [\<lparr>frame_fin = True, frame_opcode = 1, frame_payload = [0x68]\<rparr>,
                                       \<lparr>frame_fin = True, frame_opcode = 1, frame_payload = [0x69]\<rparr>]\<rparr>))
   = [DataReceived [0x68], DataReceived [0x69]]"
proof -
  let ?fs = "[\<lparr>frame_fin = True, frame_opcode = 1, frame_payload = [0x68]\<rparr>,
              \<lparr>frame_fin = True, frame_opcode = 1, frame_payload = [0x69::byte]\<rparr>]"
  let ?c = "init_conn\<lparr>protocol_decode_state := FrameHeaderPending, sock_state := SockConnected, socket_buffer := encode_frames ?fs\<rparr>"
  have "snd (on_socket_ready_read ?c) = message_events (spec_messages None [] ?fs)"
    by (rule decode_unfragmented_meets_spec) (simp_all add: frame_ready_def init_conn_def wf_frame_def)
  then show ?thesis by simp
qed

text \<open>C4. A text message fragmented the way RFC 6455 prescribes (a non-final text frame,
  then a final continuation frame) is rejected as an unsupported opcode and the socket is
  closed, where the specification's reassembly delivers the concatenated payload: the
  decoder tests the opcode of the last frame, which is the continuation opcode.\<close>

theorem decode_fragmented_rejected:
  assumes "frame_ready [] c"
    "socket_buffer c = encode_frames [\<lparr>frame_fin = False, frame_opcode = 1, frame_payload = p1\<rparr>,
                                       \<lparr>frame_fin = True, frame_opcode = 0, frame_payload = p2\<rparr>]"
    "length p1 < 65536" "length p2 < 65536" "p2 \<noteq> []"
  shows "snd (on_socket_ready_read c) = rejection_events
    \<and> spec_messages None [] [\<lparr>frame_fin = False, frame_opcode = 1, frame_payload = p1\<rparr>,
                             \<lparr>frame_fin = True, frame_opcode = 0, frame_payload = p2\<rparr>] = [Message (p1 @ p2)]"
proof -
  have "snd (on_socket_ready_read c) =
    message_events (code_messages [] [\<lparr>frame_fin = False, frame_opcode = 1, frame_payload = p1\<rparr>,
                                       \<lparr>frame_fin = True, frame_opcode = 0, frame_payload = p2\<rparr>])"
    using assms by (intro frames_decode) (auto simp: wf_frame_def)
  then show ?thesis by simp
qed


theorem decode_fragmented_rejected_witness:
  "snd (on_socket_ready_read (init_conn\<lparr>protocol_decode_state := FrameHeaderPending, sock_state := SockConnected,
       socket_buffer := encode_frames [\<lparr>frame_fin = False, frame_opcode = 1, frame_payload = [0x68]\<rparr>,
                                       \<lparr>frame_fin = True, frame_opcode = 0, frame_payload = [0x69]\<rparr>]\<rparr>))
   = rejection_events"
  using decode_fragmented_rejected[of "init_conn\<lparr>protocol_decode_state := FrameHeaderPending, sock_state := SockConnected,
       socket_buffer := encode_frames [\<lparr>frame_fin = False, frame_opcode = 1, frame_payload = [0x68]\<rparr>,
                                       \<lparr>frame_fin = True, frame_opcode = 0, frame_payload = [0x69]\<rparr>]\<rparr>"
      "[0x68]" "[0x69]"]
  by (simp add: frame_ready_def init_conn_def)

text \<open>C5. A frame with the mask bit set is refused: \<open>protocolError\<close> resets the decoder,
  the socket is closed and \<open>Disconnected\<close> is announced; no data is emitted.\<close>

theorem masked_frame_rejected:
  assumes "frame_ready acc c" "socket_buffer c = b0 # b1 # rest" "b1 AND 0x80 \<noteq> 0"
  shows "decoder_reset (fst (on_socket_ready_read c))
         \<and> snd (on_socket_ready_read c) = error_events MaskedPayloadNotSupported"
proof -
  have "decode_pass c = (case protocol_error MaskedPayloadNotSupported
           (c\<lparr>socket_buffer := rest, is_final_fragment := b0 AND 0x80 \<noteq> 0,
              protocol_opcode := ucast (b0 AND 0x0F), is_payload_masked := True,
              payload_length := unat (b1 AND 0x7F)\<rparr>) of (c', evs) \<Rightarrow> Return c' evs)"
    using assms by (simp add: decode_pass_def frame_header_pass_def frame_ready_def Let_def)
  then show ?thesis using assms(1,2) ready_read_Return[of c]
    by (simp add: protocol_error_eq decoder_reset_def error_events_def frame_ready_def)
qed


theorem masked_frame_rejected_witness:
  "decoder_reset (fst (on_socket_ready_read (init_conn\<lparr>protocol_decode_state := FrameHeaderPending, sock_state := SockConnected, socket_buffer := [0x81, 0x82, 1, 2]\<rparr>)))
   \<and> snd (on_socket_ready_read (init_conn\<lparr>protocol_decode_state := FrameHeaderPending, sock_state := SockConnected, socket_buffer := [0x81, 0x82, 1, 2]\<rparr>))
     = error_events MaskedPayloadNotSupported"
  by (rule masked_frame_rejected[of "[]" _ "0x81" "0x82" "[1, 2]"]) (simp_all add: frame_ready_def init_conn_def)

text \<open>C6. A frame announcing a 64-bit length (7-bit length field 127) is refused the same
  way.\<close>

theorem large_frame_rejected:
  assumes "frame_ready acc c" "socket_buffer c = b0 # b1 # rest" "b1 AND 0x80 = 0"
    "b1 AND 0x7F = 127"
  shows "decoder_reset (fst (on_socket_ready_read c))
         \<and> snd (on_socket_ready_read c) = error_events LargePayloadNotSupported"
proof -
  have "decode_pass c = (case protocol_error LargePayloadNotSupported
           (c\<lparr>socket_buffer := rest, is_final_fragment := b0 AND 0x80 \<noteq> 0,
              protocol_opcode := ucast (b0 AND 0x0F), is_payload_masked := False,
              payload_length := 127\<rparr>) of (c', evs) \<Rightarrow> Return c' evs)"
    using assms by (simp add: decode_pass_def frame_header_pass_def frame_ready_def Let_def)
  then show ?thesis using assms(1,2) ready_read_Return[of c]
    by (simp add: protocol_error_eq decoder_reset_def error_events_def frame_ready_def)
qed



theorem large_frame_rejected_witness:
  "decoder_reset (fst (on_socket_ready_read (init_conn\<lparr>protocol_decode_state := FrameHeaderPending, sock_state := SockConnected, socket_buffer := [0x81, 0x7F]\<rparr>)))
   \<and> snd (on_socket_ready_read (init_conn\<lparr>protocol_decode_state := FrameHeaderPending, sock_state := SockConnected, socket_buffer := [0x81, 0x7F]\<rparr>))
     = error_events LargePayloadNotSupported"
  by (rule large_frame_rejected[of "[]" _ "0x81" "0x7F" "[]"]) (simp_all add: frame_ready_def init_conn_def)

text \<open>C7. The read loop never stops while it could make progress: when
  \<open>onSocketReadyRead\<close> returns, the buffer is empty or shorter than the header or the
  payload the decoder waits for.\<close>

theorem ready_read_stalled: "stalled (fst (on_socket_ready_read c))"
proof (induction c rule: on_socket_ready_read.induct)
  case (1 c)
  show ?case
  proof (cases "socket_buffer c = []")
    case True
    then show ?thesis by (simp add: ready_read_Nil stalled_def)
  next
    case ne: False
    show ?thesis
    proof (cases "decode_pass c")
      case (Return c' evs)
      then show ?thesis using ready_read_Return[OF ne Return] decode_pass_Return_stalled[OF ne] by simp
    next
      case (Continue c' evs)
      then show ?thesis using ready_read_Continue[OF ne Continue] "1.IH"[OF ne Continue]
        by (simp split: prod.splits)
    qed
  qed
qed


text \<open>C8. A final frame with an empty payload that ends a delivery is not delivered: its
  header is read, the loop stops on the empty buffer in \<open>PayloadDataPending\<close>, and the
  message is only emitted when the next bytes arrive.\<close>

theorem empty_final_frame_waits:
  assumes "frame_ready acc c"
    "socket_buffer c = encode_frame \<lparr>frame_fin = True, frame_opcode = 1, frame_payload = []\<rparr>"
    "bs \<noteq> []"
  shows "snd (on_socket_ready_read c) = []
    \<and> protocol_decode_state (fst (on_socket_ready_read c)) = PayloadDataPending
    \<and> hd (snd (deliver bs (fst (on_socket_ready_read c)))) = DataReceived acc"
proof -
  let ?f = "\<lparr>frame_fin = True, frame_opcode = 1, frame_payload = []\<rparr> :: frame"
  let ?cP = "c\<lparr>socket_buffer := [] @ [], is_final_fragment := True,
                 protocol_opcode := ucast (1::byte), is_payload_masked := False,
                 payload_length := 0, protocol_decode_state := PayloadDataPending\<rparr>"
  have wf: "wf_frame ?f" by (simp add: wf_frame_def)
  have frame: "on_socket_ready_read c = on_socket_ready_read ?cP"
    using ready_read_frame[OF assms(1) wf, of "[]"] assms(2) by simp
  have stop: "on_socket_ready_read ?cP = (?cP, [])" by (simp add: ready_read_Nil)
  let ?cB = "?cP\<lparr>socket_buffer := socket_buffer ?cP @ bs\<rparr>"
  have pass: "decode_pass ?cB = Continue (?cB\<lparr>application_data := application_data ?cB @ [],
                  socket_buffer := bs, protocol_decode_state := FrameHeaderPending,
                  payload_length := 0, application_data := []\<rparr>) [DataReceived (acc @ [])]"
    using payload_pass_frame[of ?cB "[]" bs] assms(1)
    by (simp add: decode_pass_def frame_ready_def TextFrameOp_def Let_def)
  have "hd (snd (deliver bs ?cP)) = DataReceived acc"
    using ready_read_Continue[OF _ pass] assms(3) by (simp add: deliver_def split: prod.splits)
  then show ?thesis using frame stop by simp
qed


theorem empty_final_frame_waits_witness:
  "snd (on_socket_ready_read (init_conn\<lparr>protocol_decode_state := FrameHeaderPending, sock_state := SockConnected, socket_buffer := [0x81, 0x00]\<rparr>)) = []
   \<and> hd (snd (deliver [0x81] (fst (on_socket_ready_read (init_conn\<lparr>protocol_decode_state := FrameHeaderPending, sock_state := SockConnected, socket_buffer := [0x81, 0x00]\<rparr>)))))
     = DataReceived []"
proof -
  have "snd (on_socket_ready_read (init_conn\<lparr>protocol_decode_state := FrameHeaderPending, sock_state := SockConnected, socket_buffer := encode_frame \<lparr>frame_fin = True, frame_opcode = 1, frame_payload = []\<rparr>\<rparr>)) = []
    \<and> protocol_decode_state (fst (on_socket_ready_read (init_conn\<lparr>protocol_decode_state := FrameHeaderPending, sock_state := SockConnected, socket_buffer := encode_frame \<lparr>frame_fin = True, frame_opcode = 1, frame_payload = []\<rparr>\<rparr>))) = PayloadDataPending
    \<and> hd (snd (deliver [0x81] (fst (on_socket_ready_read (init_conn\<lparr>protocol_decode_state := FrameHeaderPending, sock_state := SockConnected, socket_buffer := encode_frame \<lparr>frame_fin = True, frame_opcode = 1, frame_payload = []\<rparr>\<rparr>))))) = DataReceived []"
    by (rule empty_final_frame_waits) (simp_all add: frame_ready_def init_conn_def)
  then show ?thesis
    by (simp add: encode_frame_def frame_header_def header_byte0_def)
qed

text \<open>C9. The branch \<open>Reading header failed!\<close> is dead: a header is only read when two
  bytes are buffered, so the read is never short.\<close>

theorem header_read_never_short:
  "ProtocolWarning ReadingHeaderFailed \<notin> set (snd (on_socket_ready_read c))"
proof (induction c rule: on_socket_ready_read.induct)
  case (1 c)
  show ?case
  proof (cases "socket_buffer c = []")
    case True
    then show ?thesis by (simp add: ready_read_Nil)
  next
    case ne: False
    show ?thesis
    proof (cases "decode_pass c")
      case (Return c' evs)
      then show ?thesis using ready_read_Return[OF ne Return] decode_pass_no_short_read[OF ne] by simp
    next
      case (Continue c' evs)
      then show ?thesis using ready_read_Continue[OF ne Continue] "1.IH"[OF ne Continue]
          decode_pass_no_short_read[OF ne]
        by (simp split: prod.splits)
    qed
  qed
qed



end
