(* ===== verification/Json.thy ===== *)
theory Json
  imports Prelude "HOL-Library.List_Lexorder" "HOL-Library.Char_ord"
begin

text \<open>
  The JSON values the model cache of \<open>src/src/enginio_client/enginiomodel.cpp\<close> stores
  and exchanges with the backend (\<open>QJsonValue\<close>, \<open>QJsonObject\<close>, \<open>QJsonArray\<close>).
  A \<open>QJsonObject\<close> keeps its entries sorted by key, so it is modelled as an association
  list sorted strictly by key (the discipline of \<open>AList_Upd_Del\<close> in the HOL library),
  with string keys ordered lexicographically by code point.  Numbers are \<open>int\<close>: the
  values the model reads (\<open>pageSize\<close>, \<open>limit\<close>, \<open>offset\<close>) are integral, and
  \<open>toDouble()\<close> followed by the conversion to \<open>int\<close> the code does is the identity on
  them.

  Reading a key through the non-const \<open>operator[]\<close> inserts it with a \<open>null\<close> value
  when it is absent (Qt's documented behaviour); \<open>obj_index\<close> models that read, and
  \<open>obj_value\<close> the const one, which answers \<open>Undefined\<close>.
\<close>

datatype json =
    JNull
  | JUndefined
  | JBool bool
  | JNum int
  | JStr string
  | JArr "json list"
  | JObj "(string \<times> json) list"

type_synonym jobject = "(string \<times> json) list"

subsection \<open>\<open>QJsonObject\<close>\<close>

definition obj_wf :: "jobject \<Rightarrow> bool" where
  "obj_wf ob \<longleftrightarrow> sorted_wrt (<) (map fst ob)"

fun obj_upd :: "string \<Rightarrow> json \<Rightarrow> jobject \<Rightarrow> jobject" where
  "obj_upd k v [] = [(k, v)]"
| "obj_upd k v ((a, b) # ps) =
     (if k < a then (k, v) # (a, b) # ps else if k = a then (k, v) # ps else (a, b) # obj_upd k v ps)"

text \<open>\<open>QJsonObject::remove\<close>.\<close>

fun obj_remove :: "string \<Rightarrow> jobject \<Rightarrow> jobject" where
  "obj_remove k [] = []"
| "obj_remove k ((a, b) # ps) = (if k = a then ps else (a, b) # obj_remove k ps)"

text \<open>\<open>QJsonObject::insert\<close>, and assignment through \<open>operator[]\<close>, which calls it: an
  \<open>Undefined\<close> value removes the key.\<close>

definition obj_insert :: "string \<Rightarrow> json \<Rightarrow> jobject \<Rightarrow> jobject" where
  "obj_insert k v ob = (if v = JUndefined then obj_remove k ob else obj_upd k v ob)"

text \<open>\<open>QJsonObject::value\<close> and the const \<open>operator[]\<close>.\<close>

definition obj_value :: "string \<Rightarrow> jobject \<Rightarrow> json" where
  "obj_value k ob = (case map_of ob k of Some v \<Rightarrow> v | None \<Rightarrow> JUndefined)"

text \<open>The non-const \<open>operator[]\<close> used as an rvalue: the value and the object, which
  has gained \<open>k: null\<close> when \<open>k\<close> was absent.\<close>

definition obj_index :: "string \<Rightarrow> jobject \<Rightarrow> json \<times> jobject" where
  "obj_index k ob = (case map_of ob k of Some v \<Rightarrow> (v, ob) | None \<Rightarrow> (JNull, obj_upd k JNull ob))"

definition obj_contains :: "string \<Rightarrow> jobject \<Rightarrow> bool" where
  "obj_contains k ob \<longleftrightarrow> map_of ob k \<noteq> None"

subsection \<open>\<open>QJsonValue\<close> conversions\<close>

definition to_double :: "json \<Rightarrow> int" where
  "to_double v = (case v of JNum n \<Rightarrow> n | _ \<Rightarrow> 0)"

definition to_string :: "json \<Rightarrow> string" where
  "to_string v = (case v of JStr s \<Rightarrow> s | _ \<Rightarrow> [])"

definition to_array :: "json \<Rightarrow> json list" where
  "to_array v = (case v of JArr xs \<Rightarrow> xs | _ \<Rightarrow> [])"

definition to_object :: "json \<Rightarrow> jobject" where
  "to_object v = (case v of JObj ob \<Rightarrow> ob | _ \<Rightarrow> [])"

definition is_null :: "json \<Rightarrow> bool" where
  "is_null v \<longleftrightarrow> v = JNull"

subsection \<open>\<open>QJsonArray\<close>\<close>

text \<open>\<open>at(i)\<close> (and \<open>first()\<close>, which is \<open>at(0)\<close>) answers \<open>Undefined\<close> out of
  range; \<open>removeAt(i)\<close> does nothing out of range; \<open>replace(i, v)\<close> and the non-const
  \<open>operator[]\<close> only assert the range, so out of range they have no defined result
  (\<open>None\<close>).\<close>

definition json_at :: "int \<Rightarrow> json list \<Rightarrow> json" where
  "json_at i xs = (if 0 \<le> i \<and> i < int (length xs) then xs ! nat i else JUndefined)"

definition json_replace :: "int \<Rightarrow> json \<Rightarrow> json list \<Rightarrow> json list option" where
  "json_replace i v xs = (if 0 \<le> i \<and> i < int (length xs) then Some (xs[nat i := v]) else None)"

definition json_remove_at :: "int \<Rightarrow> json list \<Rightarrow> json list" where
  "json_remove_at i xs =
     (if 0 \<le> i \<and> i < int (length xs) then take (nat i) xs @ drop (Suc (nat i)) xs else xs)"

subsection \<open>Lemmas\<close>

lemma to_string_JStr [simp]: "to_string (JStr s) = s"
  by (simp add: to_string_def)

lemma map_of_obj_upd [simp]: "map_of (obj_upd k v ob) = (map_of ob)(k \<mapsto> v)"
  by (induction ob rule: obj_upd.induct) (auto simp: fun_eq_iff)

lemma set_obj_upd: "x \<in> set (obj_upd k v ob) \<Longrightarrow> fst x = k \<or> x \<in> set ob"
  by (induction ob rule: obj_upd.induct) (auto split: if_splits)

lemma obj_wf_Nil [simp]: "obj_wf []"
  by (simp add: obj_wf_def)

lemma obj_wf_Cons: "obj_wf ((a, b) # ps) \<longleftrightarrow> (\<forall>x\<in>set ps. a < fst x) \<and> obj_wf ps"
  by (simp add: obj_wf_def)

lemma obj_wf_upd: "obj_wf ob \<Longrightarrow> obj_wf (obj_upd k v ob)"
  by (induction ob rule: obj_upd.induct) (auto simp: obj_wf_Cons dest: set_obj_upd)

lemma set_obj_remove: "set (obj_remove k ob) \<subseteq> set ob"
  by (induction ob rule: obj_remove.induct) auto

lemma obj_wf_remove: "obj_wf ob \<Longrightarrow> obj_wf (obj_remove k ob)"
  by (induction ob rule: obj_remove.induct) (auto simp: obj_wf_Cons dest: set_obj_remove[THEN subsetD])

lemma obj_wf_insert: "obj_wf ob \<Longrightarrow> obj_wf (obj_insert k v ob)"
  by (simp add: obj_insert_def obj_wf_upd obj_wf_remove)

text \<open>A key no greater than the first key is absent from the rest.\<close>

lemma obj_wf_map_of_tail: "obj_wf ((a, b) # ps) \<Longrightarrow> k \<le> a \<Longrightarrow> map_of ps k = None"
  by (auto simp: obj_wf_Cons map_of_eq_None_iff)

lemma map_of_obj_remove:
  "obj_wf ob \<Longrightarrow> map_of (obj_remove k ob) = (map_of ob)(k := None)"
proof (induction ob rule: obj_remove.induct)
  case (2 k a b ps)
  then have "map_of ps a = None"
    by (auto intro: obj_wf_map_of_tail)
  with 2 show ?case by (auto simp: obj_wf_Cons fun_eq_iff)
qed simp

lemma obj_value_insert:
  "obj_wf ob \<Longrightarrow> obj_value k' (obj_insert k v ob) = (if k' = k then v else obj_value k' ob)"
  by (simp add: obj_insert_def obj_value_def map_of_obj_remove)

text \<open>Inserting or removing a key leaves the other keys' values, whether or not the object
  is well formed.\<close>

lemma map_of_obj_remove_other: "k' \<noteq> k \<Longrightarrow> map_of (obj_remove k ob) k' = map_of ob k'"
  by (induction ob rule: obj_remove.induct) auto

lemma map_of_obj_insert_other: "k' \<noteq> k \<Longrightarrow> map_of (obj_insert k v ob) k' = map_of ob k'"
  by (simp add: obj_insert_def map_of_obj_remove_other)

lemma obj_wf_index: "obj_wf ob \<Longrightarrow> obj_wf (snd (obj_index k ob))"
  by (simp add: obj_index_def obj_wf_upd split: option.split)

text \<open>Keys sorted strictly make the representation canonical: two well-formed objects are
  equal exactly when they map the same keys to the same values, so HOL equality is
  \<open>QJsonObject::operator==\<close>.\<close>

lemma obj_eq_iff_map_of:
  assumes "obj_wf a" "obj_wf b"
  shows "a = b \<longleftrightarrow> map_of a = map_of b"
proof
  show "map_of a = map_of b \<Longrightarrow> a = b"
    using assms
  proof (induction a arbitrary: b)
    case Nil
    then show ?case by (metis map_of_eq_empty_iff)
  next
    case (Cons p ps)
    obtain k v where p: "p = (k, v)" by fastforce
    have "map_of b k = Some v"
      using fun_cong[OF Cons.prems(1), of k] p by simp
    then obtain k' v' qs where b: "b = (k', v') # qs"
      by (cases b) auto
    have "k = k'"
    proof (rule ccontr)
      assume "k \<noteq> k'"
      then consider "k < k'" | "k' < k" by fastforce
      then show False
      proof cases
        case 1
        then have "map_of qs k = None"
          using Cons.prems(3) b obj_wf_map_of_tail[of k' v' qs k] by simp
        then show False using \<open>map_of b k = Some v\<close> b \<open>k \<noteq> k'\<close> by simp
      next
        case 2
        then have "map_of ps k' = None"
          using Cons.prems(2) p obj_wf_map_of_tail[of k v ps k'] by simp
        then show False
          using fun_cong[OF Cons.prems(1), of k'] p b \<open>k \<noteq> k'\<close> by simp
      qed
    qed
    have "v = v'"
      using \<open>map_of b k = Some v\<close> b \<open>k = k'\<close> by simp
    have "map_of ps = map_of qs"
    proof
      fix x
      show "map_of ps x = map_of qs x"
      proof (cases "x = k")
        case True
        then show ?thesis
          using Cons.prems(2,3) p b \<open>k = k'\<close> obj_wf_map_of_tail by simp
      next
        case False
        then show ?thesis
          using fun_cong[OF Cons.prems(1), of x] p b \<open>k = k'\<close> by simp
      qed
    qed
    then have "ps = qs"
      using Cons.IH Cons.prems(2,3) p b by (simp add: obj_wf_Cons)
    then show ?case
      using p b \<open>k = k'\<close> \<open>v = v'\<close> by simp
  qed
qed simp
end
