(* ===== verification/Attached.thy ===== *)
theory Attached
  imports Prelude "HOL-Library.AList"
begin

text \<open>
  \<open>AttachedDataContainer\<close> of \<open>src/src/enginio_client/enginiomodel.cpp\<close> (lines
  51--145): the model's bookkeeping of the rows that have requests in flight, a
  \<open>QHash\<close> from object id to \<open>EnginioModelPrivateAttachedData\<close> (a reference count,
  a row, the create request still running).  The hash is an association list without
  repeated keys whose order is the hash's iteration order, which Qt leaves unspecified;
  \<open>insert\<close> of a new key is \<open>AList.update\<close>, which adds it at the end, \<open>take\<close> is
  \<open>AList.delete\<close>.  The reference count is the \<open>uint\<close> of the source, a
  \<open>32 word\<close>, so that decrementing a zero count wraps as it does in C++; the create
  reply is a reply number, \<open>None\<close> for the null pointer.
\<close>

record attached_data =
  att_ref :: "32 word"
  att_row :: int
  att_create_reply :: "nat option"

type_synonym attached_container = "(string \<times> attached_data) list"

text \<open>The value-initialised \<open>EnginioModelPrivateAttachedData\<close> (a
  \<open>Q_PRIMITIVE_TYPE\<close>) that \<open>QHash::operator[]\<close> inserts and \<open>QHash::take\<close>
  returns for a missing key.\<close>

definition attached_default :: attached_data where
  "attached_default = \<lparr>att_ref = 0, att_row = 0, att_create_reply = None\<rparr>"

definition lookup_or_default :: "string \<Rightarrow> attached_container \<Rightarrow> attached_data" where
  "lookup_or_default k a = (case map_of a k of Some d \<Rightarrow> d | None \<Rightarrow> attached_default)"

text \<open>\<open>contains(int row)\<close> and \<open>value(int row)\<close>: a scan for an entry holding the
  row; \<open>value\<close> reaches \<open>Q_UNREACHABLE\<close> (here \<open>None\<close>) when there is none.\<close>

definition contains_row :: "int \<Rightarrow> attached_container \<Rightarrow> bool" where
  "contains_row row a \<longleftrightarrow> list_ex (\<lambda>(_, d). att_row d = row) a"

definition value_row :: "int \<Rightarrow> attached_container \<Rightarrow> attached_data option" where
  "value_row row a = map_option snd (find (\<lambda>(_, d). att_row d = row) a)"

text \<open>\<open>updateAllDataAfterRow\<close>: after row \<open>row\<close> is removed, later rows move up one
  and the entry of the removed row is marked \<open>-1\<close>.\<close>

definition update_all_data_after_row :: "int \<Rightarrow> attached_container \<Rightarrow> attached_container" where
  "update_all_data_after_row row a =
     map (\<lambda>(k, d). (k, if row < att_row d then d\<lparr>att_row := att_row d - 1\<rparr>
                       else if att_row d = row then d\<lparr>att_row := -1\<rparr> else d)) a"

text \<open>\<open>ref(const QString &id, int row)\<close>; the assertion on line 119 is not checked in
  a release build and is left out.\<close>

definition ref_id :: "string \<Rightarrow> int \<Rightarrow> attached_container \<Rightarrow> attached_data \<times> attached_container" where
  "ref_id k row a =
     (let d = lookup_or_default k a;
          d = d\<lparr>att_ref := att_ref d + 1, att_row := row\<rparr>
      in (d, AList.update k d a))"

text \<open>\<open>ref(int row)\<close>: the first entry holding the row gains a reference; with none,
  the code dereferences \<open>end()\<close>, which has no defined result (\<open>None\<close>).\<close>

fun ref_row :: "int \<Rightarrow> attached_container \<Rightarrow> (attached_data \<times> attached_container) option" where
  "ref_row row [] = None"
| "ref_row row ((k, d) # a) =
     (if att_row d = row then (let d' = d\<lparr>att_ref := att_ref d + 1\<rparr> in Some (d', (k, d') # a))
      else map_option (\<lambda>(r, a'). (r, (k, d) # a')) (ref_row row a))"

text \<open>\<open>deref(const QString &id)\<close>: \<open>take\<close>, decrement, put back unless the count
  reached zero.  The \<open>Q_ASSERT(contains(id))\<close> is not checked in a release build: on a
  missing id \<open>take\<close> returns the default value.\<close>

definition deref :: "string \<Rightarrow> attached_container \<Rightarrow> attached_data \<times> attached_container" where
  "deref k a =
     (let d = lookup_or_default k a;
          a = AList.delete k a;
          d = d\<lparr>att_ref := att_ref d - 1\<rparr>
      in (d, if att_ref d \<noteq> 0 then AList.update k d a else a))"

text \<open>Every attached row is a row of a model of \<open>n\<close> rows, or \<open>-1\<close> (removed).\<close>

definition rows_valid :: "int \<Rightarrow> attached_container \<Rightarrow> bool" where
  "rows_valid n a \<longleftrightarrow>
     list_all (\<lambda>e. att_row (snd e) = -1 \<or> (0 \<le> att_row (snd e) \<and> att_row (snd e) < n)) a"

subsection \<open>Lemmas\<close>

lemma keys_update_all [simp]: "map fst (update_all_data_after_row row a) = map fst a"
  by (induction a) (auto simp: update_all_data_after_row_def)

lemma keys_ref_row: "ref_row row a = Some (d, a') \<Longrightarrow> map fst a' = map fst a"
  by (induction a arbitrary: a' rule: ref_row.induct) (auto simp: Let_def split: if_splits)

lemma distinct_ref_id: "distinct (map fst a) \<Longrightarrow> distinct (map fst (snd (ref_id k row a)))"
  by (simp add: ref_id_def Let_def distinct_update)

lemma distinct_deref: "distinct (map fst a) \<Longrightarrow> distinct (map fst (snd (deref k a)))"
  by (simp add: deref_def Let_def distinct_update distinct_delete)

text \<open>The scan of \<open>ref(int row)\<close> succeeds exactly when \<open>contains(int row)\<close>
  holds.\<close>

lemma ref_row_defined: "ref_row row a \<noteq> None \<longleftrightarrow> contains_row row a"
  by (induction a rule: ref_row.induct) (auto simp: contains_row_def Let_def)

lemma value_row_defined: "value_row row a \<noteq> None \<longleftrightarrow> contains_row row a"
  by (induction a) (auto simp: contains_row_def value_row_def)

lemma rows_valid_mono: "rows_valid n a \<Longrightarrow> n \<le> m \<Longrightarrow> rows_valid m a"
  by (auto simp: rows_valid_def list_all_iff)

lemma set_alist_update: "set (AList.update k d a) \<subseteq> insert (k, d) (set a)"
  by (induction a) auto

lemma set_alist_delete: "set (AList.delete k a) \<subseteq> set a"
  by (auto simp: AList.delete_eq)

lemma rows_valid_update:
  "rows_valid n a \<Longrightarrow> att_row d = -1 \<or> (0 \<le> att_row d \<and> att_row d < n) \<Longrightarrow>
   rows_valid n (AList.update k d a)"
  unfolding rows_valid_def list_all_iff
  by (auto dest: set_alist_update[THEN subsetD])

lemma rows_valid_delete: "rows_valid n a \<Longrightarrow> rows_valid n (AList.delete k a)"
  unfolding rows_valid_def list_all_iff
  by (auto dest: set_alist_delete[THEN subsetD])

text \<open>Removing a valid row and renumbering keeps every attached row valid for the
  shorter model.\<close>

lemma rows_valid_update_all:
  "rows_valid n a \<Longrightarrow> 0 \<le> row \<Longrightarrow> row < n \<Longrightarrow> rows_valid (n - 1) (update_all_data_after_row row a)"
  unfolding rows_valid_def list_all_iff update_all_data_after_row_def
  by fastforce

lemma rows_valid_ref_id:
  "rows_valid n a \<Longrightarrow> row = -1 \<or> (0 \<le> row \<and> row < n) \<Longrightarrow> rows_valid n (snd (ref_id k row a))"
  by (simp add: ref_id_def Let_def rows_valid_update)

lemma rows_valid_map_of:
  "rows_valid n a \<Longrightarrow> map_of a k = Some d \<Longrightarrow> att_row d = -1 \<or> (0 \<le> att_row d \<and> att_row d < n)"
  by (auto simp: rows_valid_def list_all_iff dest!: map_of_SomeD)

text \<open>With at least one row, even the default data of a missing id holds a valid row.\<close>

lemma rows_valid_lookup:
  "rows_valid n a \<Longrightarrow> 0 < n \<Longrightarrow>
   att_row (lookup_or_default k a) = -1 \<or> (0 \<le> att_row (lookup_or_default k a) \<and> att_row (lookup_or_default k a) < n)"
  by (auto simp: lookup_or_default_def attached_default_def dest: rows_valid_map_of split: option.split)

lemma rows_valid_deref:
  assumes "rows_valid n a" "0 < n"
  shows "rows_valid n (snd (deref k a))"
    and "att_row (fst (deref k a)) = -1 \<or> (0 \<le> att_row (fst (deref k a)) \<and> att_row (fst (deref k a)) < n)"
  using assms rows_valid_lookup[OF assms, of k]
  by (auto simp: deref_def Let_def rows_valid_delete rows_valid_update)

lemma in_set_update: "(k, d) \<in> set (AList.update k d a)"
  by (induction a) auto

lemma contains_row_ref_id [simp]: "contains_row row (snd (ref_id k row a))"
proof -
  let ?d = "(lookup_or_default k a)\<lparr>att_ref := att_ref (lookup_or_default k a) + 1, att_row := row\<rparr>"
  have "(k, ?d) \<in> set (AList.update k ?d a)" by (rule in_set_update)
  then show ?thesis
    unfolding ref_id_def Let_def contains_row_def list_ex_iff by force
qed

lemma rows_ref_row:
  "ref_row row a = Some (d, a') \<Longrightarrow> map (\<lambda>e. att_row (snd e)) a' = map (\<lambda>e. att_row (snd e)) a"
  by (induction a arbitrary: a' rule: ref_row.induct) (auto simp: Let_def split: if_splits)

lemma rows_valid_rows:
  "rows_valid n a \<longleftrightarrow> list_all (\<lambda>r. r = -1 \<or> (0 \<le> r \<and> r < n)) (map (\<lambda>e. att_row (snd e)) a)"
  by (simp add: rows_valid_def list_all_iff)

lemma rows_valid_ref_row:
  "ref_row row a = Some (d, a') \<Longrightarrow> rows_valid n a \<Longrightarrow> rows_valid n a'"
  by (simp add: rows_valid_rows rows_ref_row)

lemma delete_update_fresh: "map_of a k = None \<Longrightarrow> AList.delete k (AList.update k d a) = a"
  by (induction a) (auto simp: delete_update_same)

lemma update_fresh: "map_of a k = None \<Longrightarrow> AList.update k d a = a @ [(k, d)]"
  by (induction a) auto

lemma delete_fresh: "map_of a k = None \<Longrightarrow> AList.delete k a = a"
  by (simp add: map_of_eq_None_iff)

lemma lookup_or_default_fresh [simp]: "map_of a k = None \<Longrightarrow> lookup_or_default k a = attached_default"
  by (simp add: lookup_or_default_def)

lemma lookup_or_default_snoc:
  "map_of a k = None \<Longrightarrow> lookup_or_default k (a @ [(k, d)]) = d"
  by (simp add: lookup_or_default_def map_add_def)

lemma delete_snoc_fresh: "map_of a k = None \<Longrightarrow> AList.delete k (a @ [(k, d)]) = a"
  by (induction a) auto

text \<open>\<open>ref(int row)\<close> finds an entry added last when no earlier entry holds its row.\<close>

lemma ref_row_snoc:
  "\<not> contains_row n a \<Longrightarrow> att_row d = n \<Longrightarrow>
   ref_row n (a @ [(k, d)]) = Some (d\<lparr>att_ref := att_ref d + 1\<rparr>, a @ [(k, d\<lparr>att_ref := att_ref d + 1\<rparr>)])"
  by (induction a) (auto simp: contains_row_def Let_def)

subsection \<open>Properties\<close>

text \<open>C10. Reference and release are inverse on a fresh id: \<open>ref(id, row)\<close> on an id
  the container does not hold, followed by \<open>deref(id)\<close>, gives back the container it
  started from, and the released data carries the row with a count of zero.\<close>

theorem deref_ref_fresh:
  assumes "map_of a k = None"
  shows "deref k (snd (ref_id k row a)) = (\<lparr>att_ref = 0, att_row = row, att_create_reply = None\<rparr>, a)"
  using assms
  by (simp add: ref_id_def deref_def Let_def update_fresh attached_default_def
      lookup_or_default_snoc delete_snoc_fresh)

theorem deref_ref_fresh_witness:
  "map_of [(''a'', \<lparr>att_ref = 2, att_row = 0, att_create_reply = None\<rparr>)] ''tmp{1}'' = None
   \<and> deref ''tmp{1}'' (snd (ref_id ''tmp{1}'' 3 [(''a'', \<lparr>att_ref = 2, att_row = 0, att_create_reply = None\<rparr>)]))
     = (\<lparr>att_ref = 0, att_row = 3, att_create_reply = None\<rparr>,
        [(''a'', \<lparr>att_ref = 2, att_row = 0, att_create_reply = None\<rparr>)])"
  using deref_ref_fresh[of "[(''a'', \<lparr>att_ref = 2, att_row = 0, att_create_reply = None\<rparr>)]" "''tmp{1}''" 3]
  by simp

text \<open>C11. \<open>deref\<close> of an id the container does not hold (the assertion on line 139
  is compiled out) decrements the default count 0 of the \<open>uint\<close>: it wraps to
  \<open>0xFFFFFFFF\<close>, which is not zero, so a bogus entry for that id at row 0 is inserted
  and will never be released.\<close>

theorem deref_missing_wraps:
  assumes "map_of a k = None"
  shows "deref k a =
           (\<lparr>att_ref = 0xFFFFFFFF, att_row = 0, att_create_reply = None\<rparr>,
            a @ [(k, \<lparr>att_ref = 0xFFFFFFFF, att_row = 0, att_create_reply = None\<rparr>)])"
  using assms
  by (simp add: deref_def Let_def attached_default_def delete_fresh update_fresh)

theorem deref_missing_wraps_witness:
  "map_of [] ''b'' = (None :: attached_data option)
   \<and> deref ''b'' [] = (\<lparr>att_ref = 0xFFFFFFFF, att_row = 0, att_create_reply = None\<rparr>,
                      [(''b'', \<lparr>att_ref = 0xFFFFFFFF, att_row = 0, att_create_reply = None\<rparr>)])"
  using deref_missing_wraps[of "[]" "''b''"] by simp

end
