(* ===== verification/Model.thy ===== *)
theory Model
  imports Json Attached
begin

text \<open>
  \<open>EnginioModelPrivate\<close> and \<open>EnginioModel\<close> of
  \<open>src/src/enginio_client/enginiomodel.cpp\<close>: a list model caching the objects a backend
  query returned.  Its fields are the record \<open>emodel\<close>; every method is a function from
  the state to the new state and the observable events in order (requests sent through the
  \<open>EnginioClient\<close>, the model's change notifications, warnings).  The client is an
  external collaborator: a request is the event \<open>Request\<close>, and the reply it returns is
  the next number of \<open>m_next_reply\<close>.  A finished reply arrives as a \<open>reply\<close> record.
  A signal the model connects to one of its own slots (\<open>queryChanged\<close>,
  \<open>operationChanged\<close>, \<open>enginioChanged\<close> run \<open>execute()\<close>) is the call of that
  slot.  Methods whose code can reach undefined behaviour (an out-of-range
  \<open>QJsonArray::replace\<close>, a null client) return \<open>model_error + _\<close>.

  This theory holds the state, the roles, \<open>syncRoles\<close>, \<open>setQuery\<close>, \<open>execute\<close>,
  \<open>fetchMore\<close>, \<open>data\<close> and \<open>finishedRequest\<close>; the editing operations are in
  \<open>Model_Edit\<close>.
\<close>

unbundle bit_operations_syntax

subsection \<open>Roles\<close>

text \<open>\<open>Qt::DisplayRole\<close> and the values of \<open>EnginioModel::Roles\<close>
  (\<open>SyncedRole = Qt::UserRole + 1\<close> and the ones after it, \<open>LastRole = Qt::UserRole +
  10\<close>, \<open>InvalidRole = -1\<close>), declared in the public header.\<close>

definition DisplayRole :: int where "DisplayRole = 0"
definition SyncedRole :: int where "SyncedRole = 257"
definition CreatedAtRole :: int where "CreatedAtRole = 258"
definition UpdatedAtRole :: int where "UpdatedAtRole = 259"
definition IdRole :: int where "IdRole = 260"
definition ObjectTypeRole :: int where "ObjectTypeRole = 261"
definition LastRole :: int where "LastRole = 266"
definition InvalidRole :: int where "InvalidRole = -1"

lemmas role_defs = DisplayRole_def SyncedRole_def CreatedAtRole_def UpdatedAtRole_def IdRole_def
  ObjectTypeRole_def LastRole_def InvalidRole_def

subsection \<open>State, events and errors\<close>

record client =
  cl_id :: nat
  cl_backend_id :: string
  cl_backend_secret :: string

datatype request_kind = QueryRequest | CreateRequest | RemoveRequest | UpdateRequest

datatype model_warning =
    BackendMessage string
  | LimitIgnored
  | OffsetIgnored
  | SyncedPropertyOverridden
  | ClientNotSet string

text \<open>The operations still waiting for a create request, the functors
  \<open>SwapNetworkReplyForRemove\<close> and \<open>SwapNetworkReplyForSetData\<close>: the reply handed
  to the caller, the row's object and its temporary id (and the value and role).\<close>

datatype pending_op =
    PendingRemove nat jobject string
  | PendingSetData nat jobject string json int

datatype mevent =
    Request request_kind jobject int nat
  | FakeErrorReply nat string
  | DummyReply nat nat
  | ModelReset
  | RowsInserted int int
  | RowsRemoved int int
  | DataChanged int "int list"
  | MWarning model_warning
  | QueryChanged jobject
  | OperationChanged int
  | EnginioChanged
  | MarkedAsError nat string
  | ReplySwapped nat nat

datatype model_error = IndexOutOfRange | RowNotAttached | NullClient | NullCreateReply

record reply =
  rp_id :: nat
  rp_data :: jobject
  rp_backend_status :: int
  rp_network_error :: bool

definition FullModelReset :: int where "FullModelReset = -1"
definition IncrementalModelUpdate :: int where "IncrementalModelUpdate = -2"

record emodel =
  m_query :: jobject
  m_enginio :: "client option"
  m_operation :: int
  m_data_changed :: "(nat \<times> int \<times> jobject) list"
  m_attached :: attached_container
  m_latest_requested_offset :: int
  m_can_fetch_more :: bool
  m_roles_counter :: int
  m_roles :: "(int \<times> string) list"
  m_data :: "json list"
  m_next_reply :: nat
  m_pending :: "(nat \<times> pending_op) list"

text \<open>The constructor \<open>EnginioModelPrivate(EnginioModel *)\<close>.\<close>

definition init_model :: emodel where
  "init_model =
     \<lparr>m_query = [], m_enginio = None, m_operation = 0, m_data_changed = [], m_attached = [],
      m_latest_requested_offset = 0, m_can_fetch_more = False, m_roles_counter = SyncedRole,
      m_roles = [], m_data = [], m_next_reply = 0, m_pending = []\<rparr>"

subsection \<open>Roles of the first object\<close>

definition predefined_roles :: "(int \<times> string) list" where
  "predefined_roles =
     [(SyncedRole, ''_synced''), (CreatedAtRole, ''createdAt''), (UpdatedAtRole, ''updatedAt''),
      (IdRole, ''id''), (ObjectTypeRole, ''objectType'')]"

text \<open>One turn of the loop over the keys of the first object; \<open>defined\<close> is the set
  of role names taken before the loop.\<close>

definition sync_role_key ::
  "string list \<Rightarrow> string \<Rightarrow> emodel \<times> mevent list \<Rightarrow> emodel \<times> mevent list" where
  "sync_role_key defined key st =
     (case st of (m, evs) \<Rightarrow>
       if key \<in> set defined then
         (m, if key = ''_synced'' then evs @ [MWarning SyncedPropertyOverridden] else evs)
       else (m\<lparr>m_roles := AList.update (m_roles_counter m) key (m_roles m),
               m_roles_counter := m_roles_counter m + 1\<rparr>, evs))"

definition sync_roles :: "emodel \<Rightarrow> emodel \<times> mevent list" where
  "sync_roles m =
     (let firstObject = to_object (json_at 0 (m_data m));
          m = (if m_roles m = [] then m\<lparr>m_roles := predefined_roles, m_roles_counter := LastRole\<rparr> else m);
          definedRoles = map snd (m_roles m)
      in fold (sync_role_key definedRoles) (map fst firstObject) (m, []))"

definition role_names :: "emodel \<Rightarrow> (int \<times> byte list) list" where
  "role_names m = map (\<lambda>(k, v). (k, to_bytes v)) (m_roles m)"

text \<open>\<open>QHash::value(key)\<close> and \<open>QHash::key(value, default)\<close> on the roles.\<close>

definition role_name :: "int \<Rightarrow> emodel \<Rightarrow> string" where
  "role_name role m = (case map_of (m_roles m) role of Some n \<Rightarrow> n | None \<Rightarrow> [])"

definition role_key :: "string \<Rightarrow> emodel \<Rightarrow> int" where
  "role_key name m = (case find (\<lambda>(_, v). v = name) (m_roles m) of Some (k, _) \<Rightarrow> k | None \<Rightarrow> InvalidRole)"

subsection \<open>Query, operation, client\<close>

text \<open>A request through the client: the event and the reply it hands back.\<close>

definition send_request :: "request_kind \<Rightarrow> jobject \<Rightarrow> emodel \<Rightarrow> nat \<times> emodel \<times> mevent" where
  "send_request k ob m =
     (m_next_reply m, m\<lparr>m_next_reply := Suc (m_next_reply m)\<rparr>,
      Request k ob (m_operation m) (m_next_reply m))"

definition execute :: "emodel \<Rightarrow> emodel \<times> mevent list" where
  "execute m =
     (case m_enginio m of
        None \<Rightarrow> (m, [])
      | Some cl \<Rightarrow>
          if cl_backend_id cl = [] \<or> cl_backend_secret cl = [] then (m, [])
          else if m_query m = [] then (m, [])
          else
            let (r, m, ev) = send_request QueryRequest (m_query m) m;
                m = (if m_can_fetch_more m then
                       (case obj_index ''limit'' (m_query m) of (lim, q) \<Rightarrow>
                          m\<lparr>m_latest_requested_offset := to_double lim, m_query := q\<rparr>)
                     else m)
            in (m\<lparr>m_data_changed := AList.update r (FullModelReset, []) (m_data_changed m)\<rparr>, [ev]))"

text \<open>\<open>EnginioModelPrivate::setQuery\<close>; the \<open>limit\<close> and \<open>offset\<close> reads go through
  the non-const \<open>operator[]\<close>.\<close>

definition set_query_private :: "jobject \<Rightarrow> emodel \<Rightarrow> emodel \<times> mevent list" where
  "set_query_private query m =
     (if obj_contains ''pageSize'' query then
        let pageSize = to_double (obj_value ''pageSize'' query);
            (lim, q) = obj_index ''limit'' query;
            (off, q) = obj_index ''offset'' q;
            w1 = (if to_double lim \<noteq> 0 then [MWarning LimitIgnored] else []);
            w2 = (if to_double off \<noteq> 0 then [MWarning OffsetIgnored] else []);
            q = (if to_double off \<noteq> 0 then obj_remove ''offset'' q else q);
            q = obj_insert ''limit'' (JNum pageSize) q
        in (m\<lparr>m_query := q, m_can_fetch_more := True\<rparr>, w1 @ w2 @ [QueryChanged query])
      else (m\<lparr>m_query := query, m_can_fetch_more := False\<rparr>, [QueryChanged query]))"

text \<open>\<open>EnginioModel::setQuery\<close>: nothing when the query is the current one; otherwise
  \<open>queryChanged\<close> runs \<open>execute()\<close>.\<close>

definition set_query :: "jobject \<Rightarrow> emodel \<Rightarrow> emodel \<times> mevent list" where
  "set_query query m =
     (if m_query m = query then (m, [])
      else case set_query_private query m of (m, evs) \<Rightarrow>
             (case execute m of (m, evs') \<Rightarrow> (m, evs @ evs')))"

text \<open>\<open>EnginioModelPrivate::setOperation\<close>: store, then \<open>operationChanged\<close>, whose first
  slot (\<open>QueryChanged\<close>) runs \<open>execute()\<close>.  The \<open>Q_ASSERT_X\<close> on the value is a
  debug-build check only.\<close>

definition set_operation_private :: "int \<Rightarrow> emodel \<Rightarrow> emodel \<times> mevent list" where
  "set_operation_private operation m =
     (case execute (m\<lparr>m_operation := operation\<rparr>) of (m, evs) \<Rightarrow> (m, OperationChanged operation # evs))"

text \<open>\<open>EnginioModel::setOperation\<close>: nothing when the operation is unchanged.\<close>

definition set_operation :: "int \<Rightarrow> emodel \<Rightarrow> emodel \<times> mevent list" where
  "set_operation operation m =
     (if m_operation m = operation then (m, []) else set_operation_private operation m)"

text \<open>\<open>EnginioModelPrivate::setEnginio\<close>: the connections to the old client are dropped
  and made to the new one (they are what lets its signals reach the model, see
  \<open>model_step\<close>), then \<open>enginioChanged\<close> runs \<open>execute()\<close>.\<close>

definition set_enginio_private :: "client option \<Rightarrow> emodel \<Rightarrow> emodel \<times> mevent list" where
  "set_enginio_private enginio m =
     (case execute (m\<lparr>m_enginio := enginio\<rparr>) of (m, evs) \<Rightarrow> (m, EnginioChanged # evs))"

text \<open>\<open>EnginioModel::setEnginio\<close>: nothing when the client is unchanged.\<close>

definition set_enginio :: "client option \<Rightarrow> emodel \<Rightarrow> emodel \<times> mevent list" where
  "set_enginio enginio m =
     (if m_enginio m = enginio then (m, []) else set_enginio_private enginio m)"

subsection \<open>Reading the cache\<close>

text \<open>\<open>EnginioModelPrivate::data\<close>; \<open>None\<close> is the invalid \<open>QVariant()\<close>.\<close>

definition data_private :: "int \<Rightarrow> int \<Rightarrow> emodel \<Rightarrow> json option" where
  "data_private row role m =
     (if role = SyncedRole then Some (JBool (\<not> contains_row row (m_attached m)))
      else if role = DisplayRole then Some (json_at row (m_data m))
      else
        let object = to_object (json_at row (m_data m))
        in if object \<noteq> [] \<and> role_name role m \<noteq> [] then Some (obj_value (role_name role m) object)
           else None)"

text \<open>\<open>EnginioModel::data\<close>: the index must be a row of the model.\<close>

definition data :: "bool \<Rightarrow> int \<Rightarrow> int \<Rightarrow> emodel \<Rightarrow> json option" where
  "data valid row role m =
     (if \<not> valid \<or> row < 0 \<or> int (length (m_data m)) \<le> row then None else data_private row role m)"

definition row_count :: "emodel \<Rightarrow> int" where
  "row_count m = int (length (m_data m))"

subsection \<open>Paging\<close>

definition fetch_more :: "int \<Rightarrow> emodel \<Rightarrow> model_error + emodel \<times> mevent list" where
  "fetch_more row m =
     (let currentOffset = int (length (m_data m)) in
      if \<not> m_can_fetch_more m \<or> currentOffset < m_latest_requested_offset m then Inr (m, [])
      else
        let (lim, query) = obj_index ''limit'' (m_query m);
            limit = max (row - currentOffset) (to_double lim);
            query = obj_insert ''offset'' (JNum currentOffset) query;
            query = obj_insert ''limit'' (JNum limit) query;
            m = m\<lparr>m_latest_requested_offset := m_latest_requested_offset m + limit\<rparr>
        in if m_enginio m = None then Inl NullClient
           else case send_request QueryRequest query m of (r, m, ev) \<Rightarrow>
             Inr (m\<lparr>m_data_changed := AList.update r (IncrementalModelUpdate, query) (m_data_changed m)\<rparr>, [ev]))"

subsection \<open>\<open>finishedRequest\<close>\<close>

text \<open>The three kinds of request: a full reset (lines 440--446), a page (447--463), an
  operation on one object (464--519).  \<open>date_less a b\<close> is
  \<open>QDateTime::fromString(a, Qt::ISODate) < QDateTime::fromString(b, Qt::ISODate)\<close>.\<close>

definition finished_reset :: "reply \<Rightarrow> emodel \<Rightarrow> emodel \<times> mevent list" where
  "finished_reset response m =
     (let m = m\<lparr>m_attached := [], m_data := to_array (obj_value ''results'' (rp_data response))\<rparr>;
          (m, evs) = sync_roles m;
          m = (if m_can_fetch_more m \<and> m_data m \<noteq> [] then
                 (case obj_index ''limit'' (m_query m) of (lim, q) \<Rightarrow>
                    m\<lparr>m_query := q, m_can_fetch_more := (to_double lim \<le> int (length (m_data m)))\<rparr>)
               else m\<lparr>m_can_fetch_more := False\<rparr>)
      in (m, evs @ [ModelReset]))"

definition finished_page :: "reply \<Rightarrow> jobject \<Rightarrow> emodel \<Rightarrow> emodel \<times> mevent list" where
  "finished_page response query m =
     (let data = to_array (obj_value ''results'' (rp_data response));
          offset = to_double (fst (obj_index ''offset'' query));
          limit = to_double (fst (obj_index ''limit'' query));
          dataCount = int (length data);
          startingOffset = max offset (int (length (m_data m)))
      in (m\<lparr>m_data := m_data m @ data, m_can_fetch_more := (limit \<le> dataCount)\<rparr>,
          [RowsInserted startingOffset (startingOffset + dataCount - 1)]))"

definition finished_object ::
  "(string \<Rightarrow> string \<Rightarrow> bool) \<Rightarrow> reply \<Rightarrow> jobject \<Rightarrow> emodel \<Rightarrow> model_error + emodel \<times> mevent list" where
  "finished_object date_less response oldValue m =
     (let newValue = rp_data response;
          (oldIdValue, oldValue) = obj_index ''id'' oldValue;
          (attachedData, att) = deref (to_string oldIdValue) (m_attached m);
          m = m\<lparr>m_attached := att\<rparr>;
          removeOperation = (newValue = []);
          row = att_row attachedData;
          notFound = (row = -1 \<or> rp_backend_status response = 404)
      in if notFound \<and> (removeOperation \<or> row = -1) then Inr (m, [])
         else
           let removeOperation = (removeOperation \<or> notFound) in
           if rp_network_error response \<and> rp_backend_status response \<noteq> 404 then
             (case json_replace row (JObj oldValue) (m_data m) of
                None \<Rightarrow> Inl IndexOutOfRange
              | Some d \<Rightarrow> Inr (m\<lparr>m_data := d\<rparr>, [DataChanged row []]))
           else if removeOperation then
             Inr (m\<lparr>m_data := json_remove_at row (m_data m),
                    m_attached := update_all_data_after_row row (m_attached m)\<rparr>,
                  [RowsRemoved row row])
           else if \<not> (0 \<le> row \<and> row < int (length (m_data m))) then Inl IndexOutOfRange
           else
             let current = to_object (m_data m ! nat row);
                 currentUpdateAt = to_string (fst (obj_index ''updatedAt'' current));
                 (newUpdated, newValue) = obj_index ''updatedAt'' newValue
             in if date_less (to_string newUpdated) currentUpdateAt then Inr (m, [])
                else if length (m_data m) = 1 then
                  (let m = m\<lparr>m_data := (m_data m)[nat row := JObj newValue]\<rparr>;
                       (m, evs) = sync_roles m
                   in Inr (m, evs @ [ModelReset]))
                else Inr (m\<lparr>m_data := (m_data m)[nat row := JObj newValue]\<rparr>, [DataChanged row []]))"

text \<open>\<open>finishedRequest\<close>.  \<open>response->data()\<close> returns a \<open>QJsonObject\<close> by value, so
  \<open>data()[message]\<close> calls the non-const \<open>operator[]\<close> on that temporary: a missing
  key reads as \<open>null\<close> (\<open>obj_index\<close>), and \<open>isNull()\<close> then holds.\<close>

definition finished_request ::
  "(string \<Rightarrow> string \<Rightarrow> bool) \<Rightarrow> reply \<Rightarrow> emodel \<Rightarrow> model_error + emodel \<times> mevent list" where
  "finished_request date_less response m =
     (case map_of (m_data_changed m) (rp_id response) of
        None \<Rightarrow> Inr (m, [])
      | Some (row, second) \<Rightarrow>
          let message = fst (obj_index ''message'' (rp_data response));
              warn = (if \<not> is_null message then [MWarning (BackendMessage (to_string message))] else []);
              m = m\<lparr>m_data_changed := AList.delete (rp_id response) (m_data_changed m)\<rparr>
          in if row = FullModelReset then
               (case finished_reset response m of (m, evs) \<Rightarrow> Inr (m, warn @ evs))
             else if row = IncrementalModelUpdate then
               (case finished_page response second m of (m, evs) \<Rightarrow> Inr (m, warn @ evs))
             else
               (case finished_object date_less response second m of
                  Inl e \<Rightarrow> Inl e
                | Inr (m, evs) \<Rightarrow> Inr (m, warn @ evs)))"

end
