(* ===== verification/Model_Edit.thy ===== *)
theory Model_Edit
  imports Model
begin

text \<open>
  The editing operations of \<open>EnginioModelPrivate\<close> (\<open>append\<close>, \<open>remove\<close>,
  \<open>setData\<close>, their delayed forms for rows whose create request has not finished, and
  the functors that complete them) and the public \<open>EnginioModel\<close> methods that guard
  them.  An operation on a row without an id waits for the row's create request: it
  hands the caller a dummy reply at once and registers a \<open>pending_op\<close> on the create
  reply, which \<open>create_reply_finished\<close> runs when that reply finishes, in the order the
  functors were connected.
\<close>

subsection \<open>Helpers\<close>

text \<open>A reply made by the model itself: \<open>new EnginioReply(client, new
  EnginioFakeReply(client, constructErrorMessage(msg)))\<close>.\<close>

definition fake_error_reply :: "string \<Rightarrow> emodel \<Rightarrow> nat \<times> emodel \<times> mevent" where
  "fake_error_reply msg m =
     (m_next_reply m, m\<lparr>m_next_reply := Suc (m_next_reply m)\<rparr>, FakeErrorReply (m_next_reply m) msg)"

text \<open>\<open>_data.at(row).toObject()\<close> followed by the non-const read of its \<open>id\<close>.\<close>

definition row_object_id :: "int \<Rightarrow> emodel \<Rightarrow> string \<times> jobject" where
  "row_object_id row m =
     (case obj_index ''id'' (to_object (json_at row (m_data m))) of (idv, ob) \<Rightarrow> (to_string idv, ob))"

subsection \<open>\<open>append\<close>\<close>

definition append_private :: "string \<Rightarrow> jobject \<Rightarrow> emodel \<Rightarrow> model_error + nat \<times> emodel \<times> mevent list" where
  "append_private uuid value m =
     (case obj_index ''objectType'' (m_query m) of (ot, q) \<Rightarrow>
      let m = m\<lparr>m_query := q\<rparr>;
          object = obj_insert ''objectType'' ot value
      in if m_enginio m = None then Inl NullClient
         else case send_request CreateRequest object m of (r, m, ev) \<Rightarrow>
           let temporaryId = ''tmp'' @ uuid;
               object = obj_insert ''id'' (JStr temporaryId) object;
               row = int (length (m_data m));
               d = \<lparr>att_ref = 1, att_row = row, att_create_reply = Some r\<rparr>;
               m = m\<lparr>m_attached := AList.update temporaryId d (m_attached m), m_data := m_data m @ [JObj value]\<rparr>
           in if row = 0 then
                (case sync_roles m of (m, evs) \<Rightarrow>
                   Inr (r, m\<lparr>m_data_changed := AList.update r (row, object) (m_data_changed m)\<rparr>,
                        ev # evs @ [ModelReset]))
              else Inr (r, m\<lparr>m_data_changed := AList.update r (row, object) (m_data_changed m)\<rparr>,
                        [ev, RowsInserted row row]))"

subsection \<open>\<open>remove\<close>\<close>

definition remove_now ::
  "int \<Rightarrow> jobject \<Rightarrow> string \<Rightarrow> emodel \<Rightarrow> model_error + nat \<times> emodel \<times> mevent list" where
  "remove_now row oldObject k m =
     (let m = m\<lparr>m_attached := snd (ref_id k row (m_attached m))\<rparr> in
      if m_enginio m = None then Inl NullClient
      else case send_request RemoveRequest oldObject m of (r, m, ev) \<Rightarrow>
        Inr (r, m\<lparr>m_data_changed := AList.update r (row, oldObject) (m_data_changed m)\<rparr>,
             [ev, DataChanged row [0, SyncedRole]]))"

text \<open>\<open>delayedOperation\<close>: the new (dummy) reply, the temporary id and the create
  reply.\<close>

definition delayed_operation ::
  "int \<Rightarrow> emodel \<Rightarrow> model_error + nat \<times> string \<times> nat \<times> emodel \<times> mevent list" where
  "delayed_operation row m =
     (case ref_row row (m_attached m) of
        None \<Rightarrow> Inl RowNotAttached
      | Some (d, att) \<Rightarrow>
          (case att_create_reply d of
             None \<Rightarrow> Inl NullCreateReply
           | Some cr \<Rightarrow>
               let tmpId = to_string (obj_value ''id''
                             (case map_of (m_data_changed m) cr of Some (_, ob) \<Rightarrow> ob | None \<Rightarrow> []));
                   r = m_next_reply m
               in Inr (r, tmpId, cr, m\<lparr>m_attached := att, m_next_reply := Suc r\<rparr>, [DummyReply r cr])))"

definition remove_delayed :: "int \<Rightarrow> jobject \<Rightarrow> emodel \<Rightarrow> model_error + nat \<times> emodel \<times> mevent list" where
  "remove_delayed row oldObject m =
     (case delayed_operation row m of
        Inl e \<Rightarrow> Inl e
      | Inr (r, tmpId, cr, m, evs) \<Rightarrow>
          Inr (r, m\<lparr>m_pending := m_pending m @ [(cr, PendingRemove r oldObject tmpId)]\<rparr>, evs))"

definition remove_private :: "int \<Rightarrow> emodel \<Rightarrow> model_error + nat \<times> emodel \<times> mevent list" where
  "remove_private row m =
     (case row_object_id row m of (k, oldObject) \<Rightarrow>
        if k = [] then remove_delayed row oldObject m else remove_now row oldObject k m)"

subsection \<open>\<open>setData\<close>\<close>

definition set_data_now ::
  "int \<Rightarrow> json \<Rightarrow> int \<Rightarrow> jobject \<Rightarrow> string \<Rightarrow> emodel \<Rightarrow> model_error + nat \<times> emodel \<times> mevent list" where
  "set_data_now row value role oldObject k m =
     (let roleName = role_name role m;
          newObject = obj_insert roleName value oldObject;
          deltaObject = obj_insert ''id'' (JStr k) (obj_insert roleName value [])
      in case obj_index ''objectType'' newObject of (ot, newObject) \<Rightarrow>
         let deltaObject = obj_insert ''objectType'' ot deltaObject in
         if m_enginio m = None then Inl NullClient
         else case send_request UpdateRequest deltaObject m of (r, m, ev) \<Rightarrow>
           let m = m\<lparr>m_data_changed := AList.update r (row, oldObject) (m_data_changed m),
                     m_attached := snd (ref_id k row (m_attached m))\<rparr>
           in case json_replace row (JObj newObject) (m_data m) of
                None \<Rightarrow> Inl IndexOutOfRange
              | Some d \<Rightarrow> Inr (r, m\<lparr>m_data := d\<rparr>, [ev, DataChanged row []]))"

definition set_data_delayed ::
  "int \<Rightarrow> json \<Rightarrow> int \<Rightarrow> jobject \<Rightarrow> emodel \<Rightarrow> model_error + nat \<times> emodel \<times> mevent list" where
  "set_data_delayed row value role oldObject m =
     (case delayed_operation row m of
        Inl e \<Rightarrow> Inl e
      | Inr (r, tmpId, cr, m, evs) \<Rightarrow>
          Inr (r, m\<lparr>m_pending := m_pending m @ [(cr, PendingSetData r oldObject tmpId value role)]\<rparr>, evs))"

definition set_data_private ::
  "int \<Rightarrow> json \<Rightarrow> int \<Rightarrow> emodel \<Rightarrow> model_error + nat \<times> emodel \<times> mevent list" where
  "set_data_private row value role m =
     (if SyncedRole < role then
        (case row_object_id row m of (k, oldObject) \<Rightarrow>
           if k = [] then set_data_delayed row value role oldObject m
           else set_data_now row value role oldObject k m)
      else case fake_error_reply ''EnginioModel: Trying to update an object with unknown role'' m of
             (r, m, ev) \<Rightarrow> Inr (r, m, [ev]))"

definition set_value ::
  "int \<Rightarrow> string \<Rightarrow> json \<Rightarrow> emodel \<Rightarrow> model_error + nat \<times> emodel \<times> mevent list" where
  "set_value row role value m = set_data_private row value (role_key role m) m"

subsection \<open>Completing a delayed operation\<close>

text \<open>\<open>SwapNetworkReplyBase::swapNetworkReply\<close>: the bookkeeping of the real request
  moves to the reply the caller holds (\<open>QMap::take\<close> gives \<open>(0, {})\<close> for a
  missing key).\<close>

definition swap_network_reply :: "nat \<Rightarrow> nat \<Rightarrow> emodel \<Rightarrow> emodel \<times> mevent list" where
  "swap_network_reply reply ereply m =
     (let d = (case map_of (m_data_changed m) ereply of Some p \<Rightarrow> p | None \<Rightarrow> (0, []));
          dc = AList.delete ereply (m_data_changed m)
      in (m\<lparr>m_data_changed := AList.update reply d dc\<rparr>, [ReplySwapped reply ereply]))"

text \<open>The functors' \<open>operator()\<close>: \<open>getCurrentRow\<close> drops the temporary id's
  reference, \<open>getAndSetCurrentId\<close> takes the id the backend gave the object.
  \<open>EnginioReply::isError\<close> is the reply's network error.\<close>

definition swap_for_remove ::
  "nat \<Rightarrow> jobject \<Rightarrow> string \<Rightarrow> reply \<Rightarrow> emodel \<Rightarrow> model_error + emodel \<times> mevent list" where
  "swap_for_remove reply object tmpId fin m =
     (if rp_network_error fin then
        Inr (m, [MarkedAsError reply ''Dependent create query failed, so object coudl not be removed''])
      else case deref tmpId (m_attached m) of (d, att) \<Rightarrow>
        (let k = to_string (obj_value ''id'' (rp_data fin));
             object = obj_insert ''id'' (JStr k) object
         in case remove_now (att_row d) object k (m\<lparr>m_attached := att\<rparr>) of
              Inl e \<Rightarrow> Inl e
            | Inr (ereply, m, evs) \<Rightarrow>
                (case swap_network_reply reply ereply m of (m, evs') \<Rightarrow> Inr (m, evs @ evs'))))"

definition swap_for_set_data ::
  "nat \<Rightarrow> jobject \<Rightarrow> string \<Rightarrow> json \<Rightarrow> int \<Rightarrow> reply \<Rightarrow> emodel \<Rightarrow> model_error + emodel \<times> mevent list" where
  "swap_for_set_data reply object tmpId value role fin m =
     (if rp_network_error fin then
        Inr (m, [MarkedAsError reply ''Dependent create query failed, so object coudl not be updated''])
      else case deref tmpId (m_attached m) of (d, att) \<Rightarrow>
        (let k = to_string (obj_value ''id'' (rp_data fin));
             object = obj_insert ''id'' (JStr k) object
         in case set_data_now (att_row d) value role object k (m\<lparr>m_attached := att\<rparr>) of
              Inl e \<Rightarrow> Inl e
            | Inr (ereply, m, evs) \<Rightarrow>
                (case swap_network_reply reply ereply m of (m, evs') \<Rightarrow> Inr (m, evs @ evs'))))"

text \<open>A pending operation is one of the two functors.\<close>

fun run_pending :: "pending_op \<Rightarrow> reply \<Rightarrow> emodel \<Rightarrow> model_error + emodel \<times> mevent list" where
  "run_pending (PendingRemove reply object tmpId) fin m = swap_for_remove reply object tmpId fin m"
| "run_pending (PendingSetData reply object tmpId value role) fin m =
     swap_for_set_data reply object tmpId value role fin m"

fun run_pendings :: "pending_op list \<Rightarrow> reply \<Rightarrow> emodel \<Rightarrow> model_error + emodel \<times> mevent list" where
  "run_pendings [] fin m = Inr (m, [])"
| "run_pendings (p # ps) fin m =
     (case run_pending p fin m of
        Inl e \<Rightarrow> Inl e
      | Inr (m, evs) \<Rightarrow>
          (case run_pendings ps fin m of Inl e \<Rightarrow> Inl e | Inr (m, evs') \<Rightarrow> Inr (m, evs @ evs')))"

text \<open>The create reply \<open>fin\<close> emits \<open>finished\<close>: every functor connected to it
  runs, in connection order.\<close>

definition create_reply_finished :: "reply \<Rightarrow> emodel \<Rightarrow> model_error + emodel \<times> mevent list" where
  "create_reply_finished fin m =
     run_pendings (map snd (filter (\<lambda>p. fst p = rp_id fin) (m_pending m))) fin
       (m\<lparr>m_pending := filter (\<lambda>p. fst p \<noteq> rp_id fin) (m_pending m)\<rparr>)"

subsection \<open>The public methods\<close>

text \<open>\<open>unsigned(row) >= unsigned(rowCount())\<close> holds exactly when \<open>row\<close> is negative or
  not below the row count (the count is never negative).  A method's reply is \<open>None\<close>
  for the null pointer it returns without a client.\<close>

definition model_append ::
  "string \<Rightarrow> jobject \<Rightarrow> emodel \<Rightarrow> model_error + nat option \<times> emodel \<times> mevent list" where
  "model_append uuid value m =
     (if m_enginio m = None then Inr (None, m, [MWarning (ClientNotSet ''append'')])
      else case append_private uuid value m of
             Inl e \<Rightarrow> Inl e
           | Inr (r, m, evs) \<Rightarrow> Inr (Some r, m, evs))"

definition model_remove :: "int \<Rightarrow> emodel \<Rightarrow> model_error + nat option \<times> emodel \<times> mevent list" where
  "model_remove row m =
     (if m_enginio m = None then Inr (None, m, [MWarning (ClientNotSet ''remove'')])
      else if row < 0 \<or> row_count m \<le> row then
        (case fake_error_reply ''EnginioModel::remove: row is out of range'' m of
           (r, m, ev) \<Rightarrow> Inr (Some r, m, [ev]))
      else case remove_private row m of
             Inl e \<Rightarrow> Inl e
           | Inr (r, m, evs) \<Rightarrow> Inr (Some r, m, evs))"

definition model_set_property ::
  "int \<Rightarrow> string \<Rightarrow> json \<Rightarrow> emodel \<Rightarrow> model_error + nat option \<times> emodel \<times> mevent list" where
  "model_set_property row role value m =
     (if m_enginio m = None then Inr (None, m, [MWarning (ClientNotSet ''setProperty'')])
      else if row < 0 \<or> row_count m \<le> row then
        (case fake_error_reply ''EnginioModel::setProperty: row is out of range'' m of
           (r, m, ev) \<Rightarrow> Inr (Some r, m, [ev]))
      else case set_value row role value m of
             Inl e \<Rightarrow> Inl e
           | Inr (r, m, evs) \<Rightarrow> Inr (Some r, m, evs))"

text \<open>\<open>EnginioModel::setData\<close> checks the row only from above, and answers whether
  the reply pointer is non-null, which it always is.\<close>

definition model_set_data ::
  "int \<Rightarrow> json \<Rightarrow> int \<Rightarrow> emodel \<Rightarrow> model_error + bool \<times> emodel \<times> mevent list" where
  "model_set_data row value role m =
     (if row_count m \<le> row then Inr (False, m, [])
      else case set_data_private row value role m of
             Inl e \<Rightarrow> Inl e
           | Inr (r, m, evs) \<Rightarrow> Inr (True, m, evs))"

end
