(* ===== verification/Model_Props.thy ===== *)
theory Model_Props
  imports Model_Edit
begin

text \<open>
  Properties of the model cache: what a reply to an object request does when its
  bookkeeping was dropped by a reset, what \<open>remove\<close> does to the cache, the guards of
  the public methods, paging, the roles, and the well-formedness of the bookkeeping
  under every operation.  \<open>model_op\<close> lists what can happen to a model: a call of one
  of its public methods, or a reply of the client finishing (\<open>EnginioClient::finished\<close>
  runs \<open>finishedRequest\<close>, the reply's own \<open>finished\<close> runs the functors connected
  to it); \<open>model_step\<close> runs it.
\<close>

datatype model_op =
    OpSetEnginio "client option"
  | OpSetQuery jobject
  | OpSetOperation int
  | OpExecute
  | OpFetchMore int
  | OpAppend string jobject
  | OpRemove int
  | OpSetProperty int string json
  | OpSetData int json int
  | OpFinished reply
  | OpCreateFinished reply
  | OpClientDestroyed
  | OpBackendChanged string string

fun model_step :: "(string \<Rightarrow> string \<Rightarrow> bool) \<Rightarrow> model_op \<Rightarrow> emodel \<Rightarrow> model_error + emodel \<times> mevent list" where
  "model_step dl (OpSetEnginio c) m = Inr (set_enginio c m)"
| "model_step dl (OpSetQuery q) m = Inr (set_query q m)"
| "model_step dl (OpSetOperation op) m = Inr (set_operation op m)"
| "model_step dl OpExecute m = Inr (execute m)"
| "model_step dl (OpFetchMore row) m = fetch_more row m"
| "model_step dl (OpAppend uuid v) m =
     (case model_append uuid v m of Inl e \<Rightarrow> Inl e | Inr (_, m', evs) \<Rightarrow> Inr (m', evs))"
| "model_step dl (OpRemove row) m =
     (case model_remove row m of Inl e \<Rightarrow> Inl e | Inr (_, m', evs) \<Rightarrow> Inr (m', evs))"
| "model_step dl (OpSetProperty row role v) m =
     (case model_set_property row role v m of Inl e \<Rightarrow> Inl e | Inr (_, m', evs) \<Rightarrow> Inr (m', evs))"
| "model_step dl (OpSetData row v role) m =
     (case model_set_data row v role m of Inl e \<Rightarrow> Inl e | Inr (_, m', evs) \<Rightarrow> Inr (m', evs))"
| "model_step dl (OpFinished r) m = finished_request dl r m"
| "model_step dl (OpCreateFinished r) m = create_reply_finished r m"
| "model_step dl OpClientDestroyed m =
     Inr (if m_enginio m = None then (m, []) else set_enginio_private None m)"
| "model_step dl (OpBackendChanged backendId backendSecret) m =
     Inr (case m_enginio m of
            None \<Rightarrow> (m, [])
          | Some cl \<Rightarrow> execute (m\<lparr>m_enginio := Some (cl\<lparr>cl_backend_id := backendId, cl_backend_secret := backendSecret\<rparr>)\<rparr>))"

definition reply_op :: "model_op \<Rightarrow> bool" where
  "reply_op op \<longleftrightarrow> (case op of OpFinished _ \<Rightarrow> True | OpCreateFinished _ \<Rightarrow> True | _ \<Rightarrow> False)"

text \<open>The bookkeeping is well formed: ids are keys of a hash, and every attached row is a
  row of the cache or marked removed.\<close>

definition cache_inv :: "emodel \<Rightarrow> bool" where
  "cache_inv m \<longleftrightarrow> rows_valid (row_count m) (m_attached m) \<and> distinct (map fst (m_attached m))"

text \<open>The roles are a hash (no key twice) and the counter is above every key, so
  \<open>_roles[_rolesCounter++]\<close> always adds a role.\<close>

definition roles_wf :: "emodel \<Rightarrow> bool" where
  "roles_wf m \<longleftrightarrow> distinct (map fst (m_roles m)) \<and> list_all (\<lambda>k. k < m_roles_counter m) (map fst (m_roles m))"

subsection \<open>Lemmas\<close>

lemma to_string_obj_index [simp]: "to_string (fst (obj_index k ob)) = to_string (obj_value k ob)"
  by (simp add: obj_index_def obj_value_def to_string_def split: option.split)

lemma obj_index_present: "map_of ob k = Some v \<Longrightarrow> obj_index k ob = (v, ob)"
  by (simp add: obj_index_def)

lemma row_count_nonneg [simp]: "0 \<le> row_count m"
  by (simp add: row_count_def)

text \<open>The roles bookkeeping touches nothing else.\<close>

lemma fold_sync_role_key_frame:
  "m_attached (fst (fold (sync_role_key d) ks (m, evs))) = m_attached m
   \<and> m_data (fst (fold (sync_role_key d) ks (m, evs))) = m_data m
   \<and> m_data_changed (fst (fold (sync_role_key d) ks (m, evs))) = m_data_changed m
   \<and> m_next_reply (fst (fold (sync_role_key d) ks (m, evs))) = m_next_reply m
   \<and> m_query (fst (fold (sync_role_key d) ks (m, evs))) = m_query m
   \<and> m_can_fetch_more (fst (fold (sync_role_key d) ks (m, evs))) = m_can_fetch_more m
   \<and> m_pending (fst (fold (sync_role_key d) ks (m, evs))) = m_pending m
   \<and> m_enginio (fst (fold (sync_role_key d) ks (m, evs))) = m_enginio m
   \<and> m_operation (fst (fold (sync_role_key d) ks (m, evs))) = m_operation m"
  by (induction ks arbitrary: m evs) (auto simp: sync_role_key_def)

lemma sync_roles_frame [simp]:
  "m_attached (fst (sync_roles m)) = m_attached m" "m_data (fst (sync_roles m)) = m_data m"
  "m_data_changed (fst (sync_roles m)) = m_data_changed m" "m_next_reply (fst (sync_roles m)) = m_next_reply m"
  "m_query (fst (sync_roles m)) = m_query m" "m_can_fetch_more (fst (sync_roles m)) = m_can_fetch_more m"
  "m_pending (fst (sync_roles m)) = m_pending m" "m_enginio (fst (sync_roles m)) = m_enginio m"
  "m_operation (fst (sync_roles m)) = m_operation m"
  by (simp_all add: sync_roles_def Let_def fold_sync_role_key_frame)

lemma sync_roles_Pair:
  "sync_roles m = (m', evs) \<Longrightarrow> m_attached m' = m_attached m \<and> m_data m' = m_data m
     \<and> m_data_changed m' = m_data_changed m \<and> m_next_reply m' = m_next_reply m \<and> m_pending m' = m_pending m"
  using sync_roles_frame[of m] by simp

lemma execute_frame [simp]:
  "m_attached (fst (execute m)) = m_attached m" "m_data (fst (execute m)) = m_data m"
  "m_pending (fst (execute m)) = m_pending m"
  by (simp_all add: execute_def send_request_def Let_def split: option.split prod.split)

text \<open>What each operation does to the rows and the bookkeeping.\<close>

lemma set_query_private_frame [simp]:
  "m_attached (fst (set_query_private q m)) = m_attached m" "m_data (fst (set_query_private q m)) = m_data m"
  "m_pending (fst (set_query_private q m)) = m_pending m"
  by (simp_all add: set_query_private_def Let_def split: prod.split)

lemma setter_frame [simp]:
  "m_attached (fst (set_query q m)) = m_attached m" "m_data (fst (set_query q m)) = m_data m"
  "m_attached (fst (set_operation op m)) = m_attached m" "m_data (fst (set_operation op m)) = m_data m"
  "m_attached (fst (set_enginio c m)) = m_attached m" "m_data (fst (set_enginio c m)) = m_data m"
  "m_attached (fst (set_enginio_private c m)) = m_attached m" "m_data (fst (set_enginio_private c m)) = m_data m"
  by (simp_all add: set_query_def set_operation_def set_operation_private_def set_enginio_def
      set_enginio_private_def case_prod_beta)

lemma fetch_more_frame:
  "fetch_more row m = Inr (m', evs) \<Longrightarrow> m_attached m' = m_attached m \<and> m_data m' = m_data m"
  by (auto simp: fetch_more_def send_request_def Let_def split: if_splits prod.splits)

lemma append_private_effect:
  "append_private uuid v m = Inr (r, m', evs) \<Longrightarrow>
   m_data m' = m_data m @ [JObj v]
   \<and> m_attached m' = AList.update (''tmp'' @ uuid)
        \<lparr>att_ref = 1, att_row = int (length (m_data m)), att_create_reply = Some r\<rparr> (m_attached m)"
  by (auto simp: append_private_def send_request_def Let_def dest!: sync_roles_Pair
      split: if_splits prod.splits)

lemma remove_now_effect:
  "remove_now row ob k m = Inr (r, m', evs) \<Longrightarrow>
   m_attached m' = snd (ref_id k row (m_attached m)) \<and> m_data m' = m_data m"
  by (auto simp: remove_now_def send_request_def Let_def split: if_splits prod.splits)

lemma delayed_operation_effect:
  "delayed_operation row m = Inr (r, t, cr, m', evs) \<Longrightarrow>
   (\<exists>d. ref_row row (m_attached m) = Some (d, m_attached m')) \<and> m_data m' = m_data m"
  by (auto simp: delayed_operation_def Let_def split: option.splits prod.splits)

lemma remove_delayed_effect:
  "remove_delayed row ob m = Inr (r, m', evs) \<Longrightarrow>
   (\<exists>d. ref_row row (m_attached m) = Some (d, m_attached m')) \<and> m_data m' = m_data m"
  by (auto simp: remove_delayed_def dest!: delayed_operation_effect split: sum.splits prod.splits)

lemma set_data_delayed_effect:
  "set_data_delayed row v role ob m = Inr (r, m', evs) \<Longrightarrow>
   (\<exists>d. ref_row row (m_attached m) = Some (d, m_attached m')) \<and> m_data m' = m_data m"
  by (auto simp: set_data_delayed_def dest!: delayed_operation_effect split: sum.splits prod.splits)

lemma set_data_now_effect:
  "set_data_now row v role ob k m = Inr (r, m', evs) \<Longrightarrow>
   0 \<le> row \<and> row < int (length (m_data m)) \<and> m_attached m' = snd (ref_id k row (m_attached m))
   \<and> length (m_data m') = length (m_data m)"
  by (auto simp: set_data_now_def send_request_def json_replace_def Let_def split: if_splits prod.splits option.splits)

lemma fake_error_reply_frame [simp]:
  "m_attached (fst (snd (fake_error_reply msg m))) = m_attached m"
  "m_data (fst (snd (fake_error_reply msg m))) = m_data m"
  by (simp_all add: fake_error_reply_def)

lemma json_remove_at_length:
  "0 \<le> i \<Longrightarrow> i < int (length xs) \<Longrightarrow> length (json_remove_at i xs) = length xs - 1"
  by (simp add: json_remove_at_def)

lemma json_replace_length: "json_replace i v xs = Some ys \<Longrightarrow> length ys = length xs"
  by (auto simp: json_replace_def split: if_splits)

lemma swap_network_reply_frame [simp]:
  "m_attached (fst (swap_network_reply r e m)) = m_attached m"
  "m_data (fst (swap_network_reply r e m)) = m_data m"
  by (simp_all add: swap_network_reply_def Let_def)

subsection \<open>The bookkeeping invariant\<close>

lemma cache_inv_frame:
  "cache_inv m \<Longrightarrow> m_attached m' = m_attached m \<Longrightarrow> length (m_data m') = length (m_data m) \<Longrightarrow> cache_inv m'"
  by (simp add: cache_inv_def row_count_def)

lemma cache_inv_ref_id:
  "cache_inv m \<Longrightarrow> row = -1 \<or> (0 \<le> row \<and> row < row_count m) \<Longrightarrow>
   m_attached m' = snd (ref_id k row (m_attached m)) \<Longrightarrow> length (m_data m') = length (m_data m) \<Longrightarrow>
   cache_inv m'"
  by (simp add: cache_inv_def row_count_def rows_valid_ref_id distinct_ref_id)

lemma cache_inv_ref_row:
  "cache_inv m \<Longrightarrow> ref_row row (m_attached m) = Some (d, m_attached m') \<Longrightarrow>
   length (m_data m') = length (m_data m) \<Longrightarrow> cache_inv m'"
  by (simp add: cache_inv_def row_count_def rows_valid_ref_row keys_ref_row)

lemma cache_inv_append:
  assumes "cache_inv m" "model_append uuid v m = Inr (r, m', evs)"
  shows "cache_inv m'"
proof (cases "m_enginio m = None")
  case False
  then obtain r' where "append_private uuid v m = Inr (r', m', evs)"
    using assms(2) by (auto simp: model_append_def split: sum.splits prod.splits)
  then have "m_data m' = m_data m @ [JObj v]"
    and "m_attached m' = AList.update (''tmp'' @ uuid)
           \<lparr>att_ref = 1, att_row = int (length (m_data m)), att_create_reply = Some r'\<rparr> (m_attached m)"
    by (auto dest: append_private_effect)
  with assms(1) show ?thesis
    by (auto simp: cache_inv_def row_count_def distinct_update intro!: rows_valid_update
        elim: rows_valid_mono)
qed (use assms in \<open>simp add: model_append_def\<close>)

lemma cache_inv_remove:
  assumes inv: "cache_inv m" and step: "model_remove row m = Inr (r, m', evs)"
  shows "cache_inv m'"
proof -
  consider "m_enginio m = None" | "m_enginio m \<noteq> None" "row < 0 \<or> row_count m \<le> row"
    | "m_enginio m \<noteq> None" "0 \<le> row" "row < row_count m"
    by linarith
  then show ?thesis
  proof cases
    case 1
    then show ?thesis using inv step by (simp add: model_remove_def)
  next
    case 2
    then show ?thesis using inv step
      by (auto simp: model_remove_def fake_error_reply_def cache_inv_def row_count_def)
  next
    case 3
    then obtain r' where rp: "remove_private row m = Inr (r', m', evs)"
      using step by (auto simp: model_remove_def split: sum.splits prod.splits)
    obtain k ob where ko: "row_object_id row m = (k, ob)" by fastforce
    show ?thesis
    proof (cases "k = []")
      case True
      with rp ko have "remove_delayed row ob m = Inr (r', m', evs)" by (simp add: remove_private_def)
      then obtain d where "ref_row row (m_attached m) = Some (d, m_attached m')" "m_data m' = m_data m"
        by (blast dest: remove_delayed_effect)
      then show ?thesis using inv by (simp add: cache_inv_ref_row)
    next
      case False
      with rp ko have "remove_now row ob k m = Inr (r', m', evs)" by (simp add: remove_private_def)
      then have "m_attached m' = snd (ref_id k row (m_attached m))" "m_data m' = m_data m"
        by (simp_all add: remove_now_effect)
      then show ?thesis using cache_inv_ref_id[OF inv, of row m' k] 3 by simp
    qed
  qed
qed

lemma cache_inv_set_data_private:
  assumes inv: "cache_inv m" and step: "set_data_private row v role m = Inr (r, m', evs)"
  shows "cache_inv m'"
proof (cases "SyncedRole < role")
  case True
  obtain k ob where ko: "row_object_id row m = (k, ob)" by fastforce
  show ?thesis
  proof (cases "k = []")
    case True
    with step ko \<open>SyncedRole < role\<close> have "set_data_delayed row v role ob m = Inr (r, m', evs)"
      by (simp add: set_data_private_def)
    then obtain d where "ref_row row (m_attached m) = Some (d, m_attached m')" "m_data m' = m_data m"
      by (blast dest: set_data_delayed_effect)
    then show ?thesis using inv by (simp add: cache_inv_ref_row)
  next
    case False
    with step ko \<open>SyncedRole < role\<close> have "set_data_now row v role ob k m = Inr (r, m', evs)"
      by (simp add: set_data_private_def)
    then have "0 \<le> row" "row < row_count m" "m_attached m' = snd (ref_id k row (m_attached m))"
      "length (m_data m') = length (m_data m)"
      by (simp_all add: set_data_now_effect row_count_def)
    then show ?thesis using cache_inv_ref_id[OF inv, of row m' k] by simp
  qed
next
  case False
  then show ?thesis using inv step
    by (auto simp: set_data_private_def fake_error_reply_def cache_inv_def row_count_def)
qed

lemma rows_valid_remove_at:
  assumes "rows_valid (int (length xs)) a" "0 \<le> row" "row < int (length xs)"
  shows "rows_valid (int (length (json_remove_at row xs))) (update_all_data_after_row row a)"
proof -
  have "int (length (json_remove_at row xs)) = int (length xs) - 1"
    using assms(2,3) by (simp add: json_remove_at_length of_nat_diff)
  then show ?thesis using rows_valid_update_all[OF assms] by simp
qed

lemma cache_inv_finished_object:
  assumes inv: "cache_inv m" and ne: "0 < row_count m"
    and step: "finished_object dl resp old m = Inr (m', evs)"
  shows "cache_inv m'"
proof -
  obtain idv old' where oi: "obj_index ''id'' old = (idv, old')" by fastforce
  obtain d att where da: "deref (to_string idv) (m_attached m) = (d, att)" by fastforce
  have att: "rows_valid (row_count m) att" "distinct (map fst att)"
    using rows_valid_deref(1)[of "row_count m" "m_attached m" "to_string idv"]
      distinct_deref[of "m_attached m" "to_string idv"] inv ne da
    by (auto simp: cache_inv_def)
  have drow: "att_row d = -1 \<or> (0 \<le> att_row d \<and> att_row d < row_count m)"
    using rows_valid_deref(2)[of "row_count m" "m_attached m" "to_string idv"] inv ne da
    by (auto simp: cache_inv_def)
  show ?thesis
    using step att drow
    by (auto simp: finished_object_def Let_def oi da cache_inv_def row_count_def json_replace_def
        rows_valid_remove_at dest!: sync_roles_Pair split: if_splits option.splits prod.splits)
qed

lemma cache_inv_finished:
  assumes inv: "cache_inv m" and ne: "0 < row_count m"
    and step: "finished_request dl resp m = Inr (m', evs)"
  shows "cache_inv m'"
proof (cases "map_of (m_data_changed m) (rp_id resp)")
  case None
  then show ?thesis using inv step by (simp add: finished_request_def)
next
  case (Some p)
  obtain row second where p: "p = (row, second)" by fastforce
  let ?m = "m\<lparr>m_data_changed := AList.delete (rp_id resp) (m_data_changed m)\<rparr>"
  have inv': "cache_inv ?m" and ne': "0 < row_count ?m"
    using inv ne by (simp_all add: cache_inv_def row_count_def)
  consider "row = FullModelReset" | "row \<noteq> FullModelReset" "row = IncrementalModelUpdate"
    | "row \<noteq> FullModelReset" "row \<noteq> IncrementalModelUpdate" by blast
  then show ?thesis
  proof cases
    case 1
    then show ?thesis using step Some p
      by (auto simp: finished_request_def finished_reset_def Let_def cache_inv_def rows_valid_def
          dest!: sync_roles_Pair split: prod.splits if_splits)
  next
    case 2
    then show ?thesis using step Some p inv rows_valid_mono[of "int (length (m_data m))" "m_attached m"]
      by (auto simp: finished_request_def finished_page_def Let_def cache_inv_def row_count_def
          split: prod.splits)
  next
    case 3
    then obtain evs' where "finished_object dl resp second ?m = Inr (m', evs')"
      using step Some p by (auto simp: finished_request_def Let_def split: sum.splits prod.splits)
    then show ?thesis using cache_inv_finished_object[OF inv' ne'] by blast
  qed
qed

lemma swap_network_reply_Pair:
  "swap_network_reply r e m = (m', evs) \<Longrightarrow> m_attached m' = m_attached m \<and> m_data m' = m_data m"
  using swap_network_reply_frame[of r e m] by simp

lemma cache_inv_run_pending:
  assumes inv: "cache_inv m" and ne: "0 < row_count m" and step: "run_pending p fin m = Inr (m', evs)"
  shows "cache_inv m' \<and> row_count m' = row_count m"
proof -
  obtain t where t: "t = (case p of PendingRemove _ _ t \<Rightarrow> t | PendingSetData _ _ t _ _ \<Rightarrow> t)" by simp
  obtain d att where da: "deref t (m_attached m) = (d, att)" by fastforce
  have att: "rows_valid (row_count m) att" "distinct (map fst att)"
    using rows_valid_deref(1)[of "row_count m" "m_attached m" t] distinct_deref[of "m_attached m" t] inv ne da
    by (auto simp: cache_inv_def)
  have drow: "att_row d = -1 \<or> (0 \<le> att_row d \<and> att_row d < row_count m)"
    using rows_valid_deref(2)[of "row_count m" "m_attached m" t] inv ne da by (auto simp: cache_inv_def)
  show ?thesis
  proof (cases p)
    case (PendingRemove reply object tmpId)
    then show ?thesis
      using step t da att drow inv
      by (auto simp: cache_inv_def row_count_def Let_def rows_valid_ref_id distinct_ref_id swap_for_remove_def
          dest!: remove_now_effect swap_network_reply_Pair split: if_splits sum.splits prod.splits)
  next
    case (PendingSetData reply object tmpId v role)
    then show ?thesis
      using step t da att drow inv
      by (auto simp: cache_inv_def row_count_def Let_def rows_valid_ref_id distinct_ref_id swap_for_set_data_def
          dest!: set_data_now_effect swap_network_reply_Pair split: if_splits sum.splits prod.splits)
  qed
qed

lemma cache_inv_run_pendings:
  "cache_inv m \<Longrightarrow> 0 < row_count m \<Longrightarrow> run_pendings ps fin m = Inr (m', evs) \<Longrightarrow> cache_inv m'"
proof (induction ps arbitrary: m evs)
  case (Cons p ps)
  then obtain m1 evs1 evs2 where p: "run_pending p fin m = Inr (m1, evs1)"
    and ps: "run_pendings ps fin m1 = Inr (m', evs2)"
    by (auto split: sum.splits prod.splits)
  from cache_inv_run_pending[OF Cons.prems(1,2) p] have "cache_inv m1" "0 < row_count m1"
    using Cons.prems(2) by simp_all
  then show ?case using Cons.IH ps by blast
qed simp

lemma cache_inv_create_finished:
  assumes "cache_inv m" "0 < row_count m" "create_reply_finished fin m = Inr (m', evs)"
  shows "cache_inv m'"
proof -
  let ?m = "m\<lparr>m_pending := filter (\<lambda>p. fst p \<noteq> rp_id fin) (m_pending m)\<rparr>"
  have "cache_inv ?m" "0 < row_count ?m" using assms(1,2) by (simp_all add: cache_inv_def row_count_def)
  then show ?thesis
    using assms(3) cache_inv_run_pendings by (simp add: create_reply_finished_def)
qed

lemma cache_inv_frame_pair:
  "cache_inv m \<Longrightarrow> x = (m', evs) \<Longrightarrow> m_attached (fst x) = m_attached m \<Longrightarrow>
   m_data (fst x) = m_data m \<Longrightarrow> cache_inv m'"
  by (auto simp: cache_inv_def row_count_def)

lemma cache_inv_set_property:
  assumes "cache_inv m" "model_set_property row role v m = Inr (r, m', evs)"
  shows "cache_inv m'"
  using assms cache_inv_set_data_private[OF assms(1)]
  by (auto simp: model_set_property_def set_value_def fake_error_reply_def cache_inv_def row_count_def
      split: if_splits sum.splits prod.splits)

lemma cache_inv_set_data:
  assumes "cache_inv m" "model_set_data row v role m = Inr (r, m', evs)"
  shows "cache_inv m'"
  using assms cache_inv_set_data_private[OF assms(1)]
  by (auto simp: model_set_data_def split: if_splits sum.splits prod.splits)

subsection \<open>Every operation keeps the bookkeeping well formed\<close>

lemma cache_inv_client_destroyed:
  assumes inv: "cache_inv m" and step: "model_step dl OpClientDestroyed m = Inr (m', evs)"
  shows "cache_inv m'"
proof (cases "m_enginio m = None")
  case True
  with step inv show ?thesis by simp
next
  case False
  with step have e: "set_enginio_private None m = (m', evs)" by simp
  show ?thesis by (rule cache_inv_frame_pair[OF inv e]) simp_all
qed

lemma cache_inv_backend_changed:
  assumes inv: "cache_inv m" and step: "model_step dl (OpBackendChanged i k) m = Inr (m', evs)"
  shows "cache_inv m'"
proof (cases "m_enginio m")
  case None
  with step inv show ?thesis by simp
next
  case (Some cl)
  let ?m = "m\<lparr>m_enginio := Some (cl\<lparr>cl_backend_id := i, cl_backend_secret := k\<rparr>)\<rparr>"
  from Some step have e: "execute ?m = (m', evs)" by simp
  have "cache_inv ?m" using inv by (simp add: cache_inv_def row_count_def)
  then show ?thesis by (rule cache_inv_frame_pair[OF _ e]) simp_all
qed

text \<open>C13. Whatever happens to a model (a public method is called, a reply it is
  waiting for finishes, or its client is destroyed or changes backend), the rows its bookkeeping names stay rows of the cache (or
  \<open>-1\<close>, removed), and no id is attached twice.  The one exception is a reply arriving
  while the cache is empty: \<open>deref\<close> of an id a reset dropped yields row 0, which is
  then not a row (see C11 and C12).\<close>

theorem model_step_cache_inv:
  assumes inv: "cache_inv m" and step: "model_step dl op m = Inr (m', evs)"
    and rows: "\<not> reply_op op \<or> 0 < row_count m"
  shows "cache_inv m'"
proof (cases op)
  case (OpSetEnginio c)
  then show ?thesis using step cache_inv_frame_pair[OF inv, of "set_enginio c m" m' evs] setter_frame(5,6)[of c m]
    by simp
next
  case (OpSetQuery q)
  then show ?thesis using step cache_inv_frame_pair[OF inv, of "set_query q m" m' evs] setter_frame(1,2)[of q m]
    by simp
next
  case OpClientDestroyed
  then show ?thesis using step cache_inv_client_destroyed[OF inv] by simp
next
  case (OpBackendChanged i k)
  then show ?thesis using step cache_inv_backend_changed[OF inv] by simp
next
  case (OpSetOperation op')
  then show ?thesis using step cache_inv_frame_pair[OF inv, of "set_operation op' m" m' evs] setter_frame(3,4)[of op' m]
    by simp
next
  case OpExecute
  then show ?thesis using step cache_inv_frame_pair[OF inv, of "execute m" m' evs] execute_frame(1,2)[of m]
    by simp
next
  case (OpFetchMore row)
  then show ?thesis using step inv fetch_more_frame[of row m m' evs]
    by (simp add: cache_inv_def row_count_def)
next
  case (OpAppend uuid v)
  then show ?thesis using step cache_inv_append[OF inv] by (auto split: sum.splits prod.splits)
next
  case (OpRemove row)
  then show ?thesis using step cache_inv_remove[OF inv] by (auto split: sum.splits prod.splits)
next
  case (OpSetProperty row role v)
  then show ?thesis using step cache_inv_set_property[OF inv] by (auto split: sum.splits prod.splits)
next
  case (OpSetData row v role)
  then show ?thesis using step cache_inv_set_data[OF inv] by (auto split: sum.splits prod.splits)
next
  case (OpFinished r)
  then show ?thesis using step rows cache_inv_finished[OF inv] by (simp add: reply_op_def)
next
  case (OpCreateFinished r)
  then show ?thesis using step rows cache_inv_create_finished[OF inv] by (simp add: reply_op_def)
qed

theorem model_step_cache_inv_witness:
  "\<exists>m' evs. model_step (\<lambda>_ _. False) (OpRemove 0)
      (init_model\<lparr>m_enginio := Some \<lparr>cl_id = 1, cl_backend_id = ''b'', cl_backend_secret = ''s''\<rparr>,
                  m_data := [JObj [(''id'', JStr ''a'')]]\<rparr>) = Inr (m', evs)
    \<and> cache_inv m'"
proof -
  let ?m = "init_model\<lparr>m_enginio := Some \<lparr>cl_id = 1, cl_backend_id = ''b'', cl_backend_secret = ''s''\<rparr>,
                       m_data := [JObj [(''id'', JStr ''a'')]]\<rparr>"
  have inv0: "cache_inv ?m"
    by (simp add: cache_inv_def rows_valid_def init_model_def)
  have "\<exists>x. model_step (\<lambda>_ _. False) (OpRemove 0) ?m = Inr x"
    by (simp add: model_remove_def remove_private_def row_object_id_def remove_now_def send_request_def
        json_at_def to_object_def obj_index_def row_count_def init_model_def split: prod.split)
  then obtain m' evs where st: "model_step (\<lambda>_ _. False) (OpRemove 0) ?m = Inr (m', evs)"
    by fastforce
  show ?thesis
    using st model_step_cache_inv[OF inv0 st] by (simp add: reply_op_def)
qed
subsection \<open>A reply whose bookkeeping a reset dropped\<close>

text \<open>C12. A full reset (\<open>execute()\<close>, run again by \<open>setQuery\<close>, \<open>setOperation\<close>
  or a new client) clears \<open>_attachedData\<close> while an update request is in flight.  When
  that update's reply arrives, \<open>deref\<close> finds no entry for the object's id and returns
  the default data with the count wrapped to \<open>0xFFFFFFFF\<close> and row 0: the reply's
  object overwrites row 0 of the new cache, whatever object is there, and row 0 stays
  attached for ever, so it is reported unsynced.\<close>

theorem update_after_reset_overwrites_first_row:
  assumes pending: "map_of (m_data_changed m) (rp_id resp) = Some (row, old)" "0 \<le> row"
    and oldid: "map_of old ''id'' = Some (JStr k)"
    and dropped: "map_of (m_attached m) k = None"
    and ok: "rp_data resp \<noteq> []" "\<not> rp_network_error resp" "rp_backend_status resp \<noteq> 404"
    and rows: "2 \<le> length (m_data m)"
    and newer: "\<not> date_less (to_string (obj_value ''updatedAt'' (rp_data resp)))
                              (to_string (obj_value ''updatedAt'' (to_object (hd (m_data m)))))"
  shows "\<exists>m' evs. finished_request date_less resp m = Inr (m', evs)
           \<and> m_data m' = (m_data m)[0 := JObj (snd (obj_index ''updatedAt'' (rp_data resp)))]
           \<and> map_of (m_attached m') k = Some \<lparr>att_ref = 0xFFFFFFFF, att_row = 0, att_create_reply = None\<rparr>
           \<and> DataChanged 0 [] \<in> set evs"
proof -
  define D where "D = \<lparr>att_ref = 0xFFFFFFFF :: 32 word, att_row = 0 :: int, att_create_reply = None :: nat option\<rparr>"
  have row: "row \<noteq> FullModelReset" "row \<noteq> IncrementalModelUpdate"
    using pending(2) by (auto simp: FullModelReset_def IncrementalModelUpdate_def)
  have hd: "m_data m ! 0 = hd (m_data m)" and ne: "m_data m \<noteq> []"
    using rows by (cases "m_data m", auto)+
  have d: "deref k (m_attached m) = (D, m_attached m @ [(k, D)])"
    using dropped by (simp add: deref_def Let_def attached_default_def delete_fresh update_fresh D_def)
  obtain nv nob where ni: "obj_index ''updatedAt'' (rp_data resp) = (nv, nob)"
    by fastforce
  have nv: "to_string nv = to_string (obj_value ''updatedAt'' (rp_data resp))"
    using to_string_obj_index[of "''updatedAt''" "rp_data resp"] ni by simp
  have fo: "finished_object date_less resp old (m\<lparr>m_data_changed := dc\<rparr>) =
      Inr (m\<lparr>m_data_changed := dc, m_attached := m_attached m @ [(k, D)], m_data := (m_data m)[0 := JObj nob]\<rparr>,
           [DataChanged 0 []])" for dc
    using oldid ok rows newer hd ne d ni nv
    by (simp add: finished_object_def obj_index_present Let_def D_def)
  show ?thesis
    using pending(1) row fo ni dropped
    by (auto simp: finished_request_def Let_def map_add_def D_def)
qed

theorem update_after_reset_overwrites_first_row_witness:
  "\<exists>m' evs. finished_request (\<lambda>_ _. False)
       \<lparr>rp_id = 7, rp_data = [(''id'', JStr ''b''), (''title'', JStr ''new'')],
        rp_backend_status = 200, rp_network_error = False\<rparr>
       (init_model\<lparr>m_data_changed := [(7, (1, [(''id'', JStr ''b'')]))],
                   m_data := [JObj [(''id'', JStr ''c'')], JObj [(''id'', JStr ''d'')]]\<rparr>) = Inr (m', evs)
     \<and> m_data m' = [JObj [(''id'', JStr ''b''), (''title'', JStr ''new''), (''updatedAt'', JNull)],
                    JObj [(''id'', JStr ''d'')]]
     \<and> map_of (m_attached m') ''b'' = Some \<lparr>att_ref = 0xFFFFFFFF, att_row = 0, att_create_reply = None\<rparr>
     \<and> DataChanged 0 [] \<in> set evs"
  using update_after_reset_overwrites_first_row[of
      "init_model\<lparr>m_data_changed := [(7, (1, [(''id'', JStr ''b'')]))],
                  m_data := [JObj [(''id'', JStr ''c'')], JObj [(''id'', JStr ''d'')]]\<rparr>"
      "\<lparr>rp_id = 7, rp_data = [(''id'', JStr ''b''), (''title'', JStr ''new'')],
        rp_backend_status = 200, rp_network_error = False\<rparr>"
      1 "[(''id'', JStr ''b'')]" "''b''" "\<lambda>_ _. False"]
  by (simp add: init_model_def obj_index_def)

subsection \<open>Paging\<close>

lemma to_double_obj_index [simp]: "to_double (fst (obj_index k ob)) = to_double (obj_value k ob)"
  by (simp add: obj_index_def obj_value_def to_double_def split: option.split)

lemma obj_value_upd: "obj_value k' (obj_upd k v ob) = (if k' = k then v else obj_value k' ob)"
  by (simp add: obj_value_def)

lemma obj_value_remove: "obj_wf ob \<Longrightarrow> obj_value k' (obj_remove k ob) = (if k' = k then JUndefined else obj_value k' ob)"
  by (simp add: obj_value_def map_of_obj_remove)

lemma map_of_obj_index:
  "map_of (snd (obj_index k ob)) k' = (if k' = k \<and> map_of ob k = None then Some JNull else map_of ob k')"
  by (auto simp: obj_index_def split: option.split)

text \<open>C14. \<open>setQuery\<close> with a \<open>pageSize\<close> turns paging on: the query gets
  \<open>limit = pageSize\<close>, a non-zero \<open>offset\<close> is dropped, every other key is kept, and
  an absent \<open>offset\<close> comes back as \<open>null\<close> (it was read through the non-const
  \<open>operator[]\<close>), so the first page request carries \<open>"offset": null\<close>.\<close>

theorem set_query_paging:
  assumes wf: "obj_wf q" and ps: "map_of q ''pageSize'' = Some (JNum n)"
  shows "m_can_fetch_more (fst (set_query_private q m))
    \<and> obj_value ''limit'' (m_query (fst (set_query_private q m))) = JNum n
    \<and> obj_value ''offset'' (m_query (fst (set_query_private q m))) =
        (case map_of q ''offset'' of None \<Rightarrow> JNull | Some v \<Rightarrow> if to_double v \<noteq> 0 then JUndefined else v)
    \<and> (\<forall>k. k \<noteq> ''limit'' \<longrightarrow> k \<noteq> ''offset'' \<longrightarrow>
          obj_value k (m_query (fst (set_query_private q m))) = obj_value k q)"
proof -
  obtain lim q1 where l: "obj_index ''limit'' q = (lim, q1)" by fastforce
  obtain off q2 where o: "obj_index ''offset'' q1 = (off, q2)" by fastforce
  have wf1: "obj_wf q1" using obj_wf_index[OF wf, of "''limit''"] l by simp
  have wf2: "obj_wf q2" using obj_wf_index[OF wf1, of "''offset''"] o by simp
  have off: "off = (case map_of q ''offset'' of None \<Rightarrow> JNull | Some v \<Rightarrow> v)"
    using l o by (auto simp: obj_index_def split: option.splits)
  have m1: "map_of q1 k = (if k = ''limit'' \<and> map_of q ''limit'' = None then Some JNull else map_of q k)" for k
    using map_of_obj_index[of "''limit''" q k] l by simp
  have v2: "obj_value k q2 = (if k = ''offset'' \<and> map_of q ''offset'' = None then JNull else obj_value k q)"
    if "k \<noteq> ''limit''" for k
    using that map_of_obj_index[of "''offset''" q1 k] o m1[of k] m1[of "''offset''"]
    by (simp add: obj_value_def)
  have cont: "obj_contains ''pageSize'' q" using ps by (simp add: obj_contains_def)
  show ?thesis
    using cont ps l o wf2 v2 off
    by (auto simp: set_query_private_def obj_value_def[of "''pageSize''"] obj_value_def[of "''offset''" q]
        obj_insert_def obj_value_upd
        obj_value_remove obj_wf_remove to_double_def split: option.splits)
qed

theorem set_query_paging_witness:
  "m_query (fst (set_query_private [(''objectType'', JStr ''objects.todos''), (''pageSize'', JNum 10)] init_model))
     = [(''limit'', JNum 10), (''objectType'', JStr ''objects.todos''), (''offset'', JNull), (''pageSize'', JNum 10)]
   \<and> m_can_fetch_more (fst (set_query_private [(''objectType'', JStr ''objects.todos''), (''pageSize'', JNum 10)] init_model))
   \<and> obj_value ''offset'' (m_query (fst (set_query_private [(''objectType'', JStr ''objects.todos''), (''pageSize'', JNum 10)] init_model))) = JNull"
proof -
  have "obj_wf [(''objectType'', JStr ''objects.todos''), (''pageSize'', JNum 10)]"
    by (simp add: obj_wf_def)
  from set_query_paging[OF this, of 10 init_model] show ?thesis
    by (simp add: set_query_private_def obj_index_def obj_insert_def obj_contains_def obj_value_def to_double_def)
qed

text \<open>C15. \<open>fetchMore\<close> asks for the next page: a request starting at the current row
  count, for at least the rows up to the one the view wants; the requested offset is
  remembered, and while that page is in flight a second \<open>fetchMore\<close> sends nothing.\<close>

theorem fetch_more_next_page:
  assumes cfm: "m_can_fetch_more m" and lat: "m_latest_requested_offset m = row_count m"
    and cl: "m_enginio m \<noteq> None"
  shows "\<exists>q m'. fetch_more row m = Inr (m', [Request QueryRequest q (m_operation m) (m_next_reply m)])
     \<and> obj_value ''offset'' q = JNum (row_count m)
     \<and> row - row_count m \<le> to_double (obj_value ''limit'' q)
     \<and> map_of (m_data_changed m') (m_next_reply m) = Some (IncrementalModelUpdate, q)
     \<and> (0 < to_double (obj_value ''limit'' q) \<longrightarrow> fetch_more row' m' = Inr (m', []))"
proof -
  obtain lim q0 where l: "obj_index ''limit'' (m_query m) = (lim, q0)" by fastforce
  define limit where "limit = max (row - row_count m) (to_double lim)"
  define q where "q = obj_insert ''limit'' (JNum limit) (obj_insert ''offset'' (JNum (row_count m)) q0)"
  have qv: "obj_value ''offset'' q = JNum (row_count m)" "obj_value ''limit'' q = JNum limit"
    by (simp_all add: q_def obj_insert_def obj_value_def)
  define m' where "m' = m\<lparr>m_latest_requested_offset := m_latest_requested_offset m + limit,
      m_next_reply := Suc (m_next_reply m),
      m_data_changed := AList.update (m_next_reply m) (IncrementalModelUpdate, q) (m_data_changed m)\<rparr>"
  have f: "fetch_more row m = Inr (m', [Request QueryRequest q (m_operation m) (m_next_reply m)])"
    using cfm lat cl l
    by (simp add: fetch_more_def send_request_def Let_def m'_def q_def limit_def row_count_def)
  have again: "0 < limit \<Longrightarrow> fetch_more row' m' = Inr (m', [])"
    using lat by (simp add: fetch_more_def m'_def row_count_def)
  show ?thesis
    using f qv again by (auto simp: m'_def limit_def to_double_def update_conv')
qed

theorem fetch_more_next_page_witness:
  "\<exists>q m'. fetch_more 30 (init_model\<lparr>m_enginio := Some \<lparr>cl_id = 1, cl_backend_id = ''b'', cl_backend_secret = ''s''\<rparr>,
        m_can_fetch_more := True, m_query := [(''limit'', JNum 10)]\<rparr>)
      = Inr (m', [Request QueryRequest q 0 0])
    \<and> obj_value ''offset'' q = JNum 0 \<and> 30 \<le> to_double (obj_value ''limit'' q)"
proof -
  let ?m = "init_model\<lparr>m_enginio := Some \<lparr>cl_id = 1, cl_backend_id = ''b'', cl_backend_secret = ''s''\<rparr>,
        m_can_fetch_more := True, m_query := [(''limit'', JNum 10)]\<rparr>"
  have h: "m_can_fetch_more ?m" "m_latest_requested_offset ?m = row_count ?m" "m_enginio ?m \<noteq> None"
    by (simp_all add: init_model_def row_count_def)
  obtain q m' where "fetch_more 30 ?m = Inr (m', [Request QueryRequest q (m_operation ?m) (m_next_reply ?m)])"
    "obj_value ''offset'' q = JNum (row_count ?m)" "30 - row_count ?m \<le> to_double (obj_value ''limit'' q)"
    using fetch_more_next_page[OF h, of 30] by blast
  then show ?thesis by (auto simp: init_model_def row_count_def)
qed

subsection \<open>Roles\<close>

lemma roles_wf_sync_role_key:
  assumes "roles_wf (fst st)"
  shows "roles_wf (fst (sync_role_key d key st))
    \<and> map_le (map_of (m_roles (fst st))) (map_of (m_roles (fst (sync_role_key d key st))))"
proof -
  obtain m evs where st: "st = (m, evs)" by fastforce
  have fresh: "map_of (m_roles m) (m_roles_counter m) = None"
    using assms st by (auto simp: roles_wf_def list_all_iff map_of_eq_None_iff)
  show ?thesis
    using assms st fresh
    by (auto simp: sync_role_key_def roles_wf_def list_all_iff update_fresh distinct_update map_le_def
        map_of_eq_None_iff)
qed

lemma roles_wf_fold:
  "roles_wf (fst st) \<Longrightarrow>
   roles_wf (fst (fold (sync_role_key d) ks st))
   \<and> map_le (map_of (m_roles (fst st))) (map_of (m_roles (fst (fold (sync_role_key d) ks st))))"
proof (induction ks arbitrary: st)
  case (Cons k ks)
  from roles_wf_sync_role_key[OF Cons.prems, of d k] Cons.IH[of "sync_role_key d k st"]
  show ?case by (auto intro: map_le_trans)
qed simp

text \<open>C16. \<open>syncRoles\<close> keeps the roles a hash whose counter is above every key, and
  never renames a role a view may already use: every role present before is present
  after with the same name.\<close>

theorem sync_roles_keeps_roles:
  assumes "roles_wf m"
  shows "roles_wf (fst (sync_roles m))
    \<and> (\<forall>k n. map_of (m_roles m) k = Some n \<longrightarrow> map_of (m_roles (fst (sync_roles m))) k = Some n)"
proof -
  let ?m = "if m_roles m = [] then m\<lparr>m_roles := predefined_roles, m_roles_counter := LastRole\<rparr> else m"
  have "roles_wf ?m"
    using assms by (auto simp: roles_wf_def predefined_roles_def role_defs)
  moreover have "map_le (map_of (m_roles m)) (map_of (m_roles ?m))"
    by (auto simp: map_le_def)
  ultimately show ?thesis
    using roles_wf_fold[of "(?m, [])"]
    by (auto simp: sync_roles_def Let_def map_le_def dom_def simp del: fun_upd_apply split: if_splits)
qed

theorem sync_roles_keeps_roles_witness:
  "roles_wf (init_model\<lparr>m_data := [JObj [(''id'', JStr ''a''), (''title'', JStr ''x'')]]\<rparr>)
   \<and> m_roles (fst (sync_roles (init_model\<lparr>m_data := [JObj [(''id'', JStr ''a''), (''title'', JStr ''x'')]]\<rparr>)))
       = predefined_roles @ [(LastRole, ''title'')]"
  using sync_roles_keeps_roles[of "init_model\<lparr>m_data := [JObj [(''id'', JStr ''a''), (''title'', JStr ''x'')]]\<rparr>"]
  by (simp add: roles_wf_def init_model_def sync_roles_def sync_role_key_def predefined_roles_def
      json_at_def to_object_def role_defs)

subsection \<open>Replies and guards\<close>

text \<open>C17. A page that comes back empty is announced as the insertion of rows
  \<open>s\<close> to \<open>s - 1\<close>: \<open>beginInsertRows\<close> is called with a last row before its first,
  which \<open>QAbstractItemModel\<close> requires never to happen; nothing is added and paging
  stops only if the page limit was positive.\<close>

theorem empty_page_inverted_range:
  assumes pending: "map_of (m_data_changed m) (rp_id resp) = Some (IncrementalModelUpdate, q)"
    and empty: "to_array (obj_value ''results'' (rp_data resp)) = []"
  shows "\<exists>m' w. finished_request dl resp m = Inr (m', w @
           [RowsInserted (max (to_double (obj_value ''offset'' q)) (row_count m))
                         (max (to_double (obj_value ''offset'' q)) (row_count m) - 1)])
     \<and> m_data m' = m_data m \<and> m_can_fetch_more m' = (to_double (obj_value ''limit'' q) \<le> 0)"
  using pending empty
  by (auto simp: finished_request_def finished_page_def FullModelReset_def IncrementalModelUpdate_def
      row_count_def Let_def)

theorem empty_page_inverted_range_witness:
  "\<exists>m' w. finished_request (\<lambda>_ _. False) \<lparr>rp_id = 3, rp_data = [(''results'', JArr [])],
        rp_backend_status = 200, rp_network_error = False\<rparr>
      (init_model\<lparr>m_data_changed := [(3, (-2, [(''limit'', JNum 10), (''offset'', JNum 20)]))],
                  m_can_fetch_more := True\<rparr>)
      = Inr (m', w @ [RowsInserted 20 19])"
  using empty_page_inverted_range[of "init_model\<lparr>m_data_changed := [(3, (-2, [(''limit'', JNum 10), (''offset'', JNum 20)]))],
                  m_can_fetch_more := True\<rparr>" "\<lparr>rp_id = 3, rp_data = [(''results'', JArr [])],
        rp_backend_status = 200, rp_network_error = False\<rparr>" "[(''limit'', JNum 10), (''offset'', JNum 20)]"
      "\<lambda>_ _. False"]
  by (auto simp: IncrementalModelUpdate_def init_model_def obj_value_def to_array_def to_double_def
      row_count_def)

lemma fold_sync_role_key_no_message:
  "\<forall>s. MWarning (BackendMessage s) \<notin> set evs \<Longrightarrow>
   \<forall>s. MWarning (BackendMessage s) \<notin> set (snd (fold (sync_role_key d) ks (m, evs)))"
  by (induction ks arbitrary: m evs) (auto simp: sync_role_key_def)

lemma sync_roles_no_message: "MWarning (BackendMessage s) \<notin> set (snd (sync_roles m))"
  using fold_sync_role_key_no_message[of "[]"] by (simp add: sync_roles_def Let_def)

lemma sync_roles_no_message_Pair:
  "sync_roles m = (m', evs) \<Longrightarrow> MWarning (BackendMessage s) \<notin> set evs"
  using sync_roles_no_message[of s m] by simp

lemma finished_reset_no_message: "MWarning (BackendMessage s) \<notin> set (snd (finished_reset r m))"
  by (auto simp: finished_reset_def Let_def dest: sync_roles_no_message_Pair split: prod.splits)

lemma finished_object_no_message:
  "finished_object dl r ob m = Inr (m', evs) \<Longrightarrow> MWarning (BackendMessage s) \<notin> set evs"
  by (auto simp: finished_object_def Let_def dest: sync_roles_no_message_Pair
      split: prod.splits if_splits option.splits)

text \<open>C18.  A reply the model was waiting for is logged as a backend message exactly
  when it carries a non-null \<open>message\<close>, and then once, with that text.  A reply
  without the key is not logged: the non-const read on the temporary \<open>data()\<close>
  inserts \<open>null\<close>.\<close>

theorem reply_message_logged:
  assumes "map_of (m_data_changed m) (rp_id resp) \<noteq> None"
    and "finished_request dl resp m = Inr (m', evs)"
  shows "filter (\<lambda>e. \<exists>s. e = MWarning (BackendMessage s)) evs =
           (case map_of (rp_data resp) ''message'' of
              None \<Rightarrow> []
            | Some v \<Rightarrow> if v = JNull then [] else [MWarning (BackendMessage (to_string v))])"
proof -
  obtain row second where d: "map_of (m_data_changed m) (rp_id resp) = Some (row, second)"
    using assms(1) by auto
  let ?M = "m\<lparr>m_data_changed := AList.delete (rp_id resp) (m_data_changed m)\<rparr>"
  let ?w = "(if \<not> is_null (fst (obj_index ''message'' (rp_data resp)))
             then [MWarning (BackendMessage (to_string (fst (obj_index ''message'' (rp_data resp)))))] else [])"
  obtain rest where evs: "evs = ?w @ rest" and nr: "\<forall>s. MWarning (BackendMessage s) \<notin> set rest"
  proof (cases "row = FullModelReset")
    case True
    then show ?thesis using that assms(2) d finished_reset_no_message[where r = resp and m = ?M]
      by (auto simp: finished_request_def Let_def split: prod.splits)
  next
    case nf: False
    show ?thesis
    proof (cases "row = IncrementalModelUpdate")
      case True
      then show ?thesis using that assms(2) d nf
        by (auto simp: finished_request_def finished_page_def Let_def split: prod.splits)
    next
      case False
      then show ?thesis using that assms(2) d nf finished_object_no_message[where dl = dl and r = resp and ob = second and m = ?M]
        by (auto simp: finished_request_def Let_def split: prod.splits sum.splits)
    qed
  qed
  have "filter (\<lambda>e. \<exists>s. e = MWarning (BackendMessage s)) rest = []"
    using nr by (auto simp: filter_empty_conv)
  then show ?thesis
    by (simp add: evs obj_index_def is_null_def split: option.split)
qed

theorem reply_message_logged_witness:
  "filter (\<lambda>e. \<exists>s. e = MWarning (BackendMessage s))
     (snd (projr (finished_request (\<lambda>_ _. False) \<lparr>rp_id = 0, rp_data = [(''results'', JArr [])],
        rp_backend_status = 200, rp_network_error = False\<rparr>
      (init_model\<lparr>m_data_changed := [(0, (-1, []))]\<rparr>)))) = []"
proof -
  let ?r = "\<lparr>rp_id = 0, rp_data = [(''results'', JArr [])], rp_backend_status = 200, rp_network_error = False\<rparr>"
  let ?m = "init_model\<lparr>m_data_changed := [(0, (-1, []))]\<rparr>"
  have "\<exists>x. finished_request (\<lambda>_ _. False) ?r ?m = Inr x"
    by (simp add: finished_request_def FullModelReset_def finished_reset_def Let_def case_prod_beta)
  then obtain m' evs where f: "finished_request (\<lambda>_ _. False) ?r ?m = Inr (m', evs)" by fastforce
  have "filter (\<lambda>e. \<exists>s. e = MWarning (BackendMessage s)) evs = []"
    using reply_message_logged[OF _ f] by simp
  then show ?thesis using f by simp
qed

text \<open>C19. \<open>EnginioModel::setData\<close> checks the row only from above: the row count
  itself is refused, but the row \<open>-1\<close> of an invalid index reaches
  \<open>EnginioModelPrivate::setData\<close>, which takes the row for an unsynced one and looks for
  its create request; with no attached entry at row \<open>-1\<close> the scan of \<open>ref(int)\<close>
  runs off the hash and dereferences \<open>end()\<close>.\<close>

theorem set_data_negative_row:
  assumes "SyncedRole < role" "\<not> contains_row (-1) (m_attached m)"
  shows "model_set_data (row_count m) v role m = Inr (False, m, [])
    \<and> model_set_data (-1) v role m = Inl RowNotAttached"
proof -
  have "ref_row (-1) (m_attached m) = None"
    using assms(2) ref_row_defined[of "-1" "m_attached m"] by blast
  then show ?thesis
    using assms(1)
    by (simp add: model_set_data_def set_data_private_def row_object_id_def set_data_delayed_def
        delayed_operation_def json_at_def to_object_def obj_index_def to_string_def row_count_def)
qed

theorem set_data_negative_row_witness:
  "model_set_data (-1) (JStr ''x'') 266 init_model = Inl RowNotAttached"
  using set_data_negative_row[of 266 init_model "JStr ''x''"]
  by (simp add: SyncedRole_def init_model_def contains_row_def)

text \<open>C32.  When the client is destroyed (\<open>EnginioDestroyed\<close> runs \<open>setEnginio(0)\<close>) the
  model forgets it, announces \<open>enginioChanged\<close> and sends nothing; from then on
  \<open>append\<close> only warns that no client is set.\<close>

theorem client_destroyed_detaches:
  assumes "m_enginio m \<noteq> None" and "model_step dl OpClientDestroyed m = Inr (m', evs)"
  shows "m_enginio m' = None \<and> evs = [EnginioChanged]
         \<and> model_append uuid v m' = Inr (None, m', [MWarning (ClientNotSet ''append'')])"
  using assms
  by (auto simp: set_enginio_private_def execute_def model_append_def)

theorem client_destroyed_detaches_witness:
  "m_enginio (init_model\<lparr>m_enginio := Some \<lparr>cl_id = 1, cl_backend_id = ''b'', cl_backend_secret = ''s''\<rparr>\<rparr>) \<noteq> None
   \<and> model_step (\<lambda>_ _. False) OpClientDestroyed (init_model\<lparr>m_enginio := Some \<lparr>cl_id = 1, cl_backend_id = ''b'', cl_backend_secret = ''s''\<rparr>\<rparr>)
       = Inr (init_model, [EnginioChanged])
   \<and> m_enginio init_model = None \<and> [EnginioChanged] = [EnginioChanged]
   \<and> model_append ''u'' [] init_model = Inr (None, init_model, [MWarning (ClientNotSet ''append'')])"
proof -
  have s: "model_step (\<lambda>_ _. False) OpClientDestroyed (init_model\<lparr>m_enginio := Some \<lparr>cl_id = 1, cl_backend_id = ''b'', cl_backend_secret = ''s''\<rparr>\<rparr>)
       = Inr (init_model, [EnginioChanged])"
    by (simp add: set_enginio_private_def execute_def init_model_def)
  have "m_enginio init_model = None \<and> [EnginioChanged] = [EnginioChanged]
        \<and> model_append ''u'' [] init_model = Inr (None, init_model, [MWarning (ClientNotSet ''append'')])"
    by (rule client_destroyed_detaches[OF _ s]) simp
  with s show ?thesis by simp
qed

text \<open>C33.  A change of the client's backend id or secret (\<open>QueryChanged\<close> runs
  \<open>execute()\<close>) sends the query again as a full reset: one query request, its reply
  recorded as \<open>FullModelReset\<close>.\<close>

theorem backend_change_requeries:
  assumes "m_enginio m = Some cl" and "backendId \<noteq> []" and "backendSecret \<noteq> []"
    and "m_query m \<noteq> []" and "\<not> m_can_fetch_more m"
    and "model_step dl (OpBackendChanged backendId backendSecret) m = Inr (m', evs)"
  shows "evs = [Request QueryRequest (m_query m) (m_operation m) (m_next_reply m)]
         \<and> map_of (m_data_changed m') (m_next_reply m) = Some (FullModelReset, [])
         \<and> m_data m' = m_data m"
  using assms by (auto simp: execute_def send_request_def update_conv')

theorem backend_change_requeries_witness:
  "\<exists>m' evs. model_step (\<lambda>_ _. False) (OpBackendChanged ''b2'' ''s2'') (init_model\<lparr>m_enginio := Some \<lparr>cl_id = 1, cl_backend_id = ''b'', cl_backend_secret = ''s''\<rparr>, m_query := [(''objectType'', JStr ''objects.todo'')]\<rparr>) = Inr (m', evs)
     \<and> evs = [Request QueryRequest [(''objectType'', JStr ''objects.todo'')] (m_operation init_model) (m_next_reply init_model)]
     \<and> map_of (m_data_changed m') (m_next_reply init_model) = Some (FullModelReset, [])
     \<and> m_data m' = m_data init_model"
proof -
  obtain m' evs where s: "model_step (\<lambda>_ _. False) (OpBackendChanged ''b2'' ''s2'') (init_model\<lparr>m_enginio := Some \<lparr>cl_id = 1, cl_backend_id = ''b'', cl_backend_secret = ''s''\<rparr>, m_query := [(''objectType'', JStr ''objects.todo'')]\<rparr>) = Inr (m', evs)"
    by (simp add: init_model_def execute_def send_request_def)
  have "evs = [Request QueryRequest (m_query (init_model\<lparr>m_enginio := Some \<lparr>cl_id = 1, cl_backend_id = ''b'', cl_backend_secret = ''s''\<rparr>, m_query := [(''objectType'', JStr ''objects.todo'')]\<rparr>)) (m_operation (init_model\<lparr>m_enginio := Some \<lparr>cl_id = 1, cl_backend_id = ''b'', cl_backend_secret = ''s''\<rparr>, m_query := [(''objectType'', JStr ''objects.todo'')]\<rparr>)) (m_next_reply (init_model\<lparr>m_enginio := Some \<lparr>cl_id = 1, cl_backend_id = ''b'', cl_backend_secret = ''s''\<rparr>, m_query := [(''objectType'', JStr ''objects.todo'')]\<rparr>))]
        \<and> map_of (m_data_changed m') (m_next_reply (init_model\<lparr>m_enginio := Some \<lparr>cl_id = 1, cl_backend_id = ''b'', cl_backend_secret = ''s''\<rparr>, m_query := [(''objectType'', JStr ''objects.todo'')]\<rparr>)) = Some (FullModelReset, [])
        \<and> m_data m' = m_data (init_model\<lparr>m_enginio := Some \<lparr>cl_id = 1, cl_backend_id = ''b'', cl_backend_secret = ''s''\<rparr>, m_query := [(''objectType'', JStr ''objects.todo'')]\<rparr>)"
    by (rule backend_change_requeries[OF _ _ _ _ _ s]) (simp_all add: init_model_def)
  with s show ?thesis by auto
qed

lemma append_private_pending:
  "append_private uuid v m = Inr (r, m', evs) \<Longrightarrow>
   r = m_next_reply m \<and> map_of (m_data_changed m') r =
     Some (int (length (m_data m)),
           obj_insert ''id'' (JStr (''tmp'' @ uuid)) (obj_insert ''objectType'' (fst (obj_index ''objectType'' (m_query m))) v))"
  by (auto simp: append_private_def send_request_def Let_def update_conv' dest!: sync_roles_Pair
      split: if_splits prod.splits)

lemma rows_valid_not_contains: "0 \<le> n \<Longrightarrow> rows_valid n a \<Longrightarrow> \<not> contains_row n a"
  by (fastforce simp: rows_valid_def contains_row_def list_all_iff list_ex_iff)

text \<open>C34.  The life of an appended object: \<open>append\<close> adds the row with a temporary id
  and a create request; when the create reply arrives with the stored object, the row
  becomes that object, the temporary id is released, the row reads as synced and the
  view is told the row changed.\<close>

theorem append_then_created:
  assumes inv: "cache_inv m" and ne: "m_data m \<noteq> []"
    and fresh: "map_of (m_attached m) (''tmp'' @ uuid) = None"
    and app: "model_append uuid v m = Inr (Some r, m1, evs1)"
    and fin: "rp_id fin = r" "\<not> rp_network_error fin" "rp_backend_status fin \<noteq> 404" "rp_data fin \<noteq> []"
      "map_of (rp_data fin) ''updatedAt'' = Some u"
      "\<not> dl (to_string u) (to_string (obj_value ''updatedAt'' v))"
  shows "\<exists>m2 evs2. model_step dl (OpFinished fin) m1 = Inr (m2, evs2)
           \<and> m_data m2 = m_data m @ [JObj (rp_data fin)] \<and> m_attached m2 = m_attached m
           \<and> data_private (int (length (m_data m))) SyncedRole m2 = Some (JBool True)
           \<and> last evs2 = DataChanged (int (length (m_data m))) []"
proof -
  from app have ap: "append_private uuid v m = Inr (r, m1, evs1)"
    by (auto simp: model_append_def split: if_splits sum.splits prod.splits)
  note eff = append_private_effect[OF ap] and pend = append_private_pending[OF ap]
  let ?n = "int (length (m_data m))"
  have att1: "m_attached m1 = m_attached m @ [(''tmp'' @ uuid, \<lparr>att_ref = 1, att_row = ?n, att_create_reply = Some r\<rparr>)]"
    using eff fresh by (simp add: update_fresh)
  have nc: "\<not> contains_row ?n (m_attached m)"
    using inv rows_valid_not_contains by (simp add: cache_inv_def row_count_def)
  let ?tmp = "''tmp'' @ uuid"
  let ?obj = "obj_insert ''id'' (JStr ?tmp) (obj_insert ''objectType'' (fst (obj_index ''objectType'' (m_query m))) v)"
  let ?M = "m1\<lparr>m_data_changed := AList.delete r (m_data_changed m1)\<rparr>"
  have dref: "deref ?tmp (m_attached ?M) = (\<lparr>att_ref = 0, att_row = ?n, att_create_reply = Some r\<rparr>, m_attached m)"
    using fresh by (simp add: deref_def att1 lookup_or_default_snoc delete_snoc_fresh)
  have idx: "obj_index ''id'' ?obj = (JStr ?tmp, ?obj)"
    by (rule obj_index_present) (simp add: obj_insert_def)
  have upd: "obj_index ''updatedAt'' (rp_data fin) = (u, rp_data fin)"
    by (rule obj_index_present) (fact fin(5))
  have cur: "to_object (m_data m1 ! nat ?n) = v"
    using eff by (simp add: to_object_def)
  have fo: "finished_object dl fin ?obj ?M =
              Inr (?M\<lparr>m_attached := m_attached m, m_data := m_data m @ [JObj (rp_data fin)]\<rparr>, [DataChanged ?n []])"
    unfolding finished_object_def
    using ne fin(2,3,4,6) eff dref idx upd cur
    by (simp add: Let_def)
  have row: "?n \<noteq> FullModelReset" "?n \<noteq> IncrementalModelUpdate"
    by (simp_all add: FullModelReset_def IncrementalModelUpdate_def)
  have dc: "map_of (m_data_changed m1) r = Some (?n, ?obj)" using pend by (rule conjunct2)
  have fr: "finished_request dl fin m1 =
      Inr (?M\<lparr>m_attached := m_attached m, m_data := m_data m @ [JObj (rp_data fin)]\<rparr>,
           (if \<not> is_null (fst (obj_index ''message'' (rp_data fin)))
            then [MWarning (BackendMessage (to_string (obj_value ''message'' (rp_data fin))))] else [])
           @ [DataChanged ?n []])"
    using row fo by (simp add: finished_request_def fin(1) dc Let_def)
  show ?thesis
    using fr nc by (simp add: data_private_def)
qed


theorem append_then_created_witness:
  "\<exists>m1 evs1 m2 evs2.
     model_append ''1'' [(''title'', JStr ''x'')]
       (init_model\<lparr>m_enginio := Some \<lparr>cl_id = 1, cl_backend_id = ''b'', cl_backend_secret = ''s''\<rparr>,
                   m_data := [JObj [(''id'', JStr ''a'')]]\<rparr>) = Inr (Some 0, m1, evs1)
     \<and> model_step (\<lambda>_ _. False)
         (OpFinished \<lparr>rp_id = 0, rp_data = [(''id'', JStr ''srv1''), (''updatedAt'', JStr ''2013'')],
                      rp_backend_status = 201, rp_network_error = False\<rparr>) m1 = Inr (m2, evs2)
     \<and> m_data m2 = [JObj [(''id'', JStr ''a'')], JObj [(''id'', JStr ''srv1''), (''updatedAt'', JStr ''2013'')]]
     \<and> m_attached m2 = []
     \<and> data_private 1 SyncedRole m2 = Some (JBool True)
     \<and> last evs2 = DataChanged 1 []"
proof -
  define M where "M = init_model\<lparr>m_enginio := Some \<lparr>cl_id = 1, cl_backend_id = ''b'', cl_backend_secret = ''s''\<rparr>,
                   m_data := [JObj [(''id'', JStr ''a'')]]\<rparr>"
  define F where "F = \<lparr>rp_id = 0, rp_data = [(''id'', JStr ''srv1''), (''updatedAt'', JStr ''2013'')],
                      rp_backend_status = 201, rp_network_error = False\<rparr>"
  have "\<exists>m1 evs1. model_append ''1'' [(''title'', JStr ''x'')] M = Inr (Some 0, m1, evs1)"
    by (simp add: M_def model_append_def append_private_def send_request_def init_model_def Let_def
        obj_index_def split: prod.splits)
  then obtain m1 evs1 where a: "model_append ''1'' [(''title'', JStr ''x'')] M = Inr (Some 0, m1, evs1)"
    by blast
  have inv: "cache_inv M" by (simp add: M_def cache_inv_def init_model_def rows_valid_def)
  have "\<exists>m2 evs2. model_step (\<lambda>_ _. False) (OpFinished F) m1 = Inr (m2, evs2)
           \<and> m_data m2 = m_data M @ [JObj (rp_data F)] \<and> m_attached m2 = m_attached M
           \<and> data_private (int (length (m_data M))) SyncedRole m2 = Some (JBool True)
           \<and> last evs2 = DataChanged (int (length (m_data M))) []"
    using append_then_created[OF inv _ _ a, of F "JStr ''2013''" "\<lambda>_ _. False"]
    by (simp add: M_def F_def init_model_def)
  then show ?thesis using a by (simp add: M_def F_def init_model_def)
qed

lemma run_pendings_create_failed:
  "rp_network_error fin \<Longrightarrow>
   run_pendings ps fin m =
     Inr (m, map (\<lambda>p. case p of
                   PendingRemove r _ _ \<Rightarrow> MarkedAsError r ''Dependent create query failed, so object coudl not be removed''
                 | PendingSetData r _ _ _ _ \<Rightarrow> MarkedAsError r ''Dependent create query failed, so object coudl not be updated'') ps)"
proof (induction ps)
  case (Cons p ps)
  then show ?case by (cases p) (simp_all add: swap_for_remove_def swap_for_set_data_def)
qed simp

lemma sync_roles_Pair_conf:
  "sync_roles m = (m', evs) \<Longrightarrow>
   m_pending m' = m_pending m \<and> m_enginio m' = m_enginio m \<and> m_operation m' = m_operation m"
  using sync_roles_frame[of m] by simp

lemma append_private_frame:
  "append_private uuid v m = Inr (r, m', evs) \<Longrightarrow>
   m_pending m' = m_pending m \<and> m_enginio m' = m_enginio m \<and> m_operation m' = m_operation m"
  by (auto simp: append_private_def send_request_def Let_def dest!: sync_roles_Pair_conf
      split: if_splits prod.splits)

text \<open>C35.  A failed create request fails every operation that waited for it: when the
  create reply has a network error, each \<open>SwapNetworkReplyForRemove\<close> and
  \<open>SwapNetworkReplyForSetData\<close> connected to it marks the reply it handed out as an
  error, in connection order, and nothing else of the model changes.\<close>

theorem create_failed_marks_pending:
  assumes "rp_network_error fin"
  shows "model_step dl (OpCreateFinished fin) m =
    Inr (m\<lparr>m_pending := filter (\<lambda>p. fst p \<noteq> rp_id fin) (m_pending m)\<rparr>,
         map (\<lambda>(_, p). case p of
                PendingRemove r _ _ \<Rightarrow> MarkedAsError r ''Dependent create query failed, so object coudl not be removed''
              | PendingSetData r _ _ _ _ \<Rightarrow> MarkedAsError r ''Dependent create query failed, so object coudl not be updated'')
             (filter (\<lambda>p. fst p = rp_id fin) (m_pending m)))"
  using run_pendings_create_failed[OF assms] by (simp add: create_reply_finished_def case_prod_beta' comp_def)

theorem create_failed_marks_pending_witness:
  "model_step (\<lambda>_ _. False) (OpCreateFinished \<lparr>rp_id = 0, rp_data = [], rp_backend_status = 0, rp_network_error = True\<rparr>)
     (init_model\<lparr>m_pending := [(0, PendingRemove 1 [] ''tmp1''), (3, PendingRemove 4 [] ''tmp2''), (0, PendingSetData 2 [] ''tmp1'' JNull 300)]\<rparr>) =
   Inr (init_model\<lparr>m_pending := [(3, PendingRemove 4 [] ''tmp2'')]\<rparr>,
        [MarkedAsError 1 ''Dependent create query failed, so object coudl not be removed'',
         MarkedAsError 2 ''Dependent create query failed, so object coudl not be updated''])"
  using create_failed_marks_pending[of "\<lparr>rp_id = 0, rp_data = [], rp_backend_status = 0, rp_network_error = True\<rparr>"
      "\<lambda>_ _. False" "init_model\<lparr>m_pending := [(0, PendingRemove 1 [] ''tmp1''), (3, PendingRemove 4 [] ''tmp2''), (0, PendingSetData 2 [] ''tmp1'' JNull 300)]\<rparr>"]
  by simp

text \<open>C36.  A \<open>setData\<close> on a row whose create request is still running is sent
  when the create reply arrives: the row's temporary id is released, the row becomes the
  object captured at \<open>setData\<close> time with the backend's id and the new value, and the
  reply the caller holds takes over the bookkeeping of the real update request.\<close>

theorem delayed_set_data_runs:
  assumes pend: "m_pending m = [(rp_id fin, PendingSetData r obj tmpId v role)]"
    and ok: "\<not> rp_network_error fin"
    and d: "deref tmpId (m_attached m) = (d, att)"
    and row: "0 \<le> att_row d" "att_row d < int (length (m_data m))"
    and cl: "m_enginio m \<noteq> None"
  shows "\<exists>m' evs. model_step dl (OpCreateFinished fin) m = Inr (m', evs)
     \<and> m_pending m' = []
     \<and> m_data m' ! nat (att_row d) =
         JObj (snd (obj_index ''objectType''
           (obj_insert (role_name role m) v (obj_insert ''id'' (JStr (to_string (obj_value ''id'' (rp_data fin)))) obj))))
     \<and> map_of (m_data_changed m') r =
         Some (att_row d, obj_insert ''id'' (JStr (to_string (obj_value ''id'' (rp_data fin)))) obj)
     \<and> last evs = ReplySwapped r (m_next_reply m)"
  using pend ok d row cl
  by (auto simp: create_reply_finished_def swap_for_set_data_def set_data_now_def Let_def
      send_request_def json_replace_def swap_network_reply_def role_name_def update_conv'
      split: prod.splits)

theorem delayed_set_data_runs_witness:
  "\<exists>m' evs. model_step (\<lambda>_ _. False) (OpCreateFinished \<lparr>rp_id = 0, rp_data = [(''id'', JStr ''srv1'')], rp_backend_status = 201, rp_network_error = False\<rparr>)
       (init_model\<lparr>m_enginio := Some \<lparr>cl_id = 1, cl_backend_id = ''b'', cl_backend_secret = ''s''\<rparr>,
                   m_roles := [(300, ''title'')], m_data := [JObj [(''title'', JStr ''x'')]], m_next_reply := 5,
                   m_attached := [(''tmp1'', \<lparr>att_ref = 2, att_row = 0, att_create_reply = Some 0\<rparr>)],
                   m_pending := [(0, PendingSetData 1 [(''title'', JStr ''x'')] ''tmp1'' (JStr ''y'') 300)]\<rparr>) = Inr (m', evs)
     \<and> m_pending m' = []
     \<and> m_data m' ! 0 = JObj [(''id'', JStr ''srv1''), (''objectType'', JNull), (''title'', JStr ''y'')]
     \<and> map_of (m_data_changed m') 1 = Some (0, [(''id'', JStr ''srv1''), (''title'', JStr ''x'')])
     \<and> last evs = ReplySwapped 1 5"
proof -
  define M where "M = init_model\<lparr>m_enginio := Some \<lparr>cl_id = 1, cl_backend_id = ''b'', cl_backend_secret = ''s''\<rparr>,
                   m_roles := [(300, ''title'')], m_data := [JObj [(''title'', JStr ''x'')]], m_next_reply := 5,
                   m_attached := [(''tmp1'', \<lparr>att_ref = 2, att_row = 0, att_create_reply = Some 0\<rparr>)],
                   m_pending := [(0, PendingSetData 1 [(''title'', JStr ''x'')] ''tmp1'' (JStr ''y'') 300)]\<rparr>"
  define F where "F = \<lparr>rp_id = 0, rp_data = [(''id'', JStr ''srv1'')], rp_backend_status = 201, rp_network_error = False\<rparr>"
  have d: "deref ''tmp1'' (m_attached M) = (\<lparr>att_ref = 1, att_row = 0, att_create_reply = Some 0\<rparr>,
             [(''tmp1'', \<lparr>att_ref = 1, att_row = 0, att_create_reply = Some 0\<rparr>)])"
    by (simp add: M_def init_model_def deref_def lookup_or_default_def Let_def)
  have "\<exists>m' evs. model_step (\<lambda>_ _. False) (OpCreateFinished F) M = Inr (m', evs)
     \<and> m_pending m' = []
     \<and> m_data m' ! nat 0 =
         JObj (snd (obj_index ''objectType''
           (obj_insert (role_name 300 M) (JStr ''y'') (obj_insert ''id'' (JStr (to_string (obj_value ''id'' (rp_data F)))) [(''title'', JStr ''x'')]))))
     \<and> map_of (m_data_changed m') 1 =
         Some (0, obj_insert ''id'' (JStr (to_string (obj_value ''id'' (rp_data F)))) [(''title'', JStr ''x'')])
     \<and> last evs = ReplySwapped 1 (m_next_reply M)"
    using delayed_set_data_runs[where fin = F, OF _ _ d] by (simp add: M_def F_def init_model_def)
  then show ?thesis
    by (simp add: M_def F_def init_model_def role_name_def obj_insert_def obj_index_def obj_value_def)
qed

text \<open>C37.  \<open>append\<close> stores the caller's value as the row, not the object it sends
  with the query's \<open>objectType\<close>.  A \<open>remove\<close> of that row before the create reply
  arrives is therefore sent, once the reply arrives, for an object with no
  \<open>objectType\<close>, whenever the appended value had none.\<close>

theorem delayed_remove_sends_no_object_type:
  assumes inv: "cache_inv m" and np: "m_pending m = []"
    and fresh: "map_of (m_attached m) (''tmp'' @ uuid) = None"
    and noid: "map_of v ''id'' = None" and notype: "map_of v ''objectType'' = None"
    and app: "model_append uuid v m = Inr (Some c, m1, evs1)"
    and rem: "model_remove (int (length (m_data m))) m1 = Inr (Some r, m2, evs2)"
    and fin: "rp_id fin = c" "\<not> rp_network_error fin"
  shows "\<exists>m3 evs3 ob e. model_step dl (OpCreateFinished fin) m2 = Inr (m3, evs3)
           \<and> Request RemoveRequest ob (m_operation m) e \<in> set evs3
           \<and> map_of ob ''objectType'' = None"
proof -
  let ?n = "int (length (m_data m))"
  let ?tmp = "''tmp'' @ uuid"
  let ?D = "\<lparr>att_ref = 1, att_row = ?n, att_create_reply = Some c\<rparr>"
  from app have cl: "m_enginio m \<noteq> None" and ap: "append_private uuid v m = Inr (c, m1, evs1)"
    by (auto simp: model_append_def split: if_splits sum.splits prod.splits)
  note eff = append_private_effect[OF ap] and pend = append_private_pending[OF ap]
    and fr = append_private_frame[OF ap]
  have att1: "m_attached m1 = m_attached m @ [(?tmp, ?D)]"
    using eff fresh by (simp add: update_fresh)
  have nc: "\<not> contains_row ?n (m_attached m)"
    using inv rows_valid_not_contains by (simp add: cache_inv_def row_count_def)
  have c: "c = m_next_reply m" using pend by (rule conjunct1)
  have dc: "map_of (m_data_changed m1) c = Some (?n, obj_insert ''id'' (JStr ?tmp)
      (obj_insert ''objectType'' (fst (obj_index ''objectType'' (m_query m))) v))"
    using pend by (rule conjunct2)
  have tmpid: "to_string (obj_value ''id'' (snd (the (map_of (m_data_changed m1) c)))) = ?tmp"
    by (simp add: dc obj_value_def obj_insert_def)
  have roi: "row_object_id ?n m1 = ([], obj_upd ''id'' JNull v)"
    using eff noid by (simp add: row_object_id_def json_at_def to_object_def obj_index_def to_string_def)
  have rr: "ref_row ?n (m_attached m1) = Some (?D\<lparr>att_ref := 2\<rparr>, m_attached m @ [(?tmp, ?D\<lparr>att_ref := 2\<rparr>)])"
    using ref_row_snoc[OF nc, of ?D ?tmp] att1 by simp
  have m2: "m_pending m2 = [(c, PendingRemove (m_next_reply m1) (obj_upd ''id'' JNull v) ?tmp)]
      \<and> m_attached m2 = m_attached m @ [(?tmp, ?D\<lparr>att_ref := 2\<rparr>)]
      \<and> m_enginio m2 = m_enginio m \<and> m_operation m2 = m_operation m"
    using rem cl fr np eff roi rr tmpid dc
    by (auto simp: model_remove_def row_count_def remove_private_def remove_delayed_def
        delayed_operation_def Let_def split: if_splits sum.splits prod.splits option.splits)
  show ?thesis
    using m2 fin cl fresh notype
    by (auto simp: create_reply_finished_def swap_for_remove_def deref_def lookup_or_default_snoc
        delete_snoc_fresh remove_now_def send_request_def Let_def map_of_obj_insert_other
        split: prod.splits)
qed

theorem delayed_remove_sends_no_object_type_witness:
  "\<exists>m1 evs1 m2 evs2 m3 evs3 ob e.
     model_append ''1'' [(''title'', JStr ''x'')]
       (init_model\<lparr>m_enginio := Some \<lparr>cl_id = 1, cl_backend_id = ''b'', cl_backend_secret = ''s''\<rparr>,
                   m_data := [JObj [(''id'', JStr ''a'')]]\<rparr>) = Inr (Some 0, m1, evs1)
     \<and> model_remove 1 m1 = Inr (Some 1, m2, evs2)
     \<and> model_step (\<lambda>_ _. False) (OpCreateFinished \<lparr>rp_id = 0, rp_data = [(''id'', JStr ''srv1'')], rp_backend_status = 201, rp_network_error = False\<rparr>) m2 = Inr (m3, evs3)
     \<and> Request RemoveRequest ob 0 e \<in> set evs3 \<and> map_of ob ''objectType'' = None"
proof -
  define M where "M = init_model\<lparr>m_enginio := Some \<lparr>cl_id = 1, cl_backend_id = ''b'', cl_backend_secret = ''s''\<rparr>,
                   m_data := [JObj [(''id'', JStr ''a'')]]\<rparr>"
  define F where "F = \<lparr>rp_id = 0, rp_data = [(''id'', JStr ''srv1'')], rp_backend_status = 201, rp_network_error = False\<rparr>"
  have "\<exists>m1 evs1 m2 evs2. model_append ''1'' [(''title'', JStr ''x'')] M = Inr (Some 0, m1, evs1)
           \<and> model_remove 1 m1 = Inr (Some 1, m2, evs2)"
    by (simp add: M_def model_append_def append_private_def send_request_def init_model_def Let_def
        obj_index_def model_remove_def row_count_def remove_private_def row_object_id_def
        json_at_def to_object_def to_string_def remove_delayed_def delayed_operation_def obj_insert_def
        obj_value_def)
  then obtain m1 evs1 m2 evs2 where a: "model_append ''1'' [(''title'', JStr ''x'')] M = Inr (Some 0, m1, evs1)"
    and r: "model_remove 1 m1 = Inr (Some 1, m2, evs2)" by blast
  have inv: "cache_inv M" by (simp add: M_def cache_inv_def init_model_def rows_valid_def)
  have "\<exists>m3 evs3 ob e. model_step (\<lambda>_ _. False) (OpCreateFinished F) m2 = Inr (m3, evs3)
           \<and> Request RemoveRequest ob (m_operation M) e \<in> set evs3 \<and> map_of ob ''objectType'' = None"
    using delayed_remove_sends_no_object_type[where fin = F and dl = "\<lambda>_ _. False", OF inv _ _ _ _ a] r
    by (simp add: M_def F_def init_model_def)
  then show ?thesis using a r by (simp add: M_def F_def init_model_def)
qed

text \<open>C38.  A \<open>setData\<close> on a row whose create request is still running sends nothing
  yet: the row's data is unchanged, the caller gets a dummy reply tied to the create
  reply, the row's attached entry gains a reference, and the update waits in
  \<open>m_pending\<close> for that create reply with the row's object and its temporary id.\<close>

theorem set_data_waits_for_create:
  assumes row: "row < row_count m"
    and noid: "row_object_id row m = ([], ob)"
    and rr: "ref_row row (m_attached m) = Some (d, att)"
    and cr: "att_create_reply d = Some cr"
    and role: "SyncedRole < role"
  shows "model_step dl (OpSetData row v role) m =
     Inr (m\<lparr>m_attached := att, m_next_reply := Suc (m_next_reply m),
            m_pending := m_pending m @
              [(cr, PendingSetData (m_next_reply m) ob
                      (to_string (obj_value ''id'' (case map_of (m_data_changed m) cr of Some (_, ob') \<Rightarrow> ob' | None \<Rightarrow> [])))
                      v role)]\<rparr>,
          [DummyReply (m_next_reply m) cr])"
  using row noid rr cr role
  by (simp add: model_set_data_def set_data_private_def set_data_delayed_def delayed_operation_def Let_def)

theorem set_data_waits_for_create_witness:
  "model_step (\<lambda>_ _. False) (OpSetData 0 (JStr ''y'') 300)
     (init_model\<lparr>m_data := [JObj [(''title'', JStr ''x'')]], m_next_reply := 1,
                 m_attached := [(''tmp1'', \<lparr>att_ref = 1, att_row = 0, att_create_reply = Some 0\<rparr>)],
                 m_data_changed := [(0, (0, [(''id'', JStr ''tmp1''), (''title'', JStr ''x'')]))]\<rparr>) =
   Inr (init_model\<lparr>m_data := [JObj [(''title'', JStr ''x'')]], m_next_reply := 2,
                 m_attached := [(''tmp1'', \<lparr>att_ref = 2, att_row = 0, att_create_reply = Some 0\<rparr>)],
                 m_data_changed := [(0, (0, [(''id'', JStr ''tmp1''), (''title'', JStr ''x'')]))],
                 m_pending := [(0, PendingSetData 1 [(''id'', JNull), (''title'', JStr ''x'')] ''tmp1'' (JStr ''y'') 300)]\<rparr>,
        [DummyReply 1 0])"
  using set_data_waits_for_create[of 0
      "init_model\<lparr>m_data := [JObj [(''title'', JStr ''x'')]], m_next_reply := 1,
                 m_attached := [(''tmp1'', \<lparr>att_ref = 1, att_row = 0, att_create_reply = Some 0\<rparr>)],
                 m_data_changed := [(0, (0, [(''id'', JStr ''tmp1''), (''title'', JStr ''x'')]))]\<rparr>"
      "[(''id'', JNull), (''title'', JStr ''x'')]" "\<lparr>att_ref = 2, att_row = 0, att_create_reply = Some 0\<rparr>"
      "[(''tmp1'', \<lparr>att_ref = 2, att_row = 0, att_create_reply = Some 0\<rparr>)]" 0 300 "\<lambda>_ _. False" "JStr ''y''"]
  by (simp add: init_model_def row_count_def row_object_id_def json_at_def to_object_def obj_index_def
      to_string_def role_defs obj_value_def Let_def)

end
