(* ===== verification/Controller.thy ===== *)
theory Controller
  imports Decoder Json
begin

text \<open>
  The connection controller of \<open>src/src/enginio_client/enginiobackendconnection.cpp\<close>
  (lines 112--193 and 306--352): the slots that are not the frame decoder
  (\<open>connectToBackend\<close>, \<open>setServiceUrl\<close>, \<open>onEnginioFinished\<close>, \<open>onEnginioError\<close>,
  \<open>onSocketConnectionError\<close>, \<open>onSocketStateChanged\<close>), the part of \<open>QTcpSocket\<close> they
  drive (\<open>connectToHost\<close>), and the step relation of the whole connection: every
  signal the controller receives is an input, the socket's state changes follow Qt's
  state machine, and \<open>reachable\<close> holds of the states a run from the constructor reaches.
\<close>

subsection \<open>State\<close>

text \<open>The parts of the owned \<open>EnginioClient\<close> the controller sets and reads.\<close>

record client_conf =
  service_url :: qurl
  backend_id :: string
  backend_secret :: string

record ctrl =
  ctl_conn :: conn
  ctl_client :: client_conf

text \<open>The constructor; the client's service URL is its default, a parameter here.\<close>

definition init_ctrl :: "qurl \<Rightarrow> ctrl" where
  "init_ctrl u = \<lparr>ctl_conn = init_conn,
                  ctl_client = \<lparr>service_url = u, backend_id = [], backend_secret = []\<rparr>\<rparr>"

subsection \<open>Slots\<close>

definition set_service_url :: "qurl \<Rightarrow> ctrl \<Rightarrow> ctrl \<times> event list" where
  "set_service_url u s = (s\<lparr>ctl_client := (ctl_client s)\<lparr>service_url := u\<rparr>\<rparr>, [])"

text \<open>\<open>connectToBackend\<close>: \<open>messageFilter\<close> is the compact JSON text of the message filter
  (\<open>QJsonDocument::toJson\<close> is not modelled).\<close>

definition connect_to_backend :: "string \<Rightarrow> string \<Rightarrow> string \<Rightarrow> ctrl \<Rightarrow> ctrl \<times> event list" where
  "connect_to_backend backendId backendSecret messageFilter s =
     (let cl = (ctl_client s)\<lparr>backend_id := backendId, backend_secret := backendSecret\<rparr>;
          url = (service_url cl)\<lparr>url_path := ''/v1/stream_url'', url_query := ''filter='' @ messageFilter\<rparr>
      in (s\<lparr>ctl_client := cl\<rparr>, [StateChanged ConnectingState, StreamUrlRequest url]))"

text \<open>\<open>QAbstractSocket::connectToHost\<close>: from \<open>UnconnectedState\<close> the buffers are
  cleared and the socket enters \<open>HostLookupState\<close> (whose \<open>stateChanged\<close> the controller
  ignores); in any other state the call sets \<open>OperationError\<close> and emits \<open>error()\<close>
  (\<open>Trying to connect while connection is in progress\<close>), the third component.\<close>

definition socket_connect_to_host :: "string \<Rightarrow> nat \<Rightarrow> conn \<Rightarrow> conn \<times> event list \<times> bool" where
  "socket_connect_to_host host port c =
     (if sock_state c = SockUnconnected
      then (c\<lparr>socket_buffer := [], sock_state := SockHostLookup\<rparr>, [ConnectToHost host port], False)
      else (c, [], True))"

definition on_socket_connection_error :: "ctrl \<Rightarrow> ctrl \<times> event list" where
  "on_socket_connection_error s =
     (let (c, evs) = protocol_error SocketConnectionError (ctl_conn s) in (s\<lparr>ctl_conn := c\<rparr>, evs))"

text \<open>\<open>onEnginioFinished\<close>: \<open>url_of\<close> is \<open>QUrl\<close>'s parser.  The socket's \<open>error\<close>
  signal is connected directly (line 128), so an error \<open>connectToHost\<close> emits runs
  \<open>onSocketConnectionError\<close> before the call returns.\<close>

definition on_enginio_finished :: "(string \<Rightarrow> qurl) \<Rightarrow> jobject \<Rightarrow> ctrl \<Rightarrow> ctrl \<times> event list" where
  "on_enginio_finished url_of d s =
     (case obj_value ''expiringUrl'' d of
        JStr u \<Rightarrow>
          (let url = url_of u;
               c = (ctl_conn s)\<lparr>socket_url := url\<rparr>;
               (c', evs, err) = socket_connect_to_host (url_host url) (port_or 8080 url) c;
               s' = s\<lparr>ctl_conn := c'\<rparr>
           in if err then (case on_socket_connection_error s' of (s'', evs') \<Rightarrow> (s'', evs @ evs'))
              else (s', evs))
      | _ \<Rightarrow> (s, []))"

text \<open>\<open>onEnginioError\<close> only prints debug output.\<close>

definition on_enginio_error :: "ctrl \<Rightarrow> ctrl \<times> event list" where
  "on_enginio_error s = (s, [])"

subsection \<open>Inputs and the step function\<close>

text \<open>What can happen to a connection: a call of a public method, a reply of the client,
  a signal of the socket.  \<open>SocketState st uuid\<close> is the socket entering \<open>st\<close>; \<open>uuid\<close> is
  the text \<open>QUuid::createUuid\<close> gives if the slot builds a handshake.  \<open>SocketData bs\<close> is
  a \<open>readyRead\<close> with the bytes \<open>bs\<close> newly in the socket's buffer.\<close>

datatype ctrl_input =
    SetServiceUrl qurl
  | ConnectToBackend string string string
  | EnginioFinished jobject
  | EnginioError
  | SocketState socket_state string
  | SocketError
  | SocketData "byte list"

definition with_conn :: "(conn \<Rightarrow> conn \<times> event list) \<Rightarrow> ctrl \<Rightarrow> ctrl \<times> event list" where
  "with_conn f s = (let (c, evs) = f (ctl_conn s) in (s\<lparr>ctl_conn := c\<rparr>, evs))"

fun ctrl_step ::
  "(byte list \<Rightarrow> byte list) \<Rightarrow> (string \<Rightarrow> qurl) \<Rightarrow> ctrl_input \<Rightarrow> ctrl \<Rightarrow> ctrl \<times> event list" where
  "ctrl_step sha1 url_of (SetServiceUrl u) s = set_service_url u s"
| "ctrl_step sha1 url_of (ConnectToBackend i k flt) s = connect_to_backend i k flt s"
| "ctrl_step sha1 url_of (EnginioFinished d) s = on_enginio_finished url_of d s"
| "ctrl_step sha1 url_of EnginioError s = on_enginio_error s"
| "ctrl_step sha1 url_of (SocketState st uuid) s =
     with_conn (\<lambda>c. on_socket_state_changed sha1 uuid st (c\<lparr>sock_state := st\<rparr>)) s"
| "ctrl_step sha1 url_of SocketError s = on_socket_connection_error s"
| "ctrl_step sha1 url_of (SocketData bs) s = with_conn (deliver bs) s"

text \<open>The transitions of \<open>QAbstractSocket\<close>'s state machine after \<open>connectToHost\<close>.\<close>

fun socket_transition :: "socket_state \<Rightarrow> socket_state \<Rightarrow> bool" where
  "socket_transition SockHostLookup st = (st = SockConnecting \<or> st = SockUnconnected)"
| "socket_transition SockConnecting st = (st = SockConnected \<or> st = SockUnconnected)"
| "socket_transition SockConnected st = (st = SockClosing \<or> st = SockUnconnected)"
| "socket_transition SockClosing st = (st = SockUnconnected)"
| "socket_transition SockUnconnected st = False"

text \<open>When the environment can produce an input: the socket changes state along its
  machine, reports errors only when not unconnected, and delivers bytes only when
  connected.\<close>

fun input_enabled :: "ctrl \<Rightarrow> ctrl_input \<Rightarrow> bool" where
  "input_enabled s (SocketState st uuid) = socket_transition (sock_state (ctl_conn s)) st"
| "input_enabled s SocketError = (sock_state (ctl_conn s) \<noteq> SockUnconnected)"
| "input_enabled s (SocketData bs) = (sock_state (ctl_conn s) = SockConnected)"
| "input_enabled s i = True"

inductive reachable :: "(byte list \<Rightarrow> byte list) \<Rightarrow> (string \<Rightarrow> qurl) \<Rightarrow> ctrl \<Rightarrow> bool"
  for sha1 url_of where
  init: "reachable sha1 url_of (init_ctrl u)"
| step: "reachable sha1 url_of s \<Longrightarrow> input_enabled s i \<Longrightarrow>
         reachable sha1 url_of (fst (ctrl_step sha1 url_of i s))"

text \<open>A run: the inputs in order, each enabled where it happens, and the events.\<close>

fun ctrl_run ::
  "(byte list \<Rightarrow> byte list) \<Rightarrow> (string \<Rightarrow> qurl) \<Rightarrow> ctrl_input list \<Rightarrow> ctrl \<Rightarrow> (ctrl \<times> event list) option" where
  "ctrl_run sha1 url_of [] s = Some (s, [])"
| "ctrl_run sha1 url_of (i # is) s =
     (if input_enabled s i
      then (case ctrl_step sha1 url_of i s of
              (s', evs) \<Rightarrow> map_option (\<lambda>(s'', evs'). (s'', evs @ evs')) (ctrl_run sha1 url_of is s'))
      else None)"

text \<open>The number of iterations of the \<open>while (bytesAvailable())\<close> loop of
  \<open>onSocketReadyRead\<close>: one per executed pass, the recursion of
  \<open>on_socket_ready_read\<close>.\<close>

function ready_read_passes :: "conn \<Rightarrow> nat" where
  "ready_read_passes c =
     (if socket_buffer c = [] then 0
      else case decode_pass c of
             Return c' evs \<Rightarrow> 1
           | Continue c' evs \<Rightarrow> Suc (ready_read_passes c'))"
  by pat_completeness auto
termination
proof (relation "measure loop_measure", goal_cases)
  case 1
  show ?case by simp
next
  case (2 c c' evs)
  then show ?case
    by (cases "protocol_decode_state c")
       (auto simp: decode_pass_def handshake_pass_def frame_header_pass_def payload_data_pass_def
          loop_measure_def protocol_error_eq Let_def split: if_splits)
qed

declare ready_read_passes.simps [simp del]

text \<open>The state invariant: the pending length fits the 16-bit field it was read from,
  and the decoder is past the handshake only while the socket is open.\<close>

definition conn_ok :: "conn \<Rightarrow> bool" where
  "conn_ok c \<longleftrightarrow> payload_length c < 65536
     \<and> (protocol_decode_state c = HandshakePending \<or> sock_state c = SockConnected \<or> sock_state c = SockClosing)"

subsection \<open>The read loop\<close>

lemma decode_pass_variant:
  assumes "socket_buffer c \<noteq> []" and "decode_pass c = Continue c' evs"
  shows "loop_measure c' < loop_measure c"
  using assms
  by (cases "protocol_decode_state c")
     (auto simp: decode_pass_def handshake_pass_def frame_header_pass_def payload_data_pass_def
        loop_measure_def protocol_error_eq Let_def split: if_splits pass.splits)

subsection \<open>The connection invariant\<close>

lemma unat_byte_lt: "unat (b::byte) < 65536"
proof -
  have "unat b < 2 ^ LENGTH(8)" by (rule unsigned_less)
  then show ?thesis by simp
qed

lemma decode_pass_ok:
  assumes "decode_pass c = Continue c' evs \<or> decode_pass c = Return c' evs"
    and "conn_ok c" and "sock_state c = SockConnected"
  shows "conn_ok c' \<and> (sock_state c' = SockConnected \<or> socket_buffer c' = [])"
  using assms
  by (cases "protocol_decode_state c")
     (auto simp: decode_pass_def handshake_pass_def frame_header_pass_def payload_data_pass_def
        protocol_error_eq conn_ok_def Let_def unat_byte_lt
        split: if_splits pass.splits)

lemma ready_read_ok:
  "sock_state c = SockConnected \<or> socket_buffer c = [] \<Longrightarrow> conn_ok c \<Longrightarrow>
   conn_ok (fst (on_socket_ready_read c))"
proof (induction c rule: on_socket_ready_read.induct)
  case (1 c)
  show ?case
  proof (cases "socket_buffer c = []")
    case True
    then show ?thesis using "1.prems" by (simp add: ready_read_Nil)
  next
    case ne: False
    with "1.prems" have con: "sock_state c = SockConnected" by simp
    show ?thesis
    proof (cases "decode_pass c")
      case (Return c' evs)
      then show ?thesis using ready_read_Return[OF ne Return] decode_pass_ok[of c c' evs] "1.prems" con
        by simp
    next
      case (Continue c' evs)
      then have "conn_ok c' \<and> (sock_state c' = SockConnected \<or> socket_buffer c' = [])"
        using decode_pass_ok[of c c' evs] "1.prems" con by simp
      then show ?thesis using ready_read_Continue[OF ne Continue] "1.IH"[OF ne Continue]
        by (simp split: prod.splits)
    qed
  qed
qed

lemma with_conn_fst [simp]: "ctl_conn (fst (with_conn f s)) = fst (f (ctl_conn s))"
  by (simp add: with_conn_def split: prod.splits)

lemma with_conn_snd [simp]: "snd (with_conn f s) = snd (f (ctl_conn s))"
  by (simp add: with_conn_def split: prod.splits)

lemma ctrl_step_ok:
  assumes "conn_ok (ctl_conn s)" and "input_enabled s i"
  shows "conn_ok (ctl_conn (fst (ctrl_step sha1 url_of i s)))"
proof (cases i)
  case (SocketData bs)
  then show ?thesis using assms ready_read_ok[of "(ctl_conn s)\<lparr>socket_buffer := socket_buffer (ctl_conn s) @ bs\<rparr>"]
    by (simp add: deliver_def conn_ok_def)
next
  case (SocketState st uuid)
  then show ?thesis using assms
    by (cases "sock_state (ctl_conn s)"; cases st)
       (auto simp: on_socket_state_changed_def on_socket_connected_def on_socket_unconnected_def
          conn_ok_def split: prod.splits)
next
  case (EnginioFinished d)
  then show ?thesis using assms
    by (auto simp: on_enginio_finished_def socket_connect_to_host_def conn_ok_def Let_def
          on_socket_connection_error_def protocol_error_eq split: json.splits prod.splits)
qed (use assms in \<open>auto simp: set_service_url_def connect_to_backend_def on_enginio_error_def
       on_socket_connection_error_def protocol_error_eq conn_ok_def Let_def split: prod.splits\<close>)

subsection \<open>When \<open>Connected\<close> is announced\<close>

lemma decode_pass_not_connected:
  assumes "decode_pass c = Continue c' evs \<or> decode_pass c = Return c' evs"
    and "protocol_decode_state c \<noteq> HandshakePending"
  shows "StateChanged ConnectedState \<notin> set evs
         \<and> (protocol_decode_state c' \<noteq> HandshakePending \<or> socket_buffer c' = [])"
  using assms
  by (cases "protocol_decode_state c")
     (auto simp: decode_pass_def frame_header_pass_def payload_data_pass_def protocol_error_eq Let_def
        split: if_splits pass.splits)

lemma ready_read_not_connected:
  "protocol_decode_state c \<noteq> HandshakePending \<or> socket_buffer c = [] \<Longrightarrow>
   StateChanged ConnectedState \<notin> set (snd (on_socket_ready_read c))"
proof (induction c rule: on_socket_ready_read.induct)
  case (1 c)
  show ?case
  proof (cases "socket_buffer c = []")
    case True
    then show ?thesis by (simp add: ready_read_Nil)
  next
    case ne: False
    with "1.prems" have hs: "protocol_decode_state c \<noteq> HandshakePending" by simp
    show ?thesis
    proof (cases "decode_pass c")
      case (Return c' evs)
      then show ?thesis using ready_read_Return[OF ne Return] decode_pass_not_connected[OF _ hs] by simp
    next
      case (Continue c' evs)
      then have "StateChanged ConnectedState \<notin> set evs"
        and "protocol_decode_state c' \<noteq> HandshakePending \<or> socket_buffer c' = []"
        using decode_pass_not_connected[OF _ hs] by blast+
      then show ?thesis using ready_read_Continue[OF ne Continue] "1.IH"[OF ne Continue]
        by (simp split: prod.splits)
    qed
  qed
qed

lemma ready_read_handshake:
  assumes "protocol_decode_state c = HandshakePending" and "socket_buffer c \<noteq> []"
  shows "on_socket_ready_read c =
           (if handshake_accepted (verification_key c) (from_bytes (socket_buffer c))
            then (c\<lparr>socket_buffer := [], protocol_decode_state := FrameHeaderPending\<rparr>,
                  [StateChanged ConnectedState])
            else protocol_error HandshakeFailed (c\<lparr>socket_buffer := []\<rparr>))"
proof -
  have "decode_pass c =
          (if handshake_accepted (verification_key c) (from_bytes (socket_buffer c))
           then Return (c\<lparr>socket_buffer := [], protocol_decode_state := FrameHeaderPending\<rparr>)
                  [StateChanged ConnectedState]
           else (case protocol_error HandshakeFailed (c\<lparr>socket_buffer := []\<rparr>) of (c', evs) \<Rightarrow> Return c' evs))"
    using assms(1) by (simp add: decode_pass_def handshake_pass_def frame_header_pass_def Let_def)
  then show ?thesis using ready_read_Return[OF assms(2)] by (simp split: if_splits prod.splits)
qed

lemma deliver_connected_iff:
  "StateChanged ConnectedState \<in> set (snd (deliver bs c)) \<longleftrightarrow>
   protocol_decode_state c = HandshakePending \<and> socket_buffer c @ bs \<noteq> []
   \<and> handshake_accepted (verification_key c) (from_bytes (socket_buffer c @ bs))"
proof (cases "protocol_decode_state c = HandshakePending \<and> socket_buffer c @ bs \<noteq> []")
  case True
  then show ?thesis
    using ready_read_handshake[of "c\<lparr>socket_buffer := socket_buffer c @ bs\<rparr>"]
    by (simp add: deliver_def protocol_error_eq)
next
  case False
  then show ?thesis
    using ready_read_not_connected[of "c\<lparr>socket_buffer := socket_buffer c @ bs\<rparr>"]
    by (auto simp: deliver_def)
qed

subsection \<open>Runs\<close>

lemma deliver_header_wait:
  assumes "protocol_decode_state c = FrameHeaderPending" "payload_length c = 0" "socket_buffer c = []"
  shows "deliver [0x81, 0x05, 0x68] c =
           (c\<lparr>socket_buffer := [0x68], is_final_fragment := True, protocol_opcode := 1,
               is_payload_masked := False, payload_length := 5, protocol_decode_state := PayloadDataPending\<rparr>, [])"
  using assms
  by (simp add: deliver_def on_socket_ready_read.simps decode_pass_def frame_header_pass_def
      payload_data_pass_def Let_def wire_simps)

lemma deliver_stale_frame:
  assumes "protocol_decode_state c = FrameHeaderPending" "payload_length c = 5" "socket_buffer c = []"
  shows "snd (deliver [0x81, 0x02, 0x68, 0x69] c) = []"
  using assms
  by (simp add: deliver_def on_socket_ready_read.simps decode_pass_def frame_header_pass_def
      payload_data_pass_def Let_def wire_simps)

lemma reachable_run:
  "ctrl_run sha1 url_of is s = Some (s', evs) \<Longrightarrow> reachable sha1 url_of s \<Longrightarrow> reachable sha1 url_of s'"
proof (induction "is" arbitrary: s evs)
  case Nil
  then show ?case by simp
next
  case (Cons i "is")
  from Cons.prems(1) have en: "input_enabled s i" by (simp split: if_splits)
  obtain s1 evs1 where st: "ctrl_step sha1 url_of i s = (s1, evs1)" by fastforce
  with Cons.prems(1) en obtain evs2 where "ctrl_run sha1 url_of is s1 = Some (s', evs2)" by auto
  moreover have "reachable sha1 url_of s1"
    using reachable.step[OF Cons.prems(2) en] st by simp
  ultimately show ?case using Cons.IH by blast
qed

lemma generated_key_shape:
  assumes "\<forall>x. length (sha1 x) = 20"
  shows "length (snd (generate_unique_key sha1 uuid)) = 28"
    and "CHR 0x0A \<notin> set (snd (generate_unique_key sha1 uuid))"
  using verification_key_shape[OF assms] by (simp_all add: generate_unique_key_def Let_def)

lemma construct_key [simp]:
  "snd (construct_opening_handshake sha1 uuid url) = snd (generate_unique_key sha1 uuid)"
  by (simp add: construct_opening_handshake_def split: prod.splits)

lemma deliver_accept:
  assumes "protocol_decode_state c = HandshakePending" "socket_buffer c = []"
    "verification_key c = k" "length k = 28" "CHR 0x0A \<notin> set k"
  shows "deliver (to_bytes (accept_response k)) c =
           (c\<lparr>socket_buffer := [], protocol_decode_state := FrameHeaderPending\<rparr>, [StateChanged ConnectedState])"
proof -
  have "accept_response k \<noteq> []" by (simp add: accept_response_def)
  then show ?thesis
    using assms ready_read_handshake[of "c\<lparr>socket_buffer := to_bytes (accept_response k)\<rparr>"]
      accept_response_accepted[OF assms(4,5)]
    by (simp add: deliver_def comp_def)
qed

lemma stale_run:
  assumes "\<forall>x. length (sha1 x) = 20"
  defines "d \<equiv> [(''expiringUrl'', JStr ''ws://h'')]"
  defines "tr \<equiv> [EnginioFinished d, SocketState SockConnecting ''u'', SocketState SockConnected ''u'',
                  SocketData (to_bytes (accept_response (snd (generate_unique_key sha1 ''u''))))]"
  shows "\<exists>s evs. ctrl_run sha1 url_of (tr @ [SocketData [0x81, 0x05, 0x68], SocketState SockUnconnected ''u''] @ tr)
                 (init_ctrl u) = Some (s, evs)
           \<and> sock_state (ctl_conn s) = SockConnected \<and> protocol_decode_state (ctl_conn s) = FrameHeaderPending
           \<and> payload_length (ctl_conn s) = 5 \<and> socket_buffer (ctl_conn s) = []"
  using generated_key_shape[OF assms(1), of "''u''"]
  by (simp add: d_def tr_def init_ctrl_def init_conn_def on_enginio_finished_def obj_value_def
      socket_connect_to_host_def on_socket_state_changed_def on_socket_connected_def
      on_socket_unconnected_def with_conn_def deliver_accept deliver_header_wait Let_def split_def)

text \<open>C23.  In every reachable state of a connection the pending payload length fits the
  16-bit length field it was read from, and the decoder is past the handshake only while
  the socket is connected or closing.\<close>

theorem reachable_conn_invariant:
  assumes "reachable sha1 url_of s"
  shows "payload_length (ctl_conn s) < 65536
         \<and> (protocol_decode_state (ctl_conn s) = HandshakePending
            \<or> sock_state (ctl_conn s) \<in> {SockConnected, SockClosing})"
proof -
  from assms have "conn_ok (ctl_conn s)"
  proof (induction rule: reachable.induct)
    case (init u)
    then show ?case by (simp add: init_ctrl_def init_conn_def conn_ok_def)
  next
    case (step s i)
    then show ?case using ctrl_step_ok by blast
  qed
  then show ?thesis by (simp add: conn_ok_def)
qed

theorem reachable_conn_invariant_witness:
  "payload_length (ctl_conn (init_ctrl \<lparr>url_host = ''h'', url_port = None, url_path = [], url_query = []\<rparr>)) < 65536
   \<and> (protocol_decode_state (ctl_conn (init_ctrl \<lparr>url_host = ''h'', url_port = None, url_path = [], url_query = []\<rparr>)) = HandshakePending
      \<or> sock_state (ctl_conn (init_ctrl \<lparr>url_host = ''h'', url_port = None, url_path = [], url_query = []\<rparr>)) \<in> {SockConnected, SockClosing})"
  by (rule reachable_conn_invariant[of "\<lambda>_. []" "\<lambda>_. \<lparr>url_host = ''h'', url_port = None, url_path = [], url_query = []\<rparr>"])
     (rule reachable.init)

text \<open>C24.  A step of the connection announces \<open>Connected\<close> exactly when bytes arrive
  while the decoder waits for the handshake and the buffered response passes the
  handshake check: no other slot, and no later frame, emits it.\<close>

theorem connected_iff_handshake_accepted:
  "StateChanged ConnectedState \<in> set (snd (ctrl_step sha1 url_of i s)) \<longleftrightarrow>
   (\<exists>bs. i = SocketData bs \<and> protocol_decode_state (ctl_conn s) = HandshakePending
         \<and> socket_buffer (ctl_conn s) @ bs \<noteq> []
         \<and> handshake_accepted (verification_key (ctl_conn s)) (from_bytes (socket_buffer (ctl_conn s) @ bs)))"
proof (cases i)
  case (SocketData bs)
  then show ?thesis by (simp add: deliver_connected_iff)
next
  case (SocketState st uuid)
  then show ?thesis
    by (cases st) (simp_all add: on_socket_state_changed_def on_socket_connected_def
        on_socket_unconnected_def split: prod.splits)
next
  case (EnginioFinished d)
  then show ?thesis
    by (auto simp: on_enginio_finished_def socket_connect_to_host_def Let_def
          on_socket_connection_error_def protocol_error_eq split: json.splits prod.splits)
qed (simp_all add: set_service_url_def connect_to_backend_def on_enginio_error_def
       on_socket_connection_error_def protocol_error_eq Let_def split: prod.splits)

text \<open>C25.  After a reconnection the decoder keeps the payload length of a frame the
  previous connection left half-read: \<open>onSocketStateChanged\<close> resets only the decode
  state.  The first header of the new connection is then read as a 16-bit length, and
  a complete text frame is swallowed without any event.\<close>

theorem reconnect_keeps_stale_length:
  assumes "\<forall>x. length (sha1 x) = 20"
  shows "\<exists>s. reachable sha1 url_of s \<and> sock_state (ctl_conn s) = SockConnected
           \<and> protocol_decode_state (ctl_conn s) = FrameHeaderPending \<and> payload_length (ctl_conn s) = 5
           \<and> snd (ctrl_step sha1 url_of (SocketData [0x81, 0x02, 0x68, 0x69]) s) = []"
proof -
  obtain s evs u where run: "ctrl_run sha1 url_of
      ([EnginioFinished [(''expiringUrl'', JStr ''ws://h'')], SocketState SockConnecting ''u'',
        SocketState SockConnected ''u'', SocketData (to_bytes (accept_response (snd (generate_unique_key sha1 ''u''))))]
       @ [SocketData [0x81, 0x05, 0x68], SocketState SockUnconnected ''u''] @
       [EnginioFinished [(''expiringUrl'', JStr ''ws://h'')], SocketState SockConnecting ''u'',
        SocketState SockConnected ''u'', SocketData (to_bytes (accept_response (snd (generate_unique_key sha1 ''u''))))])
      (init_ctrl u) = Some (s, evs)"
    and st: "sock_state (ctl_conn s) = SockConnected" "protocol_decode_state (ctl_conn s) = FrameHeaderPending"
      "payload_length (ctl_conn s) = 5" "socket_buffer (ctl_conn s) = []"
    using stale_run[OF assms] by blast
  have "reachable sha1 url_of s" by (rule reachable_run[OF run reachable.init])
  moreover have "snd (ctrl_step sha1 url_of (SocketData [0x81, 0x02, 0x68, 0x69]) s) = []"
    using deliver_stale_frame[OF st(2,3,4)] by simp
  ultimately show ?thesis using st by blast
qed

theorem reconnect_keeps_stale_length_witness:
  "\<exists>s. reachable (\<lambda>_. replicate 20 0) (\<lambda>_. \<lparr>url_host = ''h'', url_port = None, url_path = [], url_query = []\<rparr>) s \<and> sock_state (ctl_conn s) = SockConnected
     \<and> protocol_decode_state (ctl_conn s) = FrameHeaderPending \<and> payload_length (ctl_conn s) = 5
     \<and> snd (ctrl_step (\<lambda>_. replicate 20 0) (\<lambda>_. \<lparr>url_host = ''h'', url_port = None, url_path = [], url_query = []\<rparr>) (SocketData [0x81, 0x02, 0x68, 0x69]) s) = []"
  by (rule reconnect_keeps_stale_length) simp

text \<open>C29.  The read loop terminates within a bound: \<open>onSocketReadyRead\<close> runs at most
  \<open>2 * n + 1\<close> passes on a buffer of \<open>n\<close> bytes, since every pass that goes on consumes
  bytes or leaves \<open>PayloadDataPending\<close>.\<close>

theorem ready_read_passes_bound: "ready_read_passes c \<le> 2 * length (socket_buffer c) + 1"
proof -
  have "ready_read_passes c \<le> loop_measure c"
  proof (induction c rule: ready_read_passes.induct)
    case (1 c)
    show ?case
    proof (cases "socket_buffer c = []")
      case True
      then show ?thesis by (simp add: ready_read_passes.simps)
    next
      case ne: False
      then have pos: "1 \<le> loop_measure c" by (simp add: loop_measure_def Suc_le_eq)
      show ?thesis
      proof (cases "decode_pass c")
        case (Return c' evs)
        then show ?thesis using ne pos by (simp add: ready_read_passes.simps)
      next
        case (Continue c' evs)
        then show ?thesis using ne "1.IH"[OF ne Continue] decode_pass_variant[OF ne Continue]
          by (simp add: ready_read_passes.simps)
      qed
    qed
  qed
  then show ?thesis by (simp add: loop_measure_def split: if_splits)
qed

text \<open>C30.  The connection sequence: \<open>connectToBackend\<close> announces \<open>Connecting\<close> and asks
  for the stream URL; the reply opens the socket to the URL's host, on port 8080 when
  the URL has none; the connected socket sends the opening handshake; the canonical
  response makes the connection announce \<open>Connected\<close>.  These are all the events, in
  this order.\<close>

theorem connect_sequence:
  assumes "\<forall>x. length (sha1 x) = 20" and "url_port (url_of ws) = None"
  shows "\<exists>s. ctrl_run sha1 url_of
           [ConnectToBackend bid secret flt, EnginioFinished [(''expiringUrl'', JStr ws)],
            SocketState SockConnecting uuid, SocketState SockConnected uuid,
            SocketData (to_bytes (accept_response (snd (generate_unique_key sha1 uuid))))] (init_ctrl u)
         = Some (s, [StateChanged ConnectingState,
                     StreamUrlRequest (u\<lparr>url_path := ''/v1/stream_url'', url_query := ''filter='' @ flt\<rparr>),
                     ConnectToHost (url_host (url_of ws)) 8080,
                     SocketWrite (fst (construct_opening_handshake sha1 uuid (url_of ws))),
                     StateChanged ConnectedState])"
  using assms generated_key_shape[OF assms(1), of uuid]
  by (simp add: init_ctrl_def init_conn_def connect_to_backend_def on_enginio_finished_def obj_value_def
      socket_connect_to_host_def on_socket_state_changed_def on_socket_connected_def port_or_def
      with_conn_def deliver_accept Let_def split_def)

theorem connect_sequence_witness:
  "\<exists>s. ctrl_run (\<lambda>_. replicate 20 0) (\<lambda>_. \<lparr>url_host = ''h'', url_port = None, url_path = ''/s'', url_query = []\<rparr>)
      [ConnectToBackend ''id'' ''secret'' ''{}'', EnginioFinished [(''expiringUrl'', JStr ''ws://h/s'')],
       SocketState SockConnecting ''u'', SocketState SockConnected ''u'',
       SocketData (to_bytes (accept_response (snd (generate_unique_key (\<lambda>_. replicate 20 0) ''u''))))]
      (init_ctrl \<lparr>url_host = ''h'', url_port = None, url_path = ''/s'', url_query = []\<rparr>)
    = Some (s, [StateChanged ConnectingState,
                StreamUrlRequest (\<lparr>url_host = ''h'', url_port = None, url_path = ''/s'', url_query = []\<rparr>\<lparr>url_path := ''/v1/stream_url'', url_query := ''filter='' @ ''{}''\<rparr>),
                ConnectToHost (url_host \<lparr>url_host = ''h'', url_port = None, url_path = ''/s'', url_query = []\<rparr>) 8080,
                SocketWrite (fst (construct_opening_handshake (\<lambda>_. replicate 20 0) ''u'' \<lparr>url_host = ''h'', url_port = None, url_path = ''/s'', url_query = []\<rparr>)),
                StateChanged ConnectedState])"
  using connect_sequence[of "\<lambda>_. replicate 20 0" "\<lambda>_. \<lparr>url_host = ''h'', url_port = None, url_path = ''/s'', url_query = []\<rparr>" "''ws://h/s''" "''id''" "''secret''" "''{}''" "''u''" "\<lparr>url_host = ''h'', url_port = None, url_path = ''/s'', url_query = []\<rparr>"]
  by simp



end
