(* ===== verification/Identity.thy ===== *)
theory Identity
  imports Json
begin

text \<open>
  \<open>EnginioIdentity\<close> and \<open>EnginioAuthentication\<close> of
  \<open>src/src/enginio_client/enginioidentity.cpp\<close>: the user name and password properties,
  the identify request \<open>prepareSessionToken\<close> sends through the client, the functor that
  stores the session token from the reply, and \<open>sessionToken\<close>, which asks for a token
  only while it has none.  The client's \<open>identify\<close> call is an output event, its reply
  body an input, and \<open>QJsonDocument::fromJson\<close> a parameter \<open>from_json\<close>.  Signals are
  events, in order.
\<close>

record auth =
  auth_user :: string
  auth_pass :: string
  auth_token :: "byte list"

datatype auth_event =
    UserChanged string
  | IdentifyRequest jobject
  | SessionTokenReceived "byte list"

text \<open>The constructor: empty user, password and token.\<close>

definition init_auth :: auth where
  "init_auth = \<lparr>auth_user = [], auth_pass = [], auth_token = []\<rparr>"

text \<open>\<open>EnginioIdentity::prepareSessionToken\<close>, the base class's: nothing to do.\<close>

definition identity_prepare_session_token :: "'s \<Rightarrow> 's \<times> auth_event list" where
  "identity_prepare_session_token s = (s, [])"

definition set_user :: "string \<Rightarrow> auth \<Rightarrow> auth \<times> auth_event list" where
  "set_user user a = (if auth_user a = user then (a, []) else (a\<lparr>auth_user := user\<rparr>, [UserChanged user]))"

text \<open>\<open>setPassword\<close> emits \<open>userChanged\<close>, with the password as argument.\<close>

definition set_password :: "string \<Rightarrow> auth \<Rightarrow> auth \<times> auth_event list" where
  "set_password password a =
     (if auth_pass a = password then (a, []) else (a\<lparr>auth_pass := password\<rparr>, [UserChanged password]))"

text \<open>The body of the identify request (\<open>IdentifyFunctor::operator()\<close>, lines 83--85).\<close>

definition identify_data :: "auth \<Rightarrow> jobject" where
  "identify_data a = obj_insert ''password'' (JStr (auth_pass a)) (obj_insert ''username'' (JStr (auth_user a)) [])"

text \<open>\<open>IdentifyFunctor::operator()\<close>: the request goes out through the client; the
  \<open>SessionSetterFunctor\<close> it connects to the reply is \<open>session_setter\<close> below.\<close>

definition identify_functor :: "auth \<Rightarrow> auth \<times> auth_event list" where
  "identify_functor a = (a, [IdentifyRequest (identify_data a)])"

text \<open>\<open>EnginioAuthentication::prepareSessionToken\<close>: build the functor and call it.\<close>

definition prepare_session_token :: "auth \<Rightarrow> auth \<times> auth_event list" where
  "prepare_session_token a = identify_functor a"

text \<open>\<open>SessionSetterFunctor::operator()\<close>, run when the identify reply with body \<open>reply\<close>
  finishes: the raw body is stored first, then replaced by the \<open>sessionToken\<close> string
  of the parsed object (Latin-1, one byte per character).\<close>

definition session_setter :: "(byte list \<Rightarrow> jobject) \<Rightarrow> byte list \<Rightarrow> auth \<Rightarrow> auth \<times> auth_event list" where
  "session_setter from_json reply a =
     (let a = a\<lparr>auth_token := reply\<rparr>;
          message = from_json (auth_token a);
          token = to_bytes (to_string (obj_value ''sessionToken'' message));
          a = a\<lparr>auth_token := token\<rparr>
      in (a, [SessionTokenReceived token]))"

text \<open>\<open>sessionToken\<close>: with no token, send the request and wait in a local event loop until
  \<open>sessionTokenReceived\<close>, i.e. until the reply (body \<open>reply\<close>) has been handled.\<close>

definition session_token ::
  "(byte list \<Rightarrow> jobject) \<Rightarrow> byte list \<Rightarrow> auth \<Rightarrow> byte list \<times> auth \<times> auth_event list" where
  "session_token from_json reply a =
     (if auth_token a = [] then
        (let (a1, evs1) = prepare_session_token a;
             (a2, evs2) = session_setter from_json reply a1
         in (auth_token a2, a2, evs1 @ evs2))
      else (auth_token a, a, []))"

subsection \<open>Properties\<close>

lemma session_setter_eq:
  "session_setter from_json reply a =
     (a\<lparr>auth_token := to_bytes (to_string (obj_value ''sessionToken'' (from_json reply)))\<rparr>,
      [SessionTokenReceived (to_bytes (to_string (obj_value ''sessionToken'' (from_json reply))))])"
  by (simp add: session_setter_def Let_def)

text \<open>C26.  \<open>sessionToken\<close> without a token sends one identify request with the credentials,
  stores the token of the reply and returns it; once stored, the token is returned
  without any request.\<close>

theorem session_token_cached:
  assumes "auth_token a = []"
    and "tok = to_bytes (to_string (obj_value ''sessionToken'' (from_json reply)))" and "tok \<noteq> []"
  shows "session_token from_json reply a =
           (tok, a\<lparr>auth_token := tok\<rparr>, [IdentifyRequest (identify_data a), SessionTokenReceived tok])
         \<and> session_token from_json reply' (a\<lparr>auth_token := tok\<rparr>) = (tok, a\<lparr>auth_token := tok\<rparr>, [])"
  using assms by (simp add: session_token_def prepare_session_token_def identify_functor_def session_setter_eq)

theorem session_token_cached_witness:
  "session_token (\<lambda>_. [(''sessionToken'', JStr ''t1'')]) [] init_auth =
     (to_bytes ''t1'', init_auth\<lparr>auth_token := to_bytes ''t1''\<rparr>,
      [IdentifyRequest (identify_data init_auth), SessionTokenReceived (to_bytes ''t1'')])
   \<and> session_token (\<lambda>_. [(''sessionToken'', JStr ''t1'')]) [] (init_auth\<lparr>auth_token := to_bytes ''t1''\<rparr>)
     = (to_bytes ''t1'', init_auth\<lparr>auth_token := to_bytes ''t1''\<rparr>, [])"
  by (rule session_token_cached) (simp_all add: init_auth_def obj_value_def)

text \<open>C27.  A reply without a \<open>sessionToken\<close> string leaves the token empty:
  \<open>sessionToken\<close> returns the empty token and leaves the state as it was, so every
  later call sends the identify request again.\<close>

theorem session_token_missing:
  assumes "auth_token a = []" and "to_string (obj_value ''sessionToken'' (from_json reply)) = []"
  shows "session_token from_json reply a = ([], a, [IdentifyRequest (identify_data a), SessionTokenReceived []])"
  using assms by (simp add: session_token_def prepare_session_token_def identify_functor_def session_setter_eq)

theorem session_token_missing_witness:
  "session_token (\<lambda>_. [(''error'', JStr ''denied'')]) [] init_auth
     = ([], init_auth, [IdentifyRequest (identify_data init_auth), SessionTokenReceived []])"
  by (rule session_token_missing) (simp_all add: init_auth_def obj_value_def to_string_def)

text \<open>C28.  Changing the password emits \<open>userChanged\<close> carrying the new password, although
  the user name is unchanged; setting the same value again emits nothing.\<close>

theorem set_password_signals_user:
  assumes "auth_pass a \<noteq> p"
  shows "set_password p a = (a\<lparr>auth_pass := p\<rparr>, [UserChanged p])
         \<and> auth_user (fst (set_password p a)) = auth_user a
         \<and> set_password p (fst (set_password p a)) = (fst (set_password p a), [])"
  using assms by (simp add: set_password_def)

theorem set_password_signals_user_witness:
  "set_password ''secret'' init_auth = (init_auth\<lparr>auth_pass := ''secret''\<rparr>, [UserChanged ''secret''])
   \<and> auth_user (fst (set_password ''secret'' init_auth)) = auth_user init_auth
   \<and> set_password ''secret'' (fst (set_password ''secret'' init_auth)) = (fst (set_password ''secret'' init_auth), [])"
  by (rule set_password_signals_user) (simp add: init_auth_def)

end
