(* ===== verification/Spec2Isabelle.thy ===== *)
theory Spec2Isabelle
  imports Decoder Model_Props Controller Identity
begin

text \<open>
  \<^bold>\<open>A verification development for the Enginio Qt client library.\<close>

  \<^medskip>
  \<^bold>\<open>The program.\<close>  Two parts of \<open>src/\<close> carry behaviour.
  \<^item> \<open>src/src/enginio_client/enginiobackendconnection.cpp\<close>: a WebSocket client.
    \<open>connectToBackend\<close> asks the backend for a stream URL, \<open>onEnginioFinished\<close> opens a
    \<open>QTcpSocket\<close> to it, \<open>onSocketStateChanged\<close> sends the opening handshake
    (\<open>constructOpeningHandshake\<close>) when the socket connects, and \<open>onSocketReadyRead\<close>
    validates the server's response and then decodes RFC 6455 frames into messages
    (signal \<open>dataReceived\<close>); \<open>protocolError\<close> resets the decoder and closes the
    socket.
  \<^item> \<open>src/src/enginio_client/enginiomodel.cpp\<close>: \<open>EnginioModel\<close>, a list model that
    caches the objects a backend query returned and sends create, update and remove
    requests through an \<open>EnginioClient\<close>; \<open>AttachedDataContainer\<close> counts the
    requests in flight per object and remembers their rows; \<open>finishedRequest\<close> applies
    the replies.
  \<^item> \<open>src/src/enginio_client/enginioidentity.cpp\<close>: \<open>EnginioAuthentication\<close>, the user
    name, password and session token an \<open>EnginioClient\<close> identifies with.
  The other sources are declarations (\<open>enginiomodel.h\<close>,
  \<open>enginioobjectoperation_p.h\<close>, \<open>enginioqmlmodel.h\<close>).

  \<^medskip>
  \<^bold>\<open>Theories.\<close>
  \<^item> \<open>Prelude\<close>: bytes (\<open>8 word\<close>), ASCII conversions, the \<open>QByteArray\<close>/\<open>QString\<close>
    helpers the code calls, the sign-extending \<open>char\<close> to \<open>int\<close> promotion and
    \<open>qFromBigEndian<quint16>\<close>; the collection \<open>wire_simps\<close>.
  \<^item> \<open>Handshake\<close>: \<open>generateBase64EncodedUniqueKey\<close>,
    \<open>computeBase64EncodedSha1VerificationKey\<close>, \<open>constructOpeningHandshake\<close>,
    \<open>extractResponseStatus\<close>, \<open>extractResponseHeader\<close> and the acceptance test of the
    response.  SHA-1 is a parameter; base64 is written out.  Each regular expression is
    a matcher anchored at a position, searched leftmost-first (\<open>regex_search\<close>).
  \<^item> \<open>Frames\<close>: the abstract side, RFC 6455 frames, their encoding, and two reassembly
    walks: the specification's (\<open>spec_messages\<close>) and the one the code implements
    (\<open>code_messages\<close>).
  \<^item> \<open>Decoder\<close>: the connection's fields as the record \<open>conn\<close> (the socket reduced to
    its state and its read buffer) and the handlers \<open>protocol_error\<close>,
    \<open>on_socket_state_changed\<close> and \<open>on_socket_ready_read\<close>.  Each handler returns
    the new state and the events it caused, in order.  The read loop is a \<open>function\<close>
    whose termination is proved with the measure \<open>loop_measure\<close> (twice the buffer
    length, plus one in \<open>PayloadDataPending\<close>); no fuel is needed.
  \<^item> \<open>Json\<close>: \<open>QJsonValue\<close> as a datatype and \<open>QJsonObject\<close> as an association list
    sorted strictly by key, so that HOL equality is \<open>QJsonObject::operator==\<close>
    (\<open>obj_eq_iff_map_of\<close>); the non-const \<open>operator[]\<close> that inserts a null value is
    \<open>obj_index\<close>.
  \<^item> \<open>Attached\<close>: \<open>AttachedDataContainer\<close>, an association list in hash iteration
    order, with the \<open>uint\<close> reference count as a \<open>32 word\<close>.
  \<^item> \<open>Model\<close> and \<open>Model_Edit\<close>: \<open>EnginioModelPrivate\<close> as the record \<open>emodel\<close>
    and every method of it and of \<open>EnginioModel\<close> as a function returning the new
    state and the events (requests to the client, model notifications, warnings), or a
    \<open>model_error\<close> where the code has undefined behaviour.  The client is an external
    collaborator: replies are numbered in the order it hands them out.  An edit of a row
    whose create request is still running is kept in \<open>m_pending\<close> as the functor the
    code connects to the create reply; \<open>swap_for_remove\<close> and \<open>swap_for_set_data\<close>
    are the \<open>operator()\<close> of \<open>SwapNetworkReplyForRemove\<close> and
    \<open>SwapNetworkReplyForSetData\<close>, and \<open>create_reply_finished\<close> runs those connected
    to a reply in connection order.
  \<^item> \<open>Model_Props\<close>: \<open>model_op\<close>, the things that can happen to a model (a public call
    of \<open>enginiomodel.h\<close>, a finished reply, the client's destruction or a change of its
    backend credentials), its step function \<open>model_step\<close>, which routes the client's
    signals as the functors \<open>FinishedRequest\<close>, \<open>EnginioDestroyed\<close> and
    \<open>QueryChanged\<close> do, and the properties.
  \<^item> \<open>Controller\<close>: the rest of \<open>EnginioBackendConnection\<close>.  The state \<open>ctrl\<close> pairs the
    decoder's \<open>conn\<close> with the client settings; \<open>connect_to_backend\<close>,
    \<open>set_service_url\<close>, \<open>on_enginio_finished\<close> (with \<open>QTcpSocket::connectToHost\<close> as
    \<open>socket_connect_to_host\<close>), \<open>on_enginio_error\<close> and \<open>on_socket_connection_error\<close>
    are the slots; \<open>ctrl_input\<close> lists the signals the constructor connects and
    \<open>ctrl_step\<close> dispatches them.  The environment is Qt's socket state machine
    (\<open>socket_transition\<close>, \<open>input_enabled\<close>); \<open>reachable\<close> is the inductive set of
    states a run from the constructor reaches, \<open>ctrl_run\<close> replays a list of inputs.
    SHA-1 and \<open>QUrl\<close> parsing are parameters of the step.  \<open>ready_read_passes\<close>
    counts the iterations of the read loop.
  \<^item> \<open>Identity\<close>: \<open>EnginioAuthentication\<close> as the record \<open>auth\<close>; \<open>set_user\<close>,
    \<open>set_password\<close>, \<open>prepare_session_token\<close>, which calls \<open>identify_functor\<close> (the
    identify request \<open>identify_data\<close>),
    \<open>session_setter\<close> (the reply handler) and \<open>session_token\<close>.  The reply body is an
    input and JSON parsing a parameter; \<open>sessionToken\<close>'s local event loop is taken to
    return once the reply has been handled.

  \<^medskip>
  \<^bold>\<open>What is proved.\<close>
  \<^item> Decoder (C1--C9): decoding any buffer of well-formed frames emits the events of the
    frame-level reassembly (C1); delivery in chunks is equivalent to one delivery (C2);
    single-frame messages meet the specification (C3); fragmented text messages are
    rejected, against the specification (C4); masked and 64-bit-length frames end in
    \<open>protocolError\<close> (C5, C6); the loop stops only when it cannot progress (C7); an
    empty final frame at the end of a delivery is not delivered (C8); the
    \<open>Reading header failed\<close> branch is dead (C9).
  \<^item> Model cache (C10--C19): reference and release are inverse on a fresh id (C10);
    releasing a missing id wraps the \<open>uint\<close> count (C11); so a reply arriving after a
    reset overwrites row 0 of the new cache (C12); every operation keeps the bookkeeping
    well formed while the cache is non-empty (C13); \<open>setQuery\<close> with a page size sets
    the limit and leaves a null offset behind (C14); \<open>fetchMore\<close> asks for the next page
    once (C15); \<open>syncRoles\<close> never renames a role (C16); an empty page is announced as
    an inverted row range (C17); a reply is logged as a backend message exactly when it
    carries a non-null message, a missing key reading as null (C18);
    \<open>setData\<close> lets row -1 through (C19).
  \<^item> Handshake (C20--C22): base64 output has length \<open>4 * ((n + 2) div 3)\<close> and only
    alphabet characters (each sextet index is below 64, proved on \<open>8 word\<close>), so with a
    20-byte SHA-1 the key has 28 characters and the canonical 101 response is accepted
    (C20); the nonce has 44 characters, not the RFC's 24 (C21); an accepted response
    holds the accept header with exactly the expected key (C22).
  \<^item> Connection (C23--C25): by rule induction on \<open>reachable\<close>, the pending payload length
    stays below 65536 and the decoder leaves the handshake only on an open socket (C23);
    a step announces \<open>Connected\<close> exactly on an accepted handshake (C24); a run that
    reconnects after a half-read frame keeps the stale payload length and swallows the
    next text frame (C25).  The run uses a
    uuid and a server that answers with the canonical response.
  \<^item> Authentication (C26--C28): the session token is fetched once and then cached (C26),
    a reply without a token leaves it empty so every call identifies again (C27);
    \<open>setPassword\<close> emits \<open>userChanged\<close> with the password (C28).
  \<^item> Connection, continued (C29--C31): the read loop runs at most \<open>2 * n + 1\<close> passes
    on \<open>n\<close> buffered bytes, the variant being \<open>loop_measure\<close> (C29); a whole connection
    produces \<open>Connecting\<close>, the stream-URL request, \<open>connectToHost\<close> on port 8080, the
    handshake and \<open>Connected\<close>, in order (C30); a stream URL arriving while the socket is
    busy makes \<open>connectToHost\<close> emit an error, which closes the current connection and
    emits \<open>Disconnected\<close> without connecting anew (C31).
  \<^item> Model and client (C32--C33): a destroyed client is forgotten and later edits only
    warn (C32); a change of backend credentials re-sends the query as a full reset (C33).
  \<^item> Edits that wait for a create (C34--C38): an appended row becomes the stored object,
    synced, when its create reply arrives (C34); a failed create fails every operation
    waiting for it and changes nothing else (C35); a waiting \<open>setData\<close> is sent with
    the backend's id once the create succeeds (C36); a waiting \<open>remove\<close> of an appended
    row is sent without \<open>objectType\<close>, because \<open>append\<close> caches the caller's value and
    not the object it sent (C37, a defect of the code); until the create reply arrives a
    \<open>setData\<close> on such a row sends nothing and only queues the update (C38).

  \<^medskip>
  \<^bold>\<open>Not modelled.\<close>  The Qt library itself (\<open>QTcpSocket\<close> beyond its state and read
  buffer, \<open>QRegularExpression\<close> beyond the four patterns used, \<open>QCryptographicHash\<close>,
  \<open>QJsonDocument\<close> parsing, \<open>QUrl\<close> parsing; \<open>connectToHost\<close> is modelled by its effect on the
  socket's state and its \<open>error\<close> signal), the \<open>EnginioClient\<close> network layer
  (its replies are inputs), the debug output, \<open>EnginioModel::flags\<close>, and the files
  that only declare classes: \<open>enginioobjectoperation_p.h\<close> declares
  \<open>EnginioObjectOperationPrivate\<close>, whose methods are defined in no source file given,
  and \<open>enginioqmlmodel.h\<close> declares \<open>EnginioQmlModel\<close>, whose accessors are likewise
  defined elsewhere; a model of their fields alone would state nothing about the code.  Doubles in JSON are modelled as integers, which is what
  the code reads from them.
\<close>

end
